(* ===== verification/Prelude.thy ===== *)
theory Prelude
  imports Main "HOL-Library.Word" "HOL-Library.Monad_Syntax"
begin

text \<open>
  Shared vocabulary of the udb model (\<^verbatim>\<open>src/udb.c\<close>).
  C strings are byte lists: a \<^verbatim>\<open>gchar *\<close> buffer may hold a NUL byte (the
  scanner's octal escapes produce one), and every C function that reads the buffer as a
  string (\<^verbatim>\<open>strlen\<close>, \<^verbatim>\<open>g_strdup\<close>, \<^verbatim>\<open>%s\<close>, \<^verbatim>\<open>g_str_hash\<close>) sees only
  the part before the first NUL: that is \<open>cstr\<close>. The printf conversions the server
  uses (\<^verbatim>\<open>%d\<close>, \<^verbatim>\<open>%ld\<close>) are \<open>nat_dec\<close> and \<open>int_dec\<close>; replies end in
  \<open>CRLF\<close>. The collection \<open>udb_simps\<close> gathers the evaluation equations that
  the component theories register for their operations.
\<close>

named_theorems udb_simps "evaluation equations of the udb model"

type_synonym bytes = "char list"

abbreviation NUL :: char where
  "NUL \<equiv> CHR 0x00"

abbreviation BSL :: char where "BSL \<equiv> CHR 0x5C"
abbreviation LF :: char where "LF \<equiv> CHR 0x0A"
abbreviation CR :: char where "CR \<equiv> CHR 0x0D"
abbreviation TAB :: char where "TAB \<equiv> CHR 0x09"

definition CRLF :: string where
  "CRLF = [CHR 0x0D, CHR 0x0A]"

definition cstr :: "bytes \<Rightarrow> string" where
  "cstr s = takeWhile (\<lambda>c. c \<noteq> NUL) s"

definition nul_free :: "bytes \<Rightarrow> bool" where
  "nul_free s \<longleftrightarrow> NUL \<notin> set s"

definition dec_digit :: "nat \<Rightarrow> char" where
  "dec_digit d = ''0123456789'' ! d"

fun nat_dec :: "nat \<Rightarrow> string" where
  "nat_dec n = (if n < 10 then [dec_digit n] else nat_dec (n div 10) @ [dec_digit (n mod 10)])"

definition int_dec :: "int \<Rightarrow> string" where
  "int_dec i = (if i < 0 then CHR ''-'' # nat_dec (nat (- i)) else nat_dec (nat i))"

text \<open>A reply of the server: bytes ending in CRLF, with no NUL byte before its end, so
  that \<^verbatim>\<open>strlen\<close> of the buffer covers the whole reply. A line feed may occur before
  the end, when the reply carries a stored value that holds one.\<close>

definition crlf_line :: "string \<Rightarrow> bool" where
  "crlf_line r \<longleftrightarrow> nul_free r \<and> 2 \<le> length r \<and> drop (length r - 2) r = CRLF"

text \<open>\<^verbatim>\<open>g_ascii_strcasecmp (s1, s2) == 0\<close>: equality after ASCII lower-casing.\<close>

definition ascii_tolower :: "char \<Rightarrow> char" where
  "ascii_tolower ch = (let n = of_char ch :: nat in if 65 \<le> n \<and> n \<le> 90 then char_of (n + 32) else ch)"

definition g_ascii_strcasecmp_eq :: "string \<Rightarrow> string \<Rightarrow> bool" where
  "g_ascii_strcasecmp_eq s1 s2 \<longleftrightarrow> map ascii_tolower s1 = map ascii_tolower s2"

declare nat_dec.simps [simp del]

subsection \<open>C strings\<close>

lemma cstr_Nil [simp]: "cstr [] = []"
  by (simp add: cstr_def)

lemma cstr_Cons [simp]: "cstr (c # s) = (if c = NUL then [] else c # cstr s)"
  by (simp add: cstr_def)

lemma cstr_append_nul [simp]: "nul_free s \<Longrightarrow> cstr (s @ NUL # r) = s"
  by (induction s) (auto simp: nul_free_def)

lemma cstr_nul_free [simp]: "nul_free (cstr s)"
  by (induction s) (auto simp: nul_free_def)

lemma cstr_id [simp]: "nul_free s \<Longrightarrow> cstr s = s"
  by (induction s) (auto simp: nul_free_def)

lemma cstr_prefix: "\<exists>r. s = cstr s @ r"
  by (metis cstr_def takeWhile_dropWhile_id)

lemma length_cstr_le: "length (cstr s) \<le> length s"
  by (simp add: cstr_def length_takeWhile_le)

lemma nul_free_simps [simp]:
  "nul_free []"
  "nul_free (c # s) \<longleftrightarrow> c \<noteq> NUL \<and> nul_free s"
  "nul_free (s @ t) \<longleftrightarrow> nul_free s \<and> nul_free t"
  by (auto simp: nul_free_def)

lemma CRLF_nul_free [simp]: "nul_free CRLF"
  by (simp add: CRLF_def)

lemma crlf_line_append [simp]: "crlf_line (p @ CRLF) \<longleftrightarrow> nul_free p"
  by (simp add: crlf_line_def CRLF_def)

lemma crlf_line_CRLF [simp]: "crlf_line CRLF"
  using crlf_line_append [of "[]"] by simp

lemma length_CRLF [simp]: "length CRLF = 2"
  by (simp add: CRLF_def)

lemma crlf_line_Cons [simp]: "2 \<le> length r \<Longrightarrow> crlf_line (c # r) \<longleftrightarrow> c \<noteq> NUL \<and> crlf_line r"
proof -
  assume "2 \<le> length r"
  then obtain n where "length r = Suc (Suc n)"
    by (metis add_2_eq_Suc le_Suc_ex)
  then show ?thesis by (simp add: crlf_line_def)
qed

lemma crlf_line_length: "crlf_line q \<Longrightarrow> 2 \<le> length q"
  by (simp add: crlf_line_def)

lemma crlf_line_appendI [simp]: "crlf_line q \<Longrightarrow> crlf_line (p @ q) \<longleftrightarrow> nul_free p"
  using crlf_line_length [of q] by (induction p) (auto simp: crlf_line_def [of q])

subsection \<open>Decimal printing\<close>

lemma dec_digit_ne_nul [simp]:
  assumes "d < 10"
  shows "dec_digit d \<noteq> NUL"
proof -
  have "dec_digit d \<in> set ''0123456789''"
    using assms by (simp add: dec_digit_def del: set_simps)
  then show ?thesis by auto
qed

lemma nat_dec_nonempty [simp]: "nat_dec n \<noteq> []"
  by (subst nat_dec.simps) simp

lemma nat_dec_nul_free [simp]: "nul_free (nat_dec n)"
proof (induction n rule: nat_dec.induct)
  case (1 n)
  then show ?case by (subst nat_dec.simps) auto
qed

lemma int_dec_nul_free [simp]: "nul_free (int_dec i)"
  by (simp add: int_dec_def)

lemma nat_dec_small [udb_simps]: "n < 10 \<Longrightarrow> nat_dec n = [dec_digit n]"
  by (subst nat_dec.simps) simp

lemma nat_dec_big [udb_simps]: "\<not> n < 10 \<Longrightarrow> nat_dec n = nat_dec (n div 10) @ [dec_digit (n mod 10)]"
  by (subst nat_dec.simps) simp

lemma replicate_numeral [udb_simps]: "replicate (numeral n) x = x # replicate (pred_numeral n) x"
  by (simp add: numeral_eq_Suc)

lemma eq_char_of [udb_simps]: "(c = char_of n) \<longleftrightarrow> of_char c = (n::nat) mod 256"
  by (metis char_of_char of_char_of)

lemma char_of_eq [udb_simps]: "(char_of n = c) \<longleftrightarrow> of_char c = (n::nat) mod 256"
  by (metis char_of_char of_char_of)

subsection \<open>Association lists\<close>

text \<open>Facts on \<open>map_of\<close> that the store and the snapshot codec share.\<close>

lemma map_of_filter_neq [simp]: "map_of (filter (\<lambda>p. fst p \<noteq> k) t) = (map_of t)(k := None)"
  by (induction t) (auto simp: fun_eq_iff)

lemma distinct_map_fst_filter [intro]: "distinct (map fst t) \<Longrightarrow> distinct (map fst (filter P t))"
  by (induction t) auto

lemma map_of_rev_distinct: "distinct (map fst ps) \<Longrightarrow> map_of (rev ps) = map_of ps"
  by (simp add: map_of_inject_set rev_map [symmetric])

lemma foldl_get_map_of:
  assumes "distinct (map fst t)" and "\<forall>(k, v) \<in> set t. f k = Some v"
  shows "foldl (\<lambda>m k. case f k of None \<Rightarrow> m | Some v \<Rightarrow> m(k \<mapsto> v)) m0 (map fst t) = m0 ++ map_of t"
  using assms
proof (induction t arbitrary: m0)
  case (Cons p t)
  obtain k v where p: "p = (k, v)" by fastforce
  have nk: "k \<notin> dom (map_of t)" using Cons.prems p by (auto simp: dom_map_of_conv_image_fst)
  have fk: "f k = Some v" using Cons.prems p by simp
  have ih: "foldl (\<lambda>m k. case f k of None \<Rightarrow> m | Some v \<Rightarrow> m(k \<mapsto> v)) (m0(k \<mapsto> v)) (map fst t)
      = (m0(k \<mapsto> v)) ++ map_of t"
    using Cons.IH Cons.prems p by simp
  have eq: "(m0(k \<mapsto> v)) ++ map_of t = m0 ++ map_of ((k, v) # t)"
    using map_add_upd_left [OF nk, of m0 v] by (auto simp: fun_eq_iff map_add_def split: option.split)
  let ?F = "\<lambda>m k. case f k of None \<Rightarrow> m | Some v \<Rightarrow> m(k \<mapsto> v)"
  have "foldl ?F m0 (map fst (p # t)) = foldl ?F (m0(k \<mapsto> v)) (map fst t)"
    using fk p by simp
  also have "\<dots> = (m0(k \<mapsto> v)) ++ map_of t" by (rule ih)
  also have "\<dots> = m0 ++ map_of (p # t)" by (simp only: p eq)
  finally show ?case .
qed simp

end
