(* ===== verification/Store.thy ===== *)
theory Store
  imports Prelude
begin

text \<open>
  The store of \<^verbatim>\<open>src/udb.c\<close>: the global \<^verbatim>\<open>GHashTable *db_mem\<close> created by
  \<^verbatim>\<open>db_init\<close> with \<^verbatim>\<open>g_str_hash\<close>/\<^verbatim>\<open>g_str_equal\<close> and \<^verbatim>\<open>g_free\<close> for
  keys and values, guarded by \<^verbatim>\<open>GMutex db_mutex\<close>, and the operations
  \<^verbatim>\<open>db_insert\<close>, \<^verbatim>\<open>db_lookup\<close>, \<^verbatim>\<open>db_remove\<close> and \<^verbatim>\<open>db_deinit\<close>.

  The hash table is an association list of C strings in iteration order, with distinct
  keys (\<open>ghash_invar\<close>); the GLib operations the code calls are modelled from their
  documented contract: \<^verbatim>\<open>g_hash_table_insert\<close> keeps the old key, replaces the value
  and returns whether the key was new; \<^verbatim>\<open>g_hash_table_remove\<close> returns whether the key
  was present. The real iteration order depends on the hash; every theorem here holds for
  any list order, so the choice of appending new keys at the end is immaterial.

  A \<^verbatim>\<open>GMutex\<close> is not recursive and the server runs on one thread (the GLib main
  loop): locking a mutex that is already held blocks that thread for ever. The model
  makes that explicit: \<open>g_mutex_lock\<close> returns \<open>None\<close> (the server hangs) on a held
  mutex, so each operation is \<open>None\<close> or \<open>Some\<close> of its result and the new state.

  The abstract specification of the store is a map \<open>string \<rightharpoonup> string\<close>;
  \<open>store_abs\<close> is the abstraction and the refinement lemmas show that each operation
  implements the corresponding map operation (the contract of spec section 4.1).
\<close>

text \<open>The compile-time constants of \<^verbatim>\<open>config.h\<close> (not part of the repository) that the
  code reads: the longest key \<^verbatim>\<open>SET\<close> accepts and the key-file group of the snapshot.
  Every theorem holds for any values of them.\<close>

record udb_config =
  UDB_MAX_KEY_LENGTH :: nat
  UDB_DB_SECTION :: string

type_synonym ghash = "(string \<times> string) list"

record db_state =
  db_mem :: ghash
  db_mutex :: bool

subsection \<open>GLib primitives\<close>

definition g_mutex_lock :: "bool \<Rightarrow> bool option" where
  "g_mutex_lock held = (if held then None else Some True)"

definition g_mutex_unlock :: "bool \<Rightarrow> bool" where
  "g_mutex_unlock held = False"

fun g_hash_table_insert :: "string \<Rightarrow> string \<Rightarrow> ghash \<Rightarrow> bool \<times> ghash" where
  "g_hash_table_insert k v [] = (True, [(k, v)])"
| "g_hash_table_insert k v ((k', v') # t) =
     (if k = k' then (False, (k', v) # t)
      else apsnd (Cons (k', v')) (g_hash_table_insert k v t))"

definition g_hash_table_lookup :: "ghash \<Rightarrow> string \<Rightarrow> string option" where
  "g_hash_table_lookup t k = map_of t k"

definition g_hash_table_remove :: "string \<Rightarrow> ghash \<Rightarrow> bool \<times> ghash" where
  "g_hash_table_remove k t = (k \<in> fst ` set t, filter (\<lambda>p. fst p \<noteq> k) t)"

definition g_hash_table_remove_all :: "ghash \<Rightarrow> ghash" where
  "g_hash_table_remove_all t = []"

definition ghash_invar :: "ghash \<Rightarrow> bool" where
  "ghash_invar t \<longleftrightarrow> distinct (map fst t) \<and> list_all (\<lambda>(k, v). nul_free k \<and> nul_free v) t"

subsection \<open>The db layer of udb.c\<close>

definition db_init :: db_state where
  "db_init = \<lparr>db_mem = [], db_mutex = False\<rparr>"

definition db_insert :: "string \<Rightarrow> string \<Rightarrow> db_state \<Rightarrow> (bool \<times> db_state) option" where
  "db_insert key value s = do {
     m \<leftarrow> g_mutex_lock (db_mutex s);
     let (result, t) = g_hash_table_insert (cstr key) (cstr value) (db_mem s);
     Some (result, s\<lparr>db_mem := t, db_mutex := g_mutex_unlock m\<rparr>)
   }"

definition db_lookup :: "string \<Rightarrow> db_state \<Rightarrow> (string option \<times> db_state) option" where
  "db_lookup key s = do {
     m \<leftarrow> g_mutex_lock (db_mutex s);
     let result = g_hash_table_lookup (db_mem s) (cstr key);
     Some (result, s\<lparr>db_mutex := g_mutex_unlock m\<rparr>)
   }"

definition db_remove :: "string \<Rightarrow> db_state \<Rightarrow> (bool \<times> db_state) option" where
  "db_remove key s = do {
     m \<leftarrow> g_mutex_lock (db_mutex s);
     let (result, t) = g_hash_table_remove (cstr key) (db_mem s);
     Some (result, s\<lparr>db_mem := t, db_mutex := g_mutex_unlock m\<rparr>)
   }"

text \<open>\<^verbatim>\<open>db_deinit\<close>: \<^verbatim>\<open>g_mutex_clear (&db_mutex)\<close>, undefined on a held mutex
  (\<open>None\<close>), then \<^verbatim>\<open>g_hash_table_destroy (db_mem)\<close>, which frees the table and
  every key and value; nothing of the store remains.\<close>

definition g_mutex_clear :: "bool \<Rightarrow> unit option" where
  "g_mutex_clear held = (if held then None else Some ())"

definition db_deinit :: "db_state \<Rightarrow> unit option" where
  "db_deinit s = g_mutex_clear (db_mutex s)"

text \<open>The abstraction of the store and its well-formedness.\<close>

definition store_abs :: "db_state \<Rightarrow> string \<rightharpoonup> string" where
  "store_abs s = map_of (db_mem s)"

definition db_invar :: "db_state \<Rightarrow> bool" where
  "db_invar s \<longleftrightarrow> ghash_invar (db_mem s) \<and> \<not> db_mutex s"

subsection \<open>The hash table refines a map\<close>

lemma g_hash_table_insert_result [simp]:
  "fst (g_hash_table_insert k v t) \<longleftrightarrow> k \<notin> fst ` set t"
  by (induction t) (auto split: if_splits)

lemma map_of_g_hash_table_insert [simp]:
  "map_of (snd (g_hash_table_insert k v t)) = (map_of t)(k \<mapsto> v)"
  by (induction t) (auto simp: fun_eq_iff)

lemma keys_g_hash_table_insert [simp]:
  "fst ` set (snd (g_hash_table_insert k v t)) = insert k (fst ` set t)"
proof -
  have "dom (map_of (snd (g_hash_table_insert k v t))) = insert k (dom (map_of t))"
    by simp
  then show ?thesis
    by (simp only: dom_map_of_conv_image_fst)
qed

lemma distinct_g_hash_table_insert:
  "distinct (map fst t) \<Longrightarrow> distinct (map fst (snd (g_hash_table_insert k v t)))"
proof (induction t)
  case Nil
  then show ?case by simp
next
  case (Cons p t)
  obtain k' v' where p: "p = (k', v')" by fastforce
  have keys: "set (map fst (snd (g_hash_table_insert k v t))) = insert k (fst ` set t)"
    by simp
  show ?case
    using Cons keys p by auto
qed

lemma set_g_hash_table_insert:
  "set (snd (g_hash_table_insert k v t)) \<subseteq> insert (k, v) (set t)"
  by (induction t) (auto split: if_splits)

lemma ghash_invar_insert [intro]:
  assumes "ghash_invar t" and "nul_free k" and "nul_free v"
  shows "ghash_invar (snd (g_hash_table_insert k v t))"
proof -
  have "list_all (\<lambda>(k, v). nul_free k \<and> nul_free v) (snd (g_hash_table_insert k v t))"
    using assms set_g_hash_table_insert [of k v t]
    by (fastforce simp: ghash_invar_def list_all_iff)
  with assms show ?thesis
    by (simp add: ghash_invar_def distinct_g_hash_table_insert)
qed

lemma ghash_invar_remove [intro]:
  "ghash_invar t \<Longrightarrow> ghash_invar (snd (g_hash_table_remove k t))"
  by (auto simp: ghash_invar_def g_hash_table_remove_def list_all_iff)

lemma map_of_g_hash_table_remove [simp]:
  "map_of (snd (g_hash_table_remove k t)) = (map_of t)(k := None)"
  by (simp add: g_hash_table_remove_def)

lemma g_hash_table_remove_result [simp]:
  "fst (g_hash_table_remove k t) \<longleftrightarrow> k \<in> dom (map_of t)"
  by (simp add: g_hash_table_remove_def dom_map_of_conv_image_fst)

lemma ghash_invar_nil [simp]: "ghash_invar []"
  by (simp add: ghash_invar_def)

lemma ghash_invar_remove_all [simp]: "ghash_invar (g_hash_table_remove_all t)"
  by (simp add: g_hash_table_remove_all_def)

lemma ghash_invar_values:
  "ghash_invar t \<Longrightarrow> map_of t k = Some v \<Longrightarrow> nul_free v"
  by (auto simp: ghash_invar_def list_all_iff dest: map_of_SomeD)

lemma store_abs_init [simp]: "store_abs db_init = Map.empty"
  by (simp add: store_abs_def db_init_def)

subsection \<open>Evaluation of the db operations on a free mutex\<close>

lemma db_insert_free [udb_simps]:
  "\<not> db_mutex s \<Longrightarrow> db_insert key value s =
     Some (cstr key \<notin> fst ` set (db_mem s),
           s\<lparr>db_mem := snd (g_hash_table_insert (cstr key) (cstr value) (db_mem s)), db_mutex := False\<rparr>)"
  by (simp add: db_insert_def g_mutex_lock_def g_mutex_unlock_def case_prod_beta)

lemma db_lookup_free [udb_simps]:
  "\<not> db_mutex s \<Longrightarrow> db_lookup key s = Some (map_of (db_mem s) (cstr key), s)"
  by (simp add: db_lookup_def g_mutex_lock_def g_mutex_unlock_def g_hash_table_lookup_def)

lemma db_remove_free [udb_simps]:
  "\<not> db_mutex s \<Longrightarrow> db_remove key s =
     Some (cstr key \<in> dom (map_of (db_mem s)),
           s\<lparr>db_mem := filter (\<lambda>p. fst p \<noteq> cstr key) (db_mem s), db_mutex := False\<rparr>)"
  by (simp add: db_remove_def g_mutex_lock_def g_mutex_unlock_def g_hash_table_remove_def
      dom_map_of_conv_image_fst case_prod_beta)

lemma db_ops_held:
  "db_mutex s \<Longrightarrow> db_insert key value s = None"
  "db_mutex s \<Longrightarrow> db_lookup key s = None"
  "db_mutex s \<Longrightarrow> db_remove key s = None"
  by (simp_all add: db_insert_def db_lookup_def db_remove_def g_mutex_lock_def)

end
