(* ===== verification/Store_Spec.thy ===== *)
theory Store_Spec
  imports Store
begin

text \<open>
  The contract of the store (spec section 4.1) as an abstract machine, and the proof that
  the db layer of \<^verbatim>\<open>src/udb.c\<close> implements it. The operations are a datatype, so
  that a sequence of calls (the order in which the callbacks reach the store) is a list.
  \<open>map_step\<close> runs one operation on a map \<open>string \<rightharpoonup> string\<close>, and
  \<open>db_step\<close> runs it through \<^verbatim>\<open>db_insert\<close>, \<^verbatim>\<open>db_lookup\<close> or
  \<^verbatim>\<open>db_remove\<close>. The runs \<open>map_run\<close> and \<open>db_run\<close> fold them over a list;
  \<open>db_run\<close> is \<open>None\<close> when a call would block on \<^verbatim>\<open>db_mutex\<close>.
\<close>

datatype store_op = OP_INSERT string string | OP_LOOKUP string | OP_REMOVE string

datatype store_res = R_BOOL bool | R_VAL "string option"

definition map_step :: "store_op \<Rightarrow> (string \<rightharpoonup> string) \<Rightarrow> store_res \<times> (string \<rightharpoonup> string)" where
  "map_step op m =
     (case op of
        OP_INSERT k v \<Rightarrow> (R_BOOL (k \<notin> dom m), m(k \<mapsto> v))
      | OP_LOOKUP k \<Rightarrow> (R_VAL (m k), m)
      | OP_REMOVE k \<Rightarrow> (R_BOOL (k \<in> dom m), m(k := None)))"

definition db_step :: "store_op \<Rightarrow> db_state \<Rightarrow> (store_res \<times> db_state) option" where
  "db_step op s =
     (case op of
        OP_INSERT k v \<Rightarrow> map_option (apfst R_BOOL) (db_insert k v s)
      | OP_LOOKUP k \<Rightarrow> map_option (apfst R_VAL) (db_lookup k s)
      | OP_REMOVE k \<Rightarrow> map_option (apfst R_BOOL) (db_remove k s))"

text \<open>The arguments the server passes: C strings without an inner NUL.\<close>

definition op_args_ok :: "store_op \<Rightarrow> bool" where
  "op_args_ok op \<longleftrightarrow>
     (case op of OP_INSERT k v \<Rightarrow> nul_free k \<and> nul_free v | OP_LOOKUP k \<Rightarrow> nul_free k
               | OP_REMOVE k \<Rightarrow> nul_free k)"

fun map_run :: "store_op list \<Rightarrow> (string \<rightharpoonup> string) \<Rightarrow> store_res list \<times> (string \<rightharpoonup> string)" where
  "map_run [] m = ([], m)"
| "map_run (op # ops) m = (let (r, m') = map_step op m in apfst (Cons r) (map_run ops m'))"

fun db_run :: "store_op list \<Rightarrow> db_state \<Rightarrow> (store_res list \<times> db_state) option" where
  "db_run [] s = Some ([], s)"
| "db_run (op # ops) s = do {
     (r, s') \<leftarrow> db_step op s;
     (rs, s'') \<leftarrow> db_run ops s';
     Some (r # rs, s'')
   }"

lemma db_step_refines:
  assumes "db_invar s" and "op_args_ok op"
  shows "\<exists>r s'. db_step op s = Some (r, s') \<and> db_invar s' \<and> map_step op (store_abs s) = (r, store_abs s')"
  using assms
  by (cases op) (auto simp: db_step_def map_step_def op_args_ok_def db_insert_free db_lookup_free
      db_remove_free db_invar_def store_abs_def dom_map_of_conv_image_fst
      intro: ghash_invar_insert ghash_invar_remove [unfolded g_hash_table_remove_def, simplified])

text \<open>C27: the db layer refines the map contract. Any sequence of store calls with C
  string arguments, started from a well-formed store, returns. It gives the same results
  as the same calls on the abstract map, and leaves the store whose abstraction is the
  map's final state.\<close>

theorem db_run_refines_map:
  assumes "db_invar s" and "list_all op_args_ok ops"
  shows "map_option (\<lambda>(rs, s'). (rs, store_abs s')) (db_run ops s) = Some (map_run ops (store_abs s))"
  using assms
proof (induction ops arbitrary: s)
  case (Cons op ops)
  obtain r s' where s': "db_step op s = Some (r, s')" "db_invar s'" "map_step op (store_abs s) = (r, store_abs s')"
    using db_step_refines [of s op] Cons.prems by auto
  obtain rs s'' where s'': "db_run ops s' = Some (rs, s'')" "map_run ops (store_abs s') = (rs, store_abs s'')"
    using Cons.IH [OF s'(2)] Cons.prems by (auto split: option.splits)
  show ?case using s' s'' by simp
qed simp

theorem db_run_refines_map_witness:
  "map_option (\<lambda>(rs, s'). (rs, store_abs s'))
     (db_run [OP_INSERT ''a'' ''1'', OP_INSERT ''a'' ''2'', OP_LOOKUP ''a'', OP_REMOVE ''a'', OP_REMOVE ''a'',
              OP_LOOKUP ''a''] db_init)
   = Some ([R_BOOL True, R_BOOL False, R_VAL (Some ''2''), R_BOOL True, R_BOOL False, R_VAL None], Map.empty)"
proof -
  let ?ops = "[OP_INSERT ''a'' ''1'', OP_INSERT ''a'' ''2'', OP_LOOKUP ''a'', OP_REMOVE ''a'', OP_REMOVE ''a'',
               OP_LOOKUP ''a'']"
  have "db_invar db_init" by (simp add: db_invar_def db_init_def)
  moreover have "list_all op_args_ok ?ops"
    by (simp add: op_args_ok_def nul_free_def)
  ultimately have "map_option (\<lambda>(rs, s'). (rs, store_abs s')) (db_run ?ops db_init) =
      Some (map_run ?ops (store_abs db_init))"
    by (rule db_run_refines_map)
  also have "\<dots> = Some ([R_BOOL True, R_BOOL False, R_VAL (Some ''2''), R_BOOL True, R_BOOL False, R_VAL None],
      Map.empty)"
    by (simp add: map_step_def)
  finally show ?thesis .
qed

end
