(* ===== verification/Scanner.thy ===== *)
theory Scanner
  imports Prelude
begin

text \<open>
  The command lexer of \<^verbatim>\<open>src/udb.c\<close>: one process-wide \<^verbatim>\<open>GScanner\<close>, configured
  by \<^verbatim>\<open>udb_scanner_init\<close> (lines 210--243) and guarded by \<^verbatim>\<open>scanner_mutex\<close>.
  GScanner is GLib code, outside the repository; it is modelled here from its contract in
  spec section 4.3 and the GLib 2 scanner's documented behaviour, restricted to the
  features the configuration can switch on: identifiers, single- and double-quoted strings
  (with the double-quoted escapes \<^verbatim>\<open>\\ \n \t \r \b \f\<close> and up to three octal digits),
  binary, octal, decimal and hexadecimal integers, floats, single-line comments and
  single characters. Multi-line comments, symbols and \<^verbatim>\<open>$\<close>-hex numbers are switched
  off by \<^verbatim>\<open>udb_scanner_init\<close> and are not in the model.

  The scanner reads the bytes from its text pointer to \<^verbatim>\<open>text_end\<close>; the list
  \<open>scan_text\<close> is exactly that range. Reading at \<^verbatim>\<open>text_end\<close> yields NUL without
  advancing; a NUL inside the range is consumed like any other byte. This matters because
  \<^verbatim>\<open>process_command_line\<close> passes the length \<^verbatim>\<open>-1\<close> (a \<^verbatim>\<open>guint\<close>, so
  \<open>2^32 - 1\<close>): the range then runs past the line's terminating NUL into whatever memory
  follows it.

  Integers are \<^verbatim>\<open>gulong\<close> values (\<open>64 word\<close>) from \<^verbatim>\<open>g_ascii_strtoull\<close>, which
  saturates at \<open>2^64 - 1\<close>. A float is kept as the exact decimal \<open>M \<cdot> 10^E\<close> that
  \<^verbatim>\<open>g_strtod\<close> reads (see theory Printf for how it is printed).
\<close>

datatype scan_error =
    G_ERR_UNKNOWN | G_ERR_UNEXP_EOF | G_ERR_UNEXP_EOF_IN_STRING | G_ERR_UNEXP_EOF_IN_COMMENT
  | G_ERR_NON_DIGIT_IN_CONST | G_ERR_DIGIT_RADIX | G_ERR_FLOAT_RADIX | G_ERR_FLOAT_MALFORMED

datatype token =
    G_TOKEN_EOF
  | G_TOKEN_NONE
  | G_TOKEN_ERROR scan_error
  | G_TOKEN_CHAR char
  | G_TOKEN_BINARY "64 word"
  | G_TOKEN_OCTAL "64 word"
  | G_TOKEN_INT "64 word"
  | G_TOKEN_HEX "64 word"
  | G_TOKEN_FLOAT nat int
  | G_TOKEN_STRING bytes
  | G_TOKEN_IDENTIFIER bytes
  | G_TOKEN_COMMENT_SINGLE bytes

datatype num_kind = NK_BINARY | NK_OCTAL | NK_INT | NK_HEX | NK_FLOAT

record scanner_config =
  cset_skip_characters :: string
  cset_identifier_first :: string
  cset_identifier_nth :: string
  cpair_comment_single :: "char \<times> char"
  skip_comment_single :: bool
  scan_identifier :: bool
  scan_identifier_1char :: bool
  scan_binary :: bool
  scan_octal :: bool
  scan_float :: bool
  scan_hex :: bool
  scan_string_sq :: bool
  scan_string_dq :: bool
  numbers_2_int :: bool

record gscanner =
  scan_text :: bytes
  scan_token :: token

text \<open>\<^verbatim>\<open>g_scanner_new\<close>: no text yet, and the current token \<^verbatim>\<open>G_TOKEN_NONE\<close>.\<close>

definition g_scanner_new :: gscanner where
  "g_scanner_new = \<lparr>scan_text = [], scan_token = G_TOKEN_NONE\<rparr>"

subsection \<open>Character classes and the configuration\<close>

definition G_CSET_a_2_z :: string where
  "G_CSET_a_2_z = ''abcdefghijklmnopqrstuvwxyz''"

definition G_CSET_A_2_Z :: string where
  "G_CSET_A_2_Z = ''ABCDEFGHIJKLMNOPQRSTUVWXYZ''"

definition G_CSET_DIGITS :: string where
  "G_CSET_DIGITS = ''0123456789''"

text \<open>The defaults \<^verbatim>\<open>g_scanner_new (NULL)\<close> starts from (GLib's config template).\<close>

definition g_scanner_config_template :: scanner_config where
  "g_scanner_config_template =
     \<lparr>cset_skip_characters = [CHR '' '', CHR 0x09, CHR 0x0A],
      cset_identifier_first = G_CSET_a_2_z @ ''_'' @ G_CSET_A_2_Z,
      cset_identifier_nth = G_CSET_a_2_z @ ''_'' @ G_CSET_A_2_Z @ G_CSET_DIGITS,
      cpair_comment_single = (CHR ''#'', CHR 0x0A),
      skip_comment_single = True,
      scan_identifier = True,
      scan_identifier_1char = False,
      scan_binary = False,
      scan_octal = True,
      scan_float = True,
      scan_hex = True,
      scan_string_sq = True,
      scan_string_dq = True,
      numbers_2_int = True\<rparr>"

text \<open>\<^verbatim>\<open>udb_scanner_init\<close>: the fields it sets, on top of the template.\<close>

definition udb_scanner_init :: scanner_config where
  "udb_scanner_init = g_scanner_config_template
     \<lparr>cset_skip_characters := [CHR '' '', CHR 0x09, CHR 0x0D, CHR 0x0A],
      cset_identifier_first := G_CSET_a_2_z @ G_CSET_A_2_Z @ ''_'',
      cset_identifier_nth := G_CSET_a_2_z @ G_CSET_A_2_Z @ G_CSET_DIGITS @ ''_'',
      scan_identifier := True,
      scan_identifier_1char := True,
      scan_binary := True,
      scan_octal := True,
      scan_float := True,
      scan_hex := True,
      scan_string_sq := True,
      scan_string_dq := True,
      numbers_2_int := True,
      skip_comment_single := False\<rparr>"

subsection \<open>Reading bytes\<close>

definition g_scanner_get_char :: "bytes \<Rightarrow> char \<times> bytes" where
  "g_scanner_get_char t = (case t of [] \<Rightarrow> (NUL, []) | c # r \<Rightarrow> (c, r))"

definition g_scanner_peek_next_char :: "bytes \<Rightarrow> char" where
  "g_scanner_peek_next_char t = (case t of [] \<Rightarrow> NUL | c # _ \<Rightarrow> c)"

text \<open>\<^verbatim>\<open>strchr (s, c) != NULL\<close>: the terminating NUL of \<open>s\<close> matches \<open>c = NUL\<close>.\<close>

definition strchr :: "string \<Rightarrow> char \<Rightarrow> bool" where
  "strchr s c \<longleftrightarrow> c = NUL \<or> c \<in> set s"

definition g_scanner_char_2_num :: "char \<Rightarrow> nat \<Rightarrow> nat option" where
  "g_scanner_char_2_num c base =
     (let n = of_char c :: nat;
          d = (if 48 \<le> n \<and> n \<le> 57 then Some (n - 48)
               else if 65 \<le> n \<and> n \<le> 90 then Some (n - 55)
               else if 97 \<le> n \<and> n \<le> 122 then Some (n - 87)
               else None)
      in (case d of Some v \<Rightarrow> if v < base then Some v else None | None \<Rightarrow> None))"

definition is_digit :: "char \<Rightarrow> bool" where
  "is_digit c \<longleftrightarrow> c \<in> set G_CSET_DIGITS"

subsection \<open>Sub-scanners\<close>

text \<open>The identifier loop: \<^verbatim>\<open>do { ch = get_char; append ch; ch = peek } while (ch &&
  strchr (nth, ch))\<close>.\<close>

fun scan_ident_rest :: "string \<Rightarrow> bytes \<Rightarrow> bytes \<times> bytes" where
  "scan_ident_rest cs [] = ([NUL], [])"
| "scan_ident_rest cs (c # t) =
     (let p = g_scanner_peek_next_char t in
      if p \<noteq> NUL \<and> strchr cs p then apfst (Cons c) (scan_ident_rest cs t) else ([c], t))"

definition scan_identifier_tok :: "scanner_config \<Rightarrow> char \<Rightarrow> bytes \<Rightarrow> token \<times> bytes" where
  "scan_identifier_tok cfg ch t =
     (if strchr (cset_identifier_nth cfg) (g_scanner_peek_next_char t)
      then apfst (\<lambda>s. G_TOKEN_IDENTIFIER (ch # s)) (scan_ident_rest (cset_identifier_nth cfg) t)
      else if scan_identifier_1char cfg then (G_TOKEN_IDENTIFIER [ch], t)
      else (G_TOKEN_CHAR ch, t))"

text \<open>String and comment bodies return the collected bytes, whether the closing
  delimiter was seen, and the rest of the text.\<close>

fun scan_string_sq_body :: "bytes \<Rightarrow> (bytes \<times> bool) \<times> bytes" where
  "scan_string_sq_body [] = (([], False), [])"
| "scan_string_sq_body (c # t) =
     (if c = NUL then (([], False), t)
      else if c = CHR 0x27 then (([], True), t)
      else apfst (apfst (Cons c)) (scan_string_sq_body t))"

definition is_octal :: "char \<Rightarrow> bool" where
  "is_octal c \<longleftrightarrow> c \<in> set ''01234567''"

definition octal_value :: "char \<Rightarrow> nat" where
  "octal_value c = of_char c - 48"

text \<open>One escape of a double-quoted string, after the backslash and the byte \<open>e\<close>
  (not NUL): the bytes it appends and the rest of the text. An octal escape takes up to two
  more octal digits; its value is truncated to a byte by \<^verbatim>\<open>g_string_append_c\<close>.\<close>

definition octal_escape :: "char \<Rightarrow> bytes \<Rightarrow> bytes \<times> bytes" where
  "octal_escape e t =
     (case t of
        d2 # t3 \<Rightarrow>
          (if is_octal d2 then
             (case t3 of
                d3 # t4 \<Rightarrow>
                  (if is_octal d3
                   then ([char_of (octal_value e * 64 + octal_value d2 * 8 + octal_value d3)], t4)
                   else ([char_of (octal_value e * 8 + octal_value d2)], t3))
              | [] \<Rightarrow> ([char_of (octal_value e * 8 + octal_value d2)], []))
           else ([char_of (octal_value e)], t))
      | [] \<Rightarrow> ([char_of (octal_value e)], []))"

definition dq_escape :: "char \<Rightarrow> bytes \<Rightarrow> bytes \<times> bytes" where
  "dq_escape e t =
     (if e = CHR 0x5C then ([CHR 0x5C], t)
      else if e = CHR ''n'' then ([CHR 0x0A], t)
      else if e = CHR ''t'' then ([CHR 0x09], t)
      else if e = CHR ''r'' then ([CHR 0x0D], t)
      else if e = CHR ''b'' then ([CHR 0x08], t)
      else if e = CHR ''f'' then ([CHR 0x0C], t)
      else if is_octal e then octal_escape e t
      else ([CHR 0x5C, e], t))"

text \<open>The body of a double-quoted string. A NUL ends it unclosed; a backslash
  followed by NUL appends nothing and the string goes on (the escape's inner
  \<^verbatim>\<open>switch\<close> only leaves the escape, the loop runs while
  \<^verbatim>\<open>in_string_dq\<close> holds).\<close>

function scan_string_dq_body :: "bytes \<Rightarrow> (bytes \<times> bool) \<times> bytes" where
  "scan_string_dq_body [] = (([], False), [])"
| "scan_string_dq_body (c # t) =
     (if c = NUL then (([], False), t)
      else if c = CHR 0x22 then (([], True), t)
      else if c = CHR 0x5C then
        (case t of
           [] \<Rightarrow> (([], False), [])
         | e # t2 \<Rightarrow>
             (if e = NUL then scan_string_dq_body t2
              else (let (out, t3) = dq_escape e t2
                    in apfst (apfst ((@) out)) (scan_string_dq_body t3))))
      else apfst (apfst (Cons c)) (scan_string_dq_body t))"
  by pat_completeness auto
termination
  by (relation "measure length")
    (auto simp: dq_escape_def octal_escape_def split: if_splits list.splits)

fun scan_comment_body :: "char \<Rightarrow> bytes \<Rightarrow> (bytes \<times> bool) \<times> bytes" where
  "scan_comment_body e [] = (([], False), [])"
| "scan_comment_body e (c # t) =
     (if c = NUL then (([], False), t)
      else if c = e then (([], True), t)
      else apfst (apfst (Cons c)) (scan_comment_body e t))"

text \<open>The number loop of \<^verbatim>\<open>number_parsing\<close>: \<open>k\<close> is the token kind so far,
  \<open>ch\<close> the last byte appended. It returns the kind or the error that stopped it, the
  bytes appended to the number's \<^verbatim>\<open>gstring\<close>, and the rest of the text.\<close>

fun scan_number_loop ::
  "scanner_config \<Rightarrow> num_kind \<Rightarrow> char \<Rightarrow> bytes \<Rightarrow> (scan_error + num_kind) \<times> bytes \<times> bytes" where
  "scan_number_loop cfg k ch [] = (Inr k, [], [])"
| "scan_number_loop cfg k ch (c # t) =
     (let is_E = (k = NK_FLOAT \<and> (ch = CHR ''e'' \<or> ch = CHR ''E''))
      in if g_scanner_char_2_num c 36 \<noteq> None \<or> (scan_float cfg \<and> c = CHR ''.'')
            \<or> (is_E \<and> (c = CHR ''+'' \<or> c = CHR ''-''))
      then (if c = CHR ''.'' then
              (if k \<noteq> NK_INT \<and> k \<noteq> NK_OCTAL
               then (Inl (if k = NK_FLOAT then G_ERR_FLOAT_MALFORMED else G_ERR_NON_DIGIT_IN_CONST), [], t)
               else apsnd (apfst (Cons c)) (scan_number_loop cfg NK_FLOAT c t))
            else if is_digit c then apsnd (apfst (Cons c)) (scan_number_loop cfg k c t)
            else if c = CHR ''-'' \<or> c = CHR ''+'' then
              (if k \<noteq> NK_FLOAT then (Inl G_ERR_NON_DIGIT_IN_CONST, [], t)
               else apsnd (apfst (Cons c)) (scan_number_loop cfg k c t))
            else if c = CHR ''e'' \<or> c = CHR ''E'' then
              (if (k \<noteq> NK_HEX \<and> \<not> scan_float cfg)
                  \<or> (k \<noteq> NK_HEX \<and> k \<noteq> NK_OCTAL \<and> k \<noteq> NK_FLOAT \<and> k \<noteq> NK_INT)
               then (Inl G_ERR_NON_DIGIT_IN_CONST, [], t)
               else apsnd (apfst (Cons c)) (scan_number_loop cfg (if k \<noteq> NK_HEX then NK_FLOAT else k) c t))
            else if k \<noteq> NK_HEX then (Inl G_ERR_NON_DIGIT_IN_CONST, [], t)
            else apsnd (apfst (Cons c)) (scan_number_loop cfg k c t))
      else (Inr k, [], c # t))"

text \<open>\<^verbatim>\<open>g_ascii_strtoull\<close> on the digit strings the scanner hands it: the value
  (saturated at \<open>2^64 - 1\<close>, as on overflow) and the bytes from \<^verbatim>\<open>endptr\<close> on. Base 16
  skips a leading \<^verbatim>\<open>0x\<close>; with no digit at all the value is 0 and \<^verbatim>\<open>endptr\<close> is the
  start, or the \<^verbatim>\<open>x\<close> of a bare prefix.\<close>

fun digit_run :: "nat \<Rightarrow> bytes \<Rightarrow> nat list \<times> bytes" where
  "digit_run base [] = ([], [])"
| "digit_run base (c # t) =
     (case g_scanner_char_2_num c base of
        None \<Rightarrow> ([], c # t)
      | Some d \<Rightarrow> apfst (Cons d) (digit_run base t))"

definition digits_value :: "nat \<Rightarrow> nat list \<Rightarrow> nat" where
  "digits_value base ds = foldl (\<lambda>a d. a * base + d) 0 ds"

definition hex_prefix :: "bytes \<Rightarrow> bool" where
  "hex_prefix s \<longleftrightarrow> (case s of c # x # _ \<Rightarrow> c = CHR ''0'' \<and> (x = CHR ''x'' \<or> x = CHR ''X'') | _ \<Rightarrow> False)"

definition g_ascii_strtoull :: "bytes \<Rightarrow> nat \<Rightarrow> nat \<times> bytes" where
  "g_ascii_strtoull s base =
     (let s' = (if base = 16 \<and> hex_prefix s then drop 2 s else s);
          (ds, rest) = digit_run base s'
      in if ds = [] then (0, if s' \<noteq> s then drop 1 s else s)
         else (min (digits_value base ds) (2 ^ 64 - 1), rest))"

text \<open>\<^verbatim>\<open>g_strtod\<close> on the scanner's float strings (digits, one dot, an exponent):
  the exact value \<open>M \<cdot> 10^E\<close> and the bytes from \<^verbatim>\<open>endptr\<close> on.\<close>

definition strtod_exponent :: "bytes \<Rightarrow> int \<times> bytes" where
  "strtod_exponent r =
     (case r of
        e # r1 \<Rightarrow>
          (if e = CHR ''e'' \<or> e = CHR ''E'' then
             (let (neg, r2) = (case r1 of
                                 c # r3 \<Rightarrow> (if c = CHR ''-'' then (True, r3)
                                           else if c = CHR ''+'' then (False, r3) else (False, r1))
                               | [] \<Rightarrow> (False, r1));
                  (ds, r4) = digit_run 10 r2
              in if ds = [] then (0, r)
                 else ((if neg then - 1 else 1) * int (digits_value 10 ds), r4))
           else (0, r))
      | [] \<Rightarrow> (0, r))"

definition g_strtod :: "bytes \<Rightarrow> (nat \<times> int) \<times> bytes" where
  "g_strtod s =
     (let (ip, r1) = digit_run 10 s;
          (fp, r2) = (case r1 of
                        c # r \<Rightarrow> (if c = CHR ''.'' then digit_run 10 r else ([], r1))
                      | [] \<Rightarrow> ([], r1))
      in if ip = [] \<and> fp = [] then ((0, 0), s)
         else (let (ex, r3) = strtod_exponent r2
               in ((digits_value 10 (ip @ fp), ex - int (length fp)), r3)))"

text \<open>The end of \<^verbatim>\<open>number_parsing\<close>: convert the collected string (as a C string)
  and turn a conversion that stops early into an error token.\<close>

definition endptr_error :: "bytes \<Rightarrow> scan_error" where
  "endptr_error r = (if hd r = CHR ''e'' \<or> hd r = CHR ''E'' then G_ERR_NON_DIGIT_IN_CONST
                     else G_ERR_DIGIT_RADIX)"

definition num_base :: "num_kind \<Rightarrow> nat" where
  "num_base k = (case k of NK_BINARY \<Rightarrow> 2 | NK_OCTAL \<Rightarrow> 8 | NK_HEX \<Rightarrow> 16 | _ \<Rightarrow> 10)"

definition int_token :: "num_kind \<Rightarrow> 64 word \<Rightarrow> token" where
  "int_token k v = (case k of NK_BINARY \<Rightarrow> G_TOKEN_BINARY v | NK_OCTAL \<Rightarrow> G_TOKEN_OCTAL v
                              | NK_HEX \<Rightarrow> G_TOKEN_HEX v | _ \<Rightarrow> G_TOKEN_INT v)"

definition scan_number_finish :: "num_kind \<Rightarrow> bytes \<Rightarrow> token" where
  "scan_number_finish k gstr =
     (if k = NK_FLOAT then
        (let ((m, e), r) = g_strtod (cstr gstr)
         in if r \<noteq> [] then G_TOKEN_ERROR (endptr_error r) else G_TOKEN_FLOAT m e)
      else
        (let (v, r) = g_ascii_strtoull (cstr gstr) (num_base k)
         in if r \<noteq> [] then G_TOKEN_ERROR (endptr_error r) else int_token k (word_of_nat v)))"

definition scan_number :: "scanner_config \<Rightarrow> num_kind \<Rightarrow> bytes \<Rightarrow> char \<Rightarrow> bytes \<Rightarrow> token \<times> bytes" where
  "scan_number cfg k gstr ch t =
     (let (res, appended, rest) = scan_number_loop cfg k ch t
      in (case res of Inl err \<Rightarrow> G_TOKEN_ERROR err
                    | Inr k' \<Rightarrow> scan_number_finish k' (gstr @ appended), rest))"

text \<open>\<^verbatim>\<open>case '0'\<close>: octal, or a \<^verbatim>\<open>0x\<close>/\<^verbatim>\<open>0b\<close> prefix whose first digit is
  read (and checked) before the loop.\<close>

definition scan_zero :: "scanner_config \<Rightarrow> bytes \<Rightarrow> token \<times> bytes" where
  "scan_zero cfg t =
     (let k = (if scan_octal cfg then NK_OCTAL else NK_INT);
          p = g_scanner_peek_next_char t
      in if scan_hex cfg \<and> (p = CHR ''x'' \<or> p = CHR ''X'') then
           (let (ch, t2) = g_scanner_get_char (tl t)
            in if ch = NUL then (G_TOKEN_ERROR G_ERR_UNEXP_EOF, t2)
               else if g_scanner_char_2_num ch 16 = None then (G_TOKEN_ERROR G_ERR_DIGIT_RADIX, t2)
               else scan_number cfg NK_HEX [ch] ch t2)
         else if scan_binary cfg \<and> (p = CHR ''b'' \<or> p = CHR ''B'') then
           (let (ch, t2) = g_scanner_get_char (tl t)
            in if ch = NUL then (G_TOKEN_ERROR G_ERR_UNEXP_EOF, t2)
               else if g_scanner_char_2_num ch 2 = None then (G_TOKEN_ERROR G_ERR_DIGIT_RADIX, t2)
               else scan_number cfg NK_BINARY [ch] ch t2)
         else scan_number cfg k ''0'' (CHR ''0'') t)"

text \<open>\<^verbatim>\<open>default_case\<close>: a single-line comment, an identifier, or one character.\<close>

definition scan_default :: "scanner_config \<Rightarrow> char \<Rightarrow> bytes \<Rightarrow> token \<times> bytes" where
  "scan_default cfg ch t =
     (if ch = fst (cpair_comment_single cfg) then
        (let ((s, closed), r) = scan_comment_body (snd (cpair_comment_single cfg)) t
         in (if closed \<or> snd (cpair_comment_single cfg) = CHR 0x0A then G_TOKEN_COMMENT_SINGLE s
             else G_TOKEN_ERROR G_ERR_UNEXP_EOF_IN_COMMENT, r))
      else if scan_identifier cfg \<and> strchr (cset_identifier_first cfg) ch then
        scan_identifier_tok cfg ch t
      else (G_TOKEN_CHAR ch, t))"

subsection \<open>Tokens\<close>

text \<open>\<^verbatim>\<open>g_scanner_get_token_ll\<close>: one raw token from the text.\<close>

definition g_scanner_get_token_ll :: "scanner_config \<Rightarrow> bytes \<Rightarrow> token \<times> bytes" where
  "g_scanner_get_token_ll cfg text =
     (if text = [] then (G_TOKEN_EOF, [])
      else
        (let (ch, t) = g_scanner_get_char text in
         if scan_identifier cfg \<and> ch \<noteq> NUL \<and> strchr (cset_identifier_first cfg) ch then
           scan_identifier_tok cfg ch t
         else if ch = NUL then (G_TOKEN_EOF, t)
         else if ch = CHR 0x22 \<and> scan_string_dq cfg then
           (let ((s, closed), r) = scan_string_dq_body t
            in (if closed then G_TOKEN_STRING s else G_TOKEN_ERROR G_ERR_UNEXP_EOF_IN_STRING, r))
         else if ch = CHR 0x27 \<and> scan_string_sq cfg then
           (let ((s, closed), r) = scan_string_sq_body t
            in (if closed then G_TOKEN_STRING s else G_TOKEN_ERROR G_ERR_UNEXP_EOF_IN_STRING, r))
         else if ch = CHR ''.'' \<and> scan_float cfg then
           (let (ch2, t2) = g_scanner_get_char t in scan_number cfg NK_FLOAT (''0.'' @ [ch2]) ch2 t2)
         else if ch = CHR ''0'' then scan_zero cfg t
         else if is_digit ch then scan_number cfg NK_INT [ch] ch t
         else scan_default cfg ch t))"

text \<open>The tokens \<^verbatim>\<open>g_scanner_get_token_i\<close> skips: characters of
  \<^verbatim>\<open>cset_skip_characters\<close>, and comments when they are to be skipped.\<close>

definition token_skipped :: "scanner_config \<Rightarrow> token \<Rightarrow> bool" where
  "token_skipped cfg tok =
     (case tok of
        G_TOKEN_CHAR c \<Rightarrow> strchr (cset_skip_characters cfg) c
      | G_TOKEN_COMMENT_SINGLE _ \<Rightarrow> skip_comment_single cfg
      | _ \<Rightarrow> False)"

definition numbers_to_int :: "scanner_config \<Rightarrow> token \<Rightarrow> token" where
  "numbers_to_int cfg tok =
     (if numbers_2_int cfg then
        (case tok of G_TOKEN_BINARY v \<Rightarrow> G_TOKEN_INT v | G_TOKEN_OCTAL v \<Rightarrow> G_TOKEN_INT v
                   | G_TOKEN_HEX v \<Rightarrow> G_TOKEN_INT v | _ \<Rightarrow> tok)
      else tok)"

subsection \<open>Every raw token consumes input\<close>

lemma g_scanner_get_char_simps [simp]:
  "g_scanner_get_char [] = (NUL, [])"
  "g_scanner_get_char (c # t) = (c, t)"
  by (simp_all add: g_scanner_get_char_def)

lemma g_scanner_peek_next_char_simps [simp]:
  "g_scanner_peek_next_char [] = NUL"
  "g_scanner_peek_next_char (c # t) = c"
  by (simp_all add: g_scanner_peek_next_char_def)

lemma scan_ident_rest_length: "length (snd (scan_ident_rest cs t)) \<le> length t"
  by (induction t) (auto simp: Let_def)

lemma scan_string_sq_body_length: "length (snd (scan_string_sq_body t)) \<le> length t"
  by (induction t) auto

lemma scan_comment_body_length: "length (snd (scan_comment_body e t)) \<le> length t"
  by (induction t) auto

lemma dq_escape_length: "length (snd (dq_escape e t)) \<le> length t"
  by (simp add: dq_escape_def octal_escape_def split: list.split)

lemma scan_string_dq_body_length: "length (snd (scan_string_dq_body t)) \<le> length t"
proof (induction t rule: scan_string_dq_body.induct)
  case 1
  then show ?case by simp
next
  case (2 c t)
  have nul: "length (snd (scan_string_dq_body t2)) \<le> length t2"
    if "t = e # t2" "c \<noteq> NUL" "c \<noteq> CHR 0x22" "c = CHR 0x5C" "e = NUL" for e t2
    using "2.IH"(1) [OF that(2-4) that(1) that(5)] .
  have esc: "length (snd (scan_string_dq_body (snd (dq_escape e t2)))) \<le> length t2"
    if "t = e # t2" "c \<noteq> NUL" "c \<noteq> CHR 0x22" "c = CHR 0x5C" "e \<noteq> NUL" for e t2
    using "2.IH"(2) [OF that(2-4) that(1) that(5) refl, of "fst (dq_escape e t2)" "snd (dq_escape e t2)"]
      dq_escape_length [of e t2] by simp
  show ?case
    using "2.IH"(3) nul esc
    by (auto simp: case_prod_beta le_SucI split: list.split)
qed

lemma scan_number_loop_length: "length (snd (snd (scan_number_loop cfg k ch t))) \<le> length t"
  by (induction cfg k ch t rule: scan_number_loop.induct) (auto simp: Let_def le_SucI)

lemma scan_number_length: "length (snd (scan_number cfg k g ch t)) \<le> length t"
  using scan_number_loop_length [of cfg k ch t]
  by (simp add: scan_number_def case_prod_beta)

lemma get_char_length: "length (snd (g_scanner_get_char t)) \<le> length t"
  by (simp add: g_scanner_get_char_def split: list.splits)

lemma scan_zero_length: "length (snd (scan_zero cfg t)) \<le> length t"
proof -
  have tl: "length (snd (g_scanner_get_char (tl t))) \<le> length t"
    using get_char_length [of "tl t"] by simp
  have "length (snd (scan_number cfg k g ch t2)) \<le> length t"
    if "length t2 \<le> length t" for k g ch t2
    using scan_number_length [of cfg k g ch t2] that by simp
  with tl show ?thesis
    by (auto simp: scan_zero_def Let_def case_prod_beta)
qed

lemma scan_identifier_tok_length: "length (snd (scan_identifier_tok cfg ch t)) \<le> length t"
  using scan_ident_rest_length by (simp add: scan_identifier_tok_def)

lemma scan_default_length: "length (snd (scan_default cfg ch t)) \<le> length t"
  using scan_comment_body_length scan_identifier_tok_length
  by (simp add: scan_default_def case_prod_beta)

lemma g_scanner_get_token_ll_length:
  "xs \<noteq> [] \<Longrightarrow> length (snd (g_scanner_get_token_ll cfg xs)) < length xs"
proof -
  assume "xs \<noteq> []"
  then obtain c t where xs: "xs = c # t" by (cases xs) auto
  have dot: "length (snd (scan_number cfg NK_FLOAT g ch2 (snd (g_scanner_get_char t)))) \<le> length t"
    for g ch2
    using scan_number_length get_char_length order_trans by blast
  show ?thesis
    using scan_identifier_tok_length [of cfg c t] scan_string_dq_body_length [of t]
      scan_string_sq_body_length [of t] scan_zero_length [of cfg t]
      scan_number_length [of cfg NK_INT "[c]" c t] scan_default_length [of cfg c t]
    by (simp add: xs g_scanner_get_token_ll_def Let_def case_prod_beta dot le_imp_less_Suc)
qed


end
