(* ===== verification/Lexer.thy ===== *)
theory Lexer
  imports Scanner
begin

text \<open>
  The GScanner entry points \<^verbatim>\<open>src/udb.c\<close> calls: \<^verbatim>\<open>g_scanner_input_text\<close> and
  \<^verbatim>\<open>g_scanner_get_next_token\<close> (through \<^verbatim>\<open>g_scanner_get_token_i\<close>, which skips
  the characters of \<^verbatim>\<open>cset_skip_characters\<close> and converts binary, octal and hex
  numbers to \<^verbatim>\<open>G_TOKEN_INT\<close>), and the numeric \<^verbatim>\<open>GTokenType\<close> codes the error
  replies print with \<^verbatim>\<open>%d\<close>. The lemmas describe how udb's configuration
  (\<open>udb_scanner_init\<close>) lexes identifiers, blanks and the end of a line, including the
  read past the terminating NUL after a one-character identifier at the end of the text.
\<close>

function g_scanner_get_token_i :: "scanner_config \<Rightarrow> bytes \<Rightarrow> token \<times> bytes" where
  "g_scanner_get_token_i cfg t =
     (let (tok, t') = g_scanner_get_token_ll cfg t
      in if token_skipped cfg tok then g_scanner_get_token_i cfg t' else (numbers_to_int cfg tok, t'))"
  by pat_completeness auto
termination
proof (relation "measure (\<lambda>(cfg, t). length t)")
  fix cfg t x tok t'
  assume x: "x = g_scanner_get_token_ll cfg t" and p: "(tok, t') = x" and s: "token_skipped cfg tok"
  have "t \<noteq> []"
  proof
    assume "t = []"
    with x p have "tok = G_TOKEN_EOF" by (simp add: g_scanner_get_token_ll_def)
    with s show False by (simp add: token_skipped_def)
  qed
  then have "length t' < length t"
    using g_scanner_get_token_ll_length [of t cfg] x p by (metis snd_conv)
  then show "((cfg, t'), cfg, t) \<in> measure (\<lambda>(cfg, t). length t)" by simp
qed simp

text \<open>\<^verbatim>\<open>g_scanner_get_next_token\<close> reads a token even after \<^verbatim>\<open>G_TOKEN_EOF\<close>:
  the \<^verbatim>\<open>scanner->token == G_TOKEN_EOF\<close> test of \<^verbatim>\<open>g_scanner_get_token_ll\<close> never
  fires here, because \<^verbatim>\<open>g_scanner_free_value\<close> has already reset the token it is
  handed, which is \<^verbatim>\<open>scanner->token\<close> itself.\<close>

definition g_scanner_get_next_token :: "scanner_config \<Rightarrow> gscanner \<Rightarrow> gscanner" where
  "g_scanner_get_next_token cfg sc =
     (let (tok, t') = g_scanner_get_token_i cfg (scan_text sc)
      in sc\<lparr>scan_text := t', scan_token := tok\<rparr>)"

text \<open>\<^verbatim>\<open>g_scanner_input_text (scanner, text, text_len)\<close>: the scanner reads the
  \<^verbatim>\<open>text_len\<close> bytes of memory that start at \<^verbatim>\<open>text\<close> (\<open>mem\<close> lists the bytes
  from there on) and forgets its last token.\<close>

definition g_scanner_input_text :: "gscanner \<Rightarrow> bytes \<Rightarrow> 32 word \<Rightarrow> gscanner" where
  "g_scanner_input_text sc mem text_len =
     sc\<lparr>scan_text := take (unat text_len) mem, scan_token := G_TOKEN_NONE\<rparr>"

definition g_token_type :: "token \<Rightarrow> int" where
  "g_token_type tok =
     (case tok of
        G_TOKEN_EOF \<Rightarrow> 0 | G_TOKEN_NONE \<Rightarrow> 256 | G_TOKEN_ERROR _ \<Rightarrow> 257 | G_TOKEN_CHAR _ \<Rightarrow> 258
      | G_TOKEN_BINARY _ \<Rightarrow> 259 | G_TOKEN_OCTAL _ \<Rightarrow> 260 | G_TOKEN_INT _ \<Rightarrow> 261
      | G_TOKEN_HEX _ \<Rightarrow> 262 | G_TOKEN_FLOAT _ _ \<Rightarrow> 263 | G_TOKEN_STRING _ \<Rightarrow> 264
      | G_TOKEN_IDENTIFIER _ \<Rightarrow> 266 | G_TOKEN_COMMENT_SINGLE _ \<Rightarrow> 268)"

text \<open>The words udb's configuration lexes as one identifier.\<close>

definition ident_first :: "char \<Rightarrow> bool" where
  "ident_first c \<longleftrightarrow> c \<in> set (G_CSET_a_2_z @ G_CSET_A_2_Z @ ''_'')"

definition ident_nth :: "char \<Rightarrow> bool" where
  "ident_nth c \<longleftrightarrow> c \<in> set (G_CSET_a_2_z @ G_CSET_A_2_Z @ G_CSET_DIGITS @ ''_'')"

definition udb_identifier :: "string \<Rightarrow> bool" where
  "udb_identifier w \<longleftrightarrow> w \<noteq> [] \<and> ident_first (hd w) \<and> list_all ident_nth (tl w)"

text \<open>A byte that ends an identifier without being NUL.\<close>

definition ident_stop :: "bytes \<Rightarrow> bool" where
  "ident_stop r \<longleftrightarrow> r \<noteq> [] \<and> hd r \<noteq> NUL \<and> \<not> ident_nth (hd r)"

declare g_scanner_get_token_i.simps [simp del]

subsection \<open>udb's configuration\<close>

lemma udb_scanner_init_csets:
  "cset_skip_characters udb_scanner_init = [CHR '' '', CHR 0x09, CHR 0x0D, CHR 0x0A]"
  "cset_identifier_first udb_scanner_init = G_CSET_a_2_z @ G_CSET_A_2_Z @ ''_''"
  "cset_identifier_nth udb_scanner_init = G_CSET_a_2_z @ G_CSET_A_2_Z @ G_CSET_DIGITS @ ''_''"
  by (simp_all add: udb_scanner_init_def g_scanner_config_template_def)

lemma udb_scanner_init_fields [simp]:
  "cpair_comment_single udb_scanner_init = (CHR ''#'', CHR 0x0A)"
  "skip_comment_single udb_scanner_init = False"
  "scan_identifier udb_scanner_init"
  "scan_identifier_1char udb_scanner_init"
  "scan_binary udb_scanner_init"
  "scan_octal udb_scanner_init"
  "scan_float udb_scanner_init"
  "scan_hex udb_scanner_init"
  "scan_string_sq udb_scanner_init"
  "scan_string_dq udb_scanner_init"
  "numbers_2_int udb_scanner_init"
  by (simp_all add: udb_scanner_init_def g_scanner_config_template_def)

lemma strchr_udb_first [simp]:
  "strchr (cset_identifier_first udb_scanner_init) c \<longleftrightarrow> c = NUL \<or> ident_first c"
  by (simp add: strchr_def ident_first_def udb_scanner_init_csets)

lemma strchr_udb_nth [simp]:
  "strchr (cset_identifier_nth udb_scanner_init) c \<longleftrightarrow> c = NUL \<or> ident_nth c"
  by (simp add: strchr_def ident_nth_def udb_scanner_init_csets)

lemma ident_first_nth: "ident_first c \<Longrightarrow> ident_nth c"
  by (auto simp: ident_first_def ident_nth_def)

lemma ident_nth_not_nul [simp]: "ident_nth NUL = False"
  by (simp add: ident_nth_def G_CSET_a_2_z_def G_CSET_A_2_Z_def G_CSET_DIGITS_def)

lemma ident_first_not_nul [simp]: "ident_first NUL = False"
  using ident_first_nth ident_nth_not_nul by blast

lemma scan_ident_rest_word:
  assumes "list_all ident_nth (d # ds)"
    and "g_scanner_peek_next_char r = NUL \<or> \<not> ident_nth (g_scanner_peek_next_char r)"
  shows "scan_ident_rest (cset_identifier_nth udb_scanner_init) (d # ds @ r) = (d # ds, r)"
  using assms
proof (induction ds arbitrary: d)
  case Nil
  then show ?case by (auto simp: Let_def)
next
  case (Cons e ds)
  then have "ident_nth e" and "e \<noteq> NUL" by auto
  with Cons show ?case by (simp add: Let_def)
qed

lemma get_token_ll_ident_Cons:
  "ident_first c \<Longrightarrow>
   g_scanner_get_token_ll udb_scanner_init (c # t) = scan_identifier_tok udb_scanner_init c t"
  by (cases "c = NUL") (simp_all add: g_scanner_get_token_ll_def)

lemma get_token_ll_ident:
  assumes "udb_identifier w" and "ident_stop r"
  shows "g_scanner_get_token_ll udb_scanner_init (w @ r) = (G_TOKEN_IDENTIFIER w, r)"
proof -
  obtain c ds where w: "w = c # ds" and c: "ident_first c" and ds: "list_all ident_nth ds"
    using assms(1) by (cases w) (auto simp: udb_identifier_def)
  have stop: "g_scanner_peek_next_char r \<noteq> NUL" "\<not> ident_nth (g_scanner_peek_next_char r)"
    using assms(2) by (auto simp: ident_stop_def g_scanner_peek_next_char_def split: list.splits)
  show ?thesis
  proof (cases ds)
    case Nil
    with stop show ?thesis
      by (simp add: w get_token_ll_ident_Cons [OF c] scan_identifier_tok_def)
  next
    case (Cons d ds')
    with ds stop have "scan_ident_rest (cset_identifier_nth udb_scanner_init) (d # ds' @ r) = (d # ds', r)"
      by (intro scan_ident_rest_word) auto
    with Cons ds show ?thesis
      by (simp add: w get_token_ll_ident_Cons [OF c] scan_identifier_tok_def)
  qed
qed

lemma get_token_i_unfold:
  "g_scanner_get_token_i cfg t =
     (let (tok, t') = g_scanner_get_token_ll cfg t
      in if token_skipped cfg tok then g_scanner_get_token_i cfg t' else (numbers_to_int cfg tok, t'))"
  by (rule g_scanner_get_token_i.simps)

lemma get_token_ll_char:
  assumes "\<not> ident_first c" "c \<noteq> NUL" "c \<noteq> CHR 0x22" "c \<noteq> CHR 0x27" "c \<noteq> CHR ''.''"
    "c \<noteq> CHR ''0''" "\<not> is_digit c" "c \<noteq> CHR ''#''"
  shows "g_scanner_get_token_ll udb_scanner_init (c # t) = (G_TOKEN_CHAR c, t)"
  using assms by (simp add: g_scanner_get_token_ll_def scan_default_def)

lemma udb_blank_cases:
  "c \<in> set (cset_skip_characters udb_scanner_init) \<Longrightarrow>
   c = CHR '' '' \<or> c = CHR 0x09 \<or> c = CHR 0x0D \<or> c = CHR 0x0A"
  by (simp add: udb_scanner_init_csets)

lemma udb_blank_props:
  assumes "c \<in> set (cset_skip_characters udb_scanner_init)"
  shows "\<not> ident_first c \<and> c \<noteq> NUL \<and> c \<noteq> CHR 0x22 \<and> c \<noteq> CHR 0x27 \<and> c \<noteq> CHR ''.''
    \<and> c \<noteq> CHR ''0'' \<and> \<not> is_digit c \<and> c \<noteq> CHR ''#''"
  using udb_blank_cases [OF assms]
  by (elim disjE) (simp_all add: ident_first_def is_digit_def G_CSET_a_2_z_def G_CSET_A_2_Z_def
      G_CSET_DIGITS_def)

lemma get_token_i_blank:
  assumes "c \<in> set (cset_skip_characters udb_scanner_init)"
  shows "g_scanner_get_token_i udb_scanner_init (c # t) = g_scanner_get_token_i udb_scanner_init t"
proof -
  have ll: "g_scanner_get_token_ll udb_scanner_init (c # t) = (G_TOKEN_CHAR c, t)"
    using udb_blank_props [OF assms] by (intro get_token_ll_char) auto
  have "token_skipped udb_scanner_init (G_TOKEN_CHAR c)"
    using assms by (simp add: token_skipped_def strchr_def)
  with ll show ?thesis
    by (subst get_token_i_unfold) simp
qed

lemma get_token_i_blanks:
  "set ws \<subseteq> set (cset_skip_characters udb_scanner_init) \<Longrightarrow>
   g_scanner_get_token_i udb_scanner_init (ws @ t) = g_scanner_get_token_i udb_scanner_init t"
  by (induction ws) (auto simp: get_token_i_blank)

lemma get_token_i_eof:
  "g_scanner_get_token_i udb_scanner_init [] = (G_TOKEN_EOF, [])"
  "g_scanner_get_token_i udb_scanner_init (NUL # m) = (G_TOKEN_EOF, m)"
  by (subst get_token_i_unfold;
      simp add: g_scanner_get_token_ll_def token_skipped_def numbers_to_int_def)+

lemma get_token_i_ident:
  assumes "udb_identifier w" and "ident_stop r"
  shows "g_scanner_get_token_i udb_scanner_init (w @ r) = (G_TOKEN_IDENTIFIER w, r)"
  by (subst get_token_i_unfold)
    (simp add: get_token_ll_ident [OF assms] token_skipped_def numbers_to_int_def)

text \<open>At the end of the text an identifier of two or more characters stops before the
  NUL; a one-character identifier takes the NUL and reads on into the bytes after it.\<close>

lemma get_token_i_ident_eol:
  assumes "udb_identifier w" and "2 \<le> length w"
  shows "g_scanner_get_token_i udb_scanner_init (w @ NUL # m) = (G_TOKEN_IDENTIFIER w, NUL # m)"
proof -
  obtain c d ds where w: "w = c # d # ds" and c: "ident_first c" and ds: "list_all ident_nth (d # ds)"
    using assms by (cases w rule: remdups_adj.cases) (auto simp: udb_identifier_def)
  have "scan_ident_rest (cset_identifier_nth udb_scanner_init) (d # ds @ NUL # m) = (d # ds, NUL # m)"
    using ds by (intro scan_ident_rest_word) auto
  then have "g_scanner_get_token_ll udb_scanner_init (w @ NUL # m) = (G_TOKEN_IDENTIFIER w, NUL # m)"
    using ds by (simp add: w get_token_ll_ident_Cons [OF c] scan_identifier_tok_def)
  then show ?thesis
    by (subst get_token_i_unfold) (simp add: token_skipped_def numbers_to_int_def)
qed

lemma get_token_i_ident1_eol:
  assumes "ident_first c"
  shows "g_scanner_get_token_i udb_scanner_init (c # NUL # m) =
     apfst (\<lambda>s. G_TOKEN_IDENTIFIER (c # s)) (scan_ident_rest (cset_identifier_nth udb_scanner_init) (NUL # m))"
proof -
  have "g_scanner_get_token_ll udb_scanner_init (c # NUL # m) =
     apfst (\<lambda>s. G_TOKEN_IDENTIFIER (c # s)) (scan_ident_rest (cset_identifier_nth udb_scanner_init) (NUL # m))"
    by (simp add: get_token_ll_ident_Cons [OF assms] scan_identifier_tok_def del: scan_ident_rest.simps)
  then show ?thesis
    by (subst get_token_i_unfold)
      (simp add: token_skipped_def numbers_to_int_def case_prod_beta apfst_def map_prod_def
        del: scan_ident_rest.simps)
qed

lemma scan_ident_rest_nul_cstr:
  "cstr (fst (scan_ident_rest cs (NUL # m))) = []"
  by (simp add: Let_def)

text \<open>Every token read on a non-empty text consumes input, also after skipped blanks
  and comments.\<close>

lemma get_token_i_progress:
  "t \<noteq> [] \<Longrightarrow> length (snd (g_scanner_get_token_i cfg t)) < length t"
proof (induction cfg t rule: g_scanner_get_token_i.induct)
  case (1 cfg t)
  obtain tok t' where ll: "g_scanner_get_token_ll cfg t = (tok, t')" by fastforce
  have lt: "length t' < length t"
    using g_scanner_get_token_ll_length [OF "1.prems", of cfg] ll by simp
  show ?case
  proof (cases "token_skipped cfg tok")
    case True
    then have eq: "g_scanner_get_token_i cfg t = g_scanner_get_token_i cfg t'"
      by (subst g_scanner_get_token_i.simps) (simp add: ll)
    show ?thesis
    proof (cases "t' = []")
      case True
      then have "g_scanner_get_token_i cfg t' = (G_TOKEN_EOF, [])"
        by (subst g_scanner_get_token_i.simps)
          (simp add: g_scanner_get_token_ll_def token_skipped_def numbers_to_int_def)
      with eq "1.prems" show ?thesis by simp
    next
      case False
      with "1.IH" [OF refl ll [symmetric] \<open>token_skipped cfg tok\<close>] eq lt show ?thesis by simp
    qed
  next
    case False
    then show ?thesis using lt
      by (subst g_scanner_get_token_i.simps) (simp add: ll)
  qed
qed

end
