(* ===== verification/Printf.thy ===== *)
theory Printf
  imports Prelude
begin

text \<open>
  The \<^verbatim>\<open>%g\<close> conversion \<^verbatim>\<open>udb_handle_set\<close> applies to a float argument
  (\<^verbatim>\<open>g_strdup_printf ("%g", v_float)\<close>), as C99 7.21.6.1 specifies it: six significant
  digits; the style of \<^verbatim>\<open>%e\<close> (\<open>d.ddddde\<plusminus>XX\<close>) when the decimal exponent \<open>X\<close> of
  the rounded value is below \<open>-4\<close> or at least 6, the style of \<^verbatim>\<open>%f\<close> otherwise; trailing
  zeros of the fraction and a bare decimal point removed. The argument is the exact decimal
  \<open>M \<cdot> 10^E\<close> the scanner read. The rounding to six digits is done on that exact value,
  ties to even, where the C library rounds the nearest double; the two differ only when the
  decimal is a tie at the sixth digit. Values at or above \<open>2^1024 - 2^970\<close> overflow to
  \<^verbatim>\<open>inf\<close>, as \<^verbatim>\<open>strtod\<close> makes them; gradual underflow is not modelled.
\<close>

definition pad_exponent :: "nat \<Rightarrow> string" where
  "pad_exponent x = (if x < 10 then CHR ''0'' # nat_dec x else nat_dec x)"

definition strip_zeros :: "string \<Rightarrow> string" where
  "strip_zeros s = rev (dropWhile (\<lambda>c. c = CHR ''0'') (rev s))"

definition with_fraction :: "string \<Rightarrow> string \<Rightarrow> string" where
  "with_fraction ip fp = (let f = strip_zeros fp in if f = [] then ip else ip @ CHR ''.'' # f)"

definition round_sig6 :: "nat \<Rightarrow> nat \<times> int" where
  "round_sig6 m =
     (let d = length (nat_dec m)
      in if d \<le> 6 then (m * 10 ^ (6 - d), int d - 1)
         else (let p = 10 ^ (d - 6); q = m div p; r = m mod p; h = p div 2;
                   q' = (if h < r \<or> (r = h \<and> odd q) then q + 1 else q)
               in if q' = 10 ^ 6 then (10 ^ 5, int d) else (q', int d - 1)))"

definition double_overflow :: "nat \<Rightarrow> int \<Rightarrow> bool" where
  "double_overflow m e =
     (if 0 \<le> e then (2::nat) ^ 1024 - 2 ^ 970 \<le> m * 10 ^ nat e
      else ((2::nat) ^ 1024 - 2 ^ 970) * 10 ^ nat (- e) \<le> m)"

definition printf_g :: "nat \<Rightarrow> int \<Rightarrow> string" where
  "printf_g m e =
     (if m = 0 then ''0''
      else if double_overflow m e then ''inf''
      else (let (m6, x0) = round_sig6 m; x = x0 + e; s = nat_dec m6
            in if x < -4 \<or> 6 \<le> x then
                 with_fraction [hd s] (tl s) @ CHR ''e'' # (if x < 0 then CHR ''-'' else CHR ''+'')
                   # pad_exponent (nat \<bar>x\<bar>)
               else if 0 \<le> x then with_fraction (take (nat x + 1) s) (drop (nat x + 1) s)
               else with_fraction ''0'' (replicate (nat (- x) - 1) (CHR ''0'') @ s)))"

lemma printf_g_examples:
  "printf_g 15 (-1) = ''1.5''"
  "printf_g 100000 0 = ''100000''"
  "printf_g 1 6 = ''1e+06''"
  "printf_g 1234567 0 = ''1.23457e+06''"
  "printf_g 1 (-5) = ''1e-05''"
  "printf_g 25 (-5) = ''0.00025''"
  by (simp_all add: printf_g_def round_sig6_def double_overflow_def with_fraction_def
      strip_zeros_def pad_exponent_def udb_simps dec_digit_def)

end
