(* ===== verification/Commands.thy ===== *)
theory Commands
  imports Store Lexer Printf
begin

text \<open>
  The command layer of \<^verbatim>\<open>src/udb.c\<close>: the handlers \<^verbatim>\<open>udb_handle_get\<close>,
  \<^verbatim>\<open>udb_handle_set\<close>, \<^verbatim>\<open>udb_handle_del\<close> and \<^verbatim>\<open>udb_handle_unknown\<close>
  (lines 245--352), the dispatch table \<^verbatim>\<open>udb_commands\<close> (354--364) and
  \<^verbatim>\<open>process_command_line\<close> (384--416).

  The handlers take no arguments in C: they read their operands from the process-wide
  scanner and act on the global store. Here the shared state is the record \<open>core\<close>
  (the store, the scanner and \<^verbatim>\<open>scanner_mutex\<close>), passed and returned explicitly, and a
  handler is \<open>None\<close> when it would block on a held mutex. The compile-time constants of
  \<^verbatim>\<open>config.h\<close> (not part of the sources) are the fields of \<open>udb_config\<close>.

  \<^verbatim>\<open>process_command_line\<close> is given the bytes of memory from the line's first byte on:
  the line, its terminating NUL and what follows, because it hands the scanner the length
  \<^verbatim>\<open>-1\<close>.
\<close>

record core =
  core_db :: db_state
  core_scanner :: gscanner
  scanner_mutex :: bool

datatype udb_handler = UDB_HANDLE_GET | UDB_HANDLE_SET | UDB_HANDLE_DEL | UDB_HANDLE_UNKNOWN

subsection \<open>Handlers\<close>

text \<open>\<^verbatim>\<open>g_scanner_get_next_token (udb_scanner)\<close>: the new token and the state.\<close>

definition next_token :: "core \<Rightarrow> token \<times> core" where
  "next_token c =
     (let sc = g_scanner_get_next_token udb_scanner_init (core_scanner c)
      in (scan_token sc, c\<lparr>core_scanner := sc\<rparr>))"

text \<open>The key operand: an identifier or a string token, as the buffer the scanner holds
  (\<^verbatim>\<open>value.v_identifier\<close> or \<^verbatim>\<open>value.v_string\<close>).\<close>

definition scanner_key :: "token \<Rightarrow> bytes option" where
  "scanner_key tok =
     (case tok of G_TOKEN_IDENTIFIER v \<Rightarrow> Some v | G_TOKEN_STRING v \<Rightarrow> Some v | _ \<Rightarrow> None)"

definition missing_key :: "token \<Rightarrow> string" where
  "missing_key tok = ''ERR Missing KEY (token='' @ int_dec (g_token_type tok) @ '')'' @ CRLF"

definition udb_handle_get :: "core \<Rightarrow> (string \<times> core) option" where
  "udb_handle_get c =
     (let (varname_token, c) = next_token c in
      case scanner_key varname_token of
        None \<Rightarrow> Some (missing_key varname_token, c)
      | Some key \<Rightarrow> do {
          (result, db) \<leftarrow> db_lookup key (core_db c);
          let c = c\<lparr>core_db := db\<rparr>;
          (case result of
             None \<Rightarrow> Some (''NULL'' @ CRLF, c)
           | Some v \<Rightarrow> Some (cstr v @ CRLF, c))
        })"

text \<open>The value operand of \<^verbatim>\<open>SET\<close> (the \<^verbatim>\<open>switch (tB)\<close>): the string to store,
  or the error reply. \<^verbatim>\<open>%ld\<close> prints the \<^verbatim>\<open>gulong\<close> \<^verbatim>\<open>v_int\<close> as a signed
  long. The \<^verbatim>\<open>ERR NULL Value\<close> branch of the source is unreachable (\<^verbatim>\<open>g_strdup\<close>
  and \<^verbatim>\<open>g_strdup_printf\<close> never return \<^verbatim>\<open>NULL\<close> here) and is not modelled.\<close>

definition set_value :: "token \<Rightarrow> string + string" where
  "set_value tB =
     (case tB of
        G_TOKEN_IDENTIFIER v \<Rightarrow> Inr (cstr v)
      | G_TOKEN_INT n \<Rightarrow> Inr (int_dec (sint n))
      | G_TOKEN_FLOAT m e \<Rightarrow> Inr (printf_g m e)
      | G_TOKEN_STRING v \<Rightarrow> Inr (cstr v)
      | G_TOKEN_EOF \<Rightarrow> Inl (''ERR Missing Value Argument'' @ CRLF)
      | _ \<Rightarrow> Inl (''ERR Malformed Value Argument (token='' @ int_dec (g_token_type tB) @ '')'' @ CRLF))"

definition udb_handle_set :: "udb_config \<Rightarrow> core \<Rightarrow> (string \<times> core) option" where
  "udb_handle_set conf c =
     (let (tA, c) = next_token c in
      case scanner_key tA of
        None \<Rightarrow> Some (missing_key tA, c)
      | Some k \<Rightarrow>
          (if UDB_MAX_KEY_LENGTH conf < length (cstr k) then Some (''ERR Key To Long'' @ CRLF, c)
           else
             (let key = cstr k; (tB, c) = next_token c in
              case set_value tB of
                Inl err \<Rightarrow> Some (err, c)
              | Inr value \<Rightarrow> do {
                  (_, db) \<leftarrow> db_insert key value (core_db c);
                  Some (''OK'' @ CRLF, c\<lparr>core_db := db\<rparr>)
                })))"

definition udb_handle_del :: "core \<Rightarrow> (string \<times> core) option" where
  "udb_handle_del c =
     (let (varname_token, c) = next_token c in
      case scanner_key varname_token of
        None \<Rightarrow> Some (missing_key varname_token, c)
      | Some key \<Rightarrow> do {
          (_, db) \<leftarrow> db_remove key (core_db c);
          Some (''OK'' @ CRLF, c\<lparr>core_db := db\<rparr>)
        })"

definition udb_handle_unknown :: "core \<Rightarrow> (string \<times> core) option" where
  "udb_handle_unknown c = Some (''ERR Invalid Command'' @ CRLF, c)"

subsection \<open>Dispatch\<close>

text \<open>The table, terminated by the \<^verbatim>\<open>NULL\<close> name, and the call \<^verbatim>\<open>e->fn ()\<close>.\<close>

definition udb_commands :: "(string option \<times> udb_handler) list" where
  "udb_commands =
     [(Some ''GET'', UDB_HANDLE_GET), (Some ''SET'', UDB_HANDLE_SET),
      (Some ''DEL'', UDB_HANDLE_DEL), (None, UDB_HANDLE_UNKNOWN)]"

fun udb_call :: "udb_handler \<Rightarrow> udb_config \<Rightarrow> core \<Rightarrow> (string \<times> core) option" where
  "udb_call UDB_HANDLE_GET conf c = udb_handle_get c"
| "udb_call UDB_HANDLE_SET conf c = udb_handle_set conf c"
| "udb_call UDB_HANDLE_DEL conf c = udb_handle_del c"
| "udb_call UDB_HANDLE_UNKNOWN conf c = udb_handle_unknown c"

text \<open>The search loop \<^verbatim>\<open>for (e = udb_commands; e->name; ++e)\<close>: it stops at the
  first case-insensitive match or at the \<^verbatim>\<open>NULL\<close> name.\<close>

fun find_command :: "(string option \<times> udb_handler) list \<Rightarrow> string \<Rightarrow> udb_handler option" where
  "find_command [] cmd = None"
| "find_command ((None, h) # es) cmd = None"
| "find_command ((Some name, h) # es) cmd =
     (if g_ascii_strcasecmp_eq cmd name then Some h else find_command es cmd)"

definition process_command_line :: "udb_config \<Rightarrow> bytes \<Rightarrow> core \<Rightarrow> (string \<times> core) option" where
  "process_command_line conf mem c = do {
     m \<leftarrow> g_mutex_lock (scanner_mutex c);
     let c = c\<lparr>scanner_mutex := m, core_scanner := g_scanner_input_text (core_scanner c) mem (- 1)\<rparr>;
     let (tok, c) = next_token c;
     (case tok of
        G_TOKEN_IDENTIFIER cmd \<Rightarrow>
          (case find_command udb_commands (cstr cmd) of
             Some h \<Rightarrow> do {
               (response, c) \<leftarrow> udb_call h conf c;
               Some (response, c\<lparr>scanner_mutex := g_mutex_unlock (scanner_mutex c)\<rparr>)
             }
           | None \<Rightarrow>
               Some (''ERR Unknown command: '' @ cstr cmd @ CRLF,
                     c\<lparr>scanner_mutex := g_mutex_unlock (scanner_mutex c)\<rparr>))
      | _ \<Rightarrow>
          Some (''ERR Expected Command Identifier (got token='' @ int_dec (g_token_type tok) @ '')''
                  @ CRLF, c\<lparr>scanner_mutex := g_mutex_unlock (scanner_mutex c)\<rparr>))
   }"

text \<open>The state after \<^verbatim>\<open>db_init (); udb_scanner_init ();\<close> in \<^verbatim>\<open>main\<close>: an empty
  table, a fresh scanner (its configuration is \<open>udb_scanner_init\<close>) and both mutexes free.\<close>

definition core_init :: core where
  "core_init = \<lparr>core_db = db_init, core_scanner = g_scanner_new, scanner_mutex = False\<rparr>"

text \<open>The shared state between two callbacks: a well-formed store and both mutexes free.\<close>

definition core_invar :: "core \<Rightarrow> bool" where
  "core_invar c \<longleftrightarrow> db_invar (core_db c) \<and> \<not> scanner_mutex c"

text \<open>The frame of a handler: it returns a CRLF-terminated reply, keeps the store
  well-formed and leaves the scanner mutex as it found it.\<close>

definition handler_ok :: "(core \<Rightarrow> (string \<times> core) option) \<Rightarrow> core \<Rightarrow> bool" where
  "handler_ok f c \<longleftrightarrow> (\<exists>r c'. f c = Some (r, c') \<and> crlf_line r \<and> db_invar (core_db c')
                           \<and> scanner_mutex c' = scanner_mutex c)"

subsection \<open>The handlers keep the store well-formed and never block\<close>

lemma core_db_init [simp]: "core_db core_init = db_init"
  by (simp add: core_init_def)

lemma core_invar_init [simp]: "core_invar core_init"
  by (simp add: core_invar_def core_init_def db_invar_def db_init_def)

lemma next_token_db [simp]: "core_db (snd (next_token c)) = core_db c"
  by (simp add: next_token_def Let_def)

lemma next_token_mutex [simp]: "scanner_mutex (snd (next_token c)) = scanner_mutex c"
  by (simp add: next_token_def Let_def)

lemma db_invar_insert:
  "db_invar s \<Longrightarrow> \<exists>b s'. db_insert k v s = Some (b, s') \<and> db_invar s'"
  by (auto simp: db_invar_def db_insert_free intro!: ghash_invar_insert)

lemma db_invar_lookup:
  "db_invar s \<Longrightarrow> db_lookup k s = Some (map_of (db_mem s) (cstr k), s)"
  by (simp add: db_invar_def db_lookup_free)

lemma db_invar_remove:
  "db_invar s \<Longrightarrow> \<exists>b s'. db_remove k s = Some (b, s') \<and> db_invar s'"
proof -
  assume "db_invar s"
  then show ?thesis
    using ghash_invar_remove [of "db_mem s" "cstr k"]
    by (simp add: db_invar_def db_remove_free g_hash_table_remove_def)
qed

lemma missing_key_line [simp]: "crlf_line (missing_key tok)"
  by (simp add: missing_key_def)

lemma set_value_line: "set_value tB = Inl err \<Longrightarrow> crlf_line err"
  by (cases tB) (auto simp: set_value_def)

lemma handler_ok_get: "db_invar (core_db c) \<Longrightarrow> handler_ok udb_handle_get c"
  by (simp add: handler_ok_def udb_handle_get_def case_prod_beta db_invar_lookup Let_def
      split: option.split)

lemma handler_ok_store:
  assumes "db_invar (core_db c)"
  shows "handler_ok (\<lambda>c. do { (_, db) \<leftarrow> db_insert key value (core_db c);
                               Some (''OK'' @ CRLF, c\<lparr>core_db := db\<rparr>) }) c"
proof -
  obtain b s' where "db_insert key value (core_db c) = Some (b, s')" "db_invar s'"
    using db_invar_insert [OF assms] by blast
  then show ?thesis by (simp add: handler_ok_def)
qed

lemma handler_ok_set:
  assumes "db_invar (core_db c)"
  shows "handler_ok (udb_handle_set conf) c"
proof -
  obtain tA c1 where t1: "next_token c = (tA, c1)" by fastforce
  obtain tB c2 where t2: "next_token c1 = (tB, c2)" by fastforce
  have c1: "db_invar (core_db c1)" "scanner_mutex c1 = scanner_mutex c"
    using assms t1 next_token_db [of c] next_token_mutex [of c] by auto
  have c2: "db_invar (core_db c2)" "scanner_mutex c2 = scanner_mutex c"
    using c1 t2 next_token_db [of c1] next_token_mutex [of c1] by auto
  show ?thesis
  proof (cases "scanner_key tA")
    case None
    with t1 have "udb_handle_set conf c = Some (missing_key tA, c1)"
      by (simp add: udb_handle_set_def)
    with c1 show ?thesis by (simp add: handler_ok_def)
  next
    case (Some k)
    show ?thesis
    proof (cases "UDB_MAX_KEY_LENGTH conf < length (cstr k)")
      case True
      with Some t1 have "udb_handle_set conf c = Some (''ERR Key To Long'' @ CRLF, c1)"
        by (simp add: udb_handle_set_def)
      with c1 show ?thesis by (simp add: handler_ok_def)
    next
      case False
      show ?thesis
      proof (cases "set_value tB")
        case (Inl err)
        with Some False t1 t2 have "udb_handle_set conf c = Some (err, c2)"
          by (simp add: udb_handle_set_def)
        with c2 set_value_line [OF Inl] show ?thesis by (simp add: handler_ok_def)
      next
        case (Inr v)
        with Some False t1 t2 have "udb_handle_set conf c = do {
            (_, db) \<leftarrow> db_insert (cstr k) v (core_db c2); Some (''OK'' @ CRLF, c2\<lparr>core_db := db\<rparr>) }"
          by (simp add: udb_handle_set_def)
        with handler_ok_store [OF c2(1), of "cstr k" v] c2(2) show ?thesis
          by (simp add: handler_ok_def)
      qed
    qed
  qed
qed

lemma handler_ok_del:
  assumes "db_invar (core_db c)"
  shows "handler_ok udb_handle_del c"
proof -
  obtain tok c1 where t1: "next_token c = (tok, c1)" by fastforce
  have c1: "db_invar (core_db c1)" "scanner_mutex c1 = scanner_mutex c"
    using assms t1 next_token_db [of c] next_token_mutex [of c] by auto
  show ?thesis
  proof (cases "scanner_key tok")
    case None
    with t1 c1 show ?thesis by (simp add: handler_ok_def udb_handle_del_def)
  next
    case (Some key)
    obtain b s' where "db_remove key (core_db c1) = Some (b, s')" "db_invar s'"
      using db_invar_remove [OF c1(1)] by blast
    with Some t1 c1 show ?thesis by (simp add: handler_ok_def udb_handle_del_def)
  qed
qed

lemma udb_call_handlers:
  "udb_call UDB_HANDLE_GET conf = udb_handle_get"
  "udb_call UDB_HANDLE_SET conf = udb_handle_set conf"
  "udb_call UDB_HANDLE_DEL conf = udb_handle_del"
  "udb_call UDB_HANDLE_UNKNOWN conf = udb_handle_unknown"
  by (simp_all add: fun_eq_iff)

lemma handler_ok_call:
  assumes "db_invar (core_db c)"
  shows "handler_ok (udb_call h conf) c"
proof (cases h)
  case UDB_HANDLE_UNKNOWN
  with assms show ?thesis by (simp add: handler_ok_def udb_handle_unknown_def)
qed (simp_all add: assms handler_ok_get handler_ok_set handler_ok_del udb_call_handlers)

lemma process_command_line_ok:
  assumes "core_invar c"
  shows "\<exists>r c'. process_command_line conf mem c = Some (r, c') \<and> crlf_line r \<and> core_invar c'"
proof -
  let ?c1 = "c\<lparr>scanner_mutex := True, core_scanner := g_scanner_input_text (core_scanner c) mem (- 1)\<rparr>"
  obtain tok c2 where nt: "next_token ?c1 = (tok, c2)" by fastforce
  have c2: "db_invar (core_db c2)" "scanner_mutex c2"
    using assms nt next_token_db [of ?c1] next_token_mutex [of ?c1]
    by (simp_all add: core_invar_def)
  have call: "handler_ok (udb_call h conf) c2" for h
    using handler_ok_call [OF c2(1)] .
  have eq: "process_command_line conf mem c =
     (case tok of
        G_TOKEN_IDENTIFIER cmd \<Rightarrow>
          (case find_command udb_commands (cstr cmd) of
             Some h \<Rightarrow> do {
               (response, c) \<leftarrow> udb_call h conf c2;
               Some (response, c\<lparr>scanner_mutex := False\<rparr>)
             }
           | None \<Rightarrow> Some (''ERR Unknown command: '' @ cstr cmd @ CRLF, c2\<lparr>scanner_mutex := False\<rparr>))
      | _ \<Rightarrow> Some (''ERR Expected Command Identifier (got token='' @ int_dec (g_token_type tok) @ '')''
                  @ CRLF, c2\<lparr>scanner_mutex := False\<rparr>))"
    using assms nt by (simp add: process_command_line_def core_invar_def g_mutex_lock_def
        g_mutex_unlock_def split: token.split option.split)
  show ?thesis
  proof (cases tok)
    case (G_TOKEN_IDENTIFIER cmd)
    show ?thesis
    proof (cases "find_command udb_commands (cstr cmd)")
      case (Some h)
      obtain r c' where "udb_call h conf c2 = Some (r, c')" "crlf_line r" "db_invar (core_db c')"
        using call [of h] by (auto simp: handler_ok_def)
      with Some G_TOKEN_IDENTIFIER show ?thesis
        by (simp add: eq core_invar_def)
    next
      case None
      with G_TOKEN_IDENTIFIER c2 show ?thesis
        by (simp add: eq core_invar_def)
    qed
  qed (use c2 in \<open>simp_all add: eq core_invar_def\<close>)
qed

end
