(* ===== verification/Lines.thy ===== *)
theory Lines
  imports Commands
begin

text \<open>
  Whole command lines through \<^verbatim>\<open>process_command_line\<close>: how the shared scanner lexes
  a line of identifiers separated by blanks (including the read past the terminating NUL
  after a one-character identifier at the end of the line), and what the server answers to
  \<^verbatim>\<open>SET k v\<close>, \<^verbatim>\<open>GET k\<close>, \<^verbatim>\<open>DEL k\<close>, an unknown command, a \<^verbatim>\<open>SET\<close>
  without operands, an oversized key and a blank line, with the effect on the abstract
  store. A line is the memory from the line buffer on: its bytes, the NUL that
  \<^verbatim>\<open>g_data_input_stream_read_line\<close> puts after them, and whatever follows in memory.
\<close>

text \<open>The scanner state after reading a token \<open>tok\<close> that leaves the text \<open>r\<close>.\<close>

definition scanned :: "core \<Rightarrow> token \<Rightarrow> bytes \<Rightarrow> core" where
  "scanned c tok r = c\<lparr>core_scanner := (core_scanner c)\<lparr>scan_text := r, scan_token := tok\<rparr>\<rparr>"

subsection \<open>Lexing command lines\<close>

lemma udb_identifier_nul_free: "udb_identifier w \<Longrightarrow> nul_free w"
  by (cases w) (auto simp: udb_identifier_def nul_free_def list_all_iff dest: ident_first_nth)

lemma ident_stop_blank:
  "c \<in> set (cset_skip_characters udb_scanner_init) \<Longrightarrow> ident_stop (c # r)"
  using udb_blank_cases [of c]
  by (auto simp: ident_stop_def ident_nth_def G_CSET_a_2_z_def G_CSET_A_2_Z_def G_CSET_DIGITS_def)

lemma space_blank [simp]: "CHR '' '' \<in> set (cset_skip_characters udb_scanner_init)"
  by (simp add: udb_scanner_init_csets)

lemma find_command_udb [udb_simps]:
  "find_command udb_commands ''GET'' = Some UDB_HANDLE_GET"
  "find_command udb_commands ''SET'' = Some UDB_HANDLE_SET"
  "find_command udb_commands ''DEL'' = Some UDB_HANDLE_DEL"
  by (simp_all add: udb_commands_def g_ascii_strcasecmp_eq_def ascii_tolower_def eq_char_of)

lemma input_text_line:
  assumes "length xs < 4294967295"
  shows "\<exists>m'. g_scanner_input_text sc (xs @ NUL # m) (- 1) =
           sc\<lparr>scan_text := xs @ NUL # m', scan_token := G_TOKEN_NONE\<rparr>"
proof -
  have u: "unat (- 1 :: 32 word) = 4294967295" by (simp add: unat_eq_nat_uint uint_word_ariths)
  obtain n where n: "4294967295 - length xs = Suc n"
    using assms by (metis Suc_diff_Suc)
  have "g_scanner_input_text sc (xs @ NUL # m) (- 1) =
      sc\<lparr>scan_text := xs @ NUL # take n m, scan_token := G_TOKEN_NONE\<rparr>"
    using assms by (simp add: g_scanner_input_text_def take_append u n)
  then show ?thesis by blast
qed

lemma scanned_simps [simp]:
  "core_db (scanned c tok r) = core_db c"
  "scanner_mutex (scanned c tok r) = scanner_mutex c"
  "scan_text (core_scanner (scanned c tok r)) = r"
  "scan_token (core_scanner (scanned c tok r)) = tok"
  "scanned c tok r\<lparr>core_db := db\<rparr> = scanned (c\<lparr>core_db := db\<rparr>) tok r"
  by (simp_all add: scanned_def)

lemma next_token_ident:
  assumes "scan_token (core_scanner c) \<noteq> G_TOKEN_EOF"
    and "scan_text (core_scanner c) = ws @ w @ r"
    and "set ws \<subseteq> set (cset_skip_characters udb_scanner_init)"
    and "udb_identifier w" and "ident_stop r"
  shows "next_token c = (G_TOKEN_IDENTIFIER w, scanned c (G_TOKEN_IDENTIFIER w) r)"
  using assms
  by (simp add: next_token_def g_scanner_get_next_token_def get_token_i_blanks get_token_i_ident
      scanned_def)

lemma next_token_ident_eol:
  assumes "scan_token (core_scanner c) \<noteq> G_TOKEN_EOF"
    and "scan_text (core_scanner c) = ws @ w @ NUL # m"
    and "set ws \<subseteq> set (cset_skip_characters udb_scanner_init)"
    and "udb_identifier w"
  shows "\<exists>v r. next_token c = (G_TOKEN_IDENTIFIER v, scanned c (G_TOKEN_IDENTIFIER v) r)
               \<and> cstr v = w"
proof (cases "2 \<le> length w")
  case True
  then have "next_token c = (G_TOKEN_IDENTIFIER w, scanned c (G_TOKEN_IDENTIFIER w) (NUL # m))"
    using assms
    by (simp add: next_token_def g_scanner_get_next_token_def get_token_i_blanks
        get_token_i_ident_eol scanned_def)
  with udb_identifier_nul_free [OF assms(4)] show ?thesis by auto
next
  case False
  with assms(4) obtain c0 where w: "w = [c0]" and c0: "ident_first c0"
    by (cases w) (auto simp: udb_identifier_def Suc_le_eq)
  show ?thesis
    using assms(1-3) get_token_i_ident1_eol [OF c0, of m] scan_ident_rest_nul_cstr [of _ m] c0
    by (auto simp: next_token_def g_scanner_get_next_token_def get_token_i_blanks w scanned_def
        apfst_def map_prod_def split_def simp del: scan_ident_rest.simps)
qed

subsection \<open>The handlers on well-formed operands\<close>

lemma db_invar_free: "db_invar s \<Longrightarrow> \<not> db_mutex s"
  by (simp add: db_invar_def)

lemma store_abs_insert:
  "db_invar s \<Longrightarrow> nul_free k \<Longrightarrow> nul_free v \<Longrightarrow> db_insert k v s = Some (b, s') \<Longrightarrow>
   store_abs s' = (store_abs s)(k \<mapsto> v) \<and> db_invar s'"
  by (auto simp: db_insert_free db_invar_free store_abs_def db_invar_def)

text \<open>\<^verbatim>\<open>udb_handle_set\<close> once both operands are read: a key within the limit and a
  value token that \<open>set_value\<close> accepts.\<close>

lemma udb_handle_set_key:
  assumes inv: "db_invar (core_db c)"
    and t1: "next_token c = (tA, c1)" and sk: "scanner_key tA = Some k'" and k: "cstr k' = k"
    and len: "length k \<le> UDB_MAX_KEY_LENGTH conf"
    and t2: "next_token c1 = (tB, c2)" and sv: "set_value tB = Inr v" and nv: "nul_free v"
  shows "\<exists>c'. udb_handle_set conf c = Some (''OK'' @ CRLF, c') \<and> db_invar (core_db c')
          \<and> scanner_mutex c' = scanner_mutex c \<and> store_abs (core_db c') = (store_abs (core_db c))(k \<mapsto> v)"
proof -
  have c1: "core_db c2 = core_db c" "scanner_mutex c2 = scanner_mutex c"
    using t1 t2 next_token_db [of c] next_token_mutex [of c] next_token_db [of c1]
      next_token_mutex [of c1] by simp_all
  have nk: "nul_free k" using k by auto
  obtain b s' where ins: "db_insert k v (core_db c) = Some (b, s')"
    using inv by (simp add: db_insert_free db_invar_free)
  then have abs: "store_abs s' = (store_abs (core_db c))(k \<mapsto> v)" "db_invar s'"
    using store_abs_insert [OF inv nk nv ins] by simp_all
  have "udb_handle_set conf c = Some (''OK'' @ CRLF, c2\<lparr>core_db := s'\<rparr>)"
    using len k ins c1 by (simp add: udb_handle_set_def t1 t2 sk sv)
  with abs c1 show ?thesis by simp
qed

lemma udb_handle_set_token:
  assumes inv: "db_invar (core_db c)"
    and t1: "next_token c = (G_TOKEN_IDENTIFIER k', c1)" and k: "cstr k' = k"
    and len: "length k \<le> UDB_MAX_KEY_LENGTH conf"
    and t2: "next_token c1 = (tB, c2)" and sv: "set_value tB = Inr v" and nv: "nul_free v"
  shows "\<exists>c'. udb_handle_set conf c = Some (''OK'' @ CRLF, c') \<and> db_invar (core_db c')
          \<and> scanner_mutex c' = scanner_mutex c \<and> store_abs (core_db c') = (store_abs (core_db c))(k \<mapsto> v)"
  using udb_handle_set_key [OF inv t1 _ k len t2 sv nv] by (simp add: scanner_key_def)

lemma udb_handle_set_value:
  assumes inv: "db_invar (core_db c)"
    and t1: "next_token c = (G_TOKEN_IDENTIFIER k', c1)" and k: "cstr k' = k"
    and len: "length k \<le> UDB_MAX_KEY_LENGTH conf"
    and tok: "scan_token (core_scanner c1) \<noteq> G_TOKEN_EOF"
    and htx: "scan_text (core_scanner c1) = '' '' @ v @ NUL # m" and v: "udb_identifier v"
  shows "\<exists>c'. udb_handle_set conf c = Some (''OK'' @ CRLF, c') \<and> db_invar (core_db c')
          \<and> scanner_mutex c' = scanner_mutex c \<and> store_abs (core_db c') = (store_abs (core_db c))(k \<mapsto> v)"
proof -
  obtain v' r where t2: "next_token c1 = (G_TOKEN_IDENTIFIER v', scanned c1 (G_TOKEN_IDENTIFIER v') r)"
    and v': "cstr v' = v"
    using next_token_ident_eol [OF tok htx _ v] by auto
  show ?thesis
    using udb_handle_set_token [OF inv t1 k len t2] v' udb_identifier_nul_free [OF v]
    by (simp add: set_value_def)
qed

lemma udb_handle_set_ident:
  assumes inv: "db_invar (core_db c)" and tok: "scan_token (core_scanner c) \<noteq> G_TOKEN_EOF"
    and htx: "scan_text (core_scanner c) = '' '' @ k @ '' '' @ v @ NUL # m"
    and k: "udb_identifier k" and v: "udb_identifier v"
    and len: "length k \<le> UDB_MAX_KEY_LENGTH conf"
  shows "\<exists>c'. udb_handle_set conf c = Some (''OK'' @ CRLF, c') \<and> db_invar (core_db c')
          \<and> scanner_mutex c' = scanner_mutex c \<and> store_abs (core_db c') = (store_abs (core_db c))(k \<mapsto> v)"
proof -
  let ?r = "CHR '' '' # v @ NUL # m"
  have stop: "ident_stop ?r" by (simp add: ident_stop_blank)
  have t1: "next_token c = (G_TOKEN_IDENTIFIER k, scanned c (G_TOKEN_IDENTIFIER k) ?r)"
    using next_token_ident [OF tok _ _ k stop, of "'' ''"] htx by simp
  show ?thesis
    using udb_handle_set_value [OF inv t1 _ len, of v m] k v by (simp add: udb_identifier_nul_free)
qed

lemma udb_handle_get_key:
  assumes inv: "db_invar (core_db c)"
    and t1: "next_token c = (tA, c1)" and sk: "scanner_key tA = Some k'" and k: "cstr k' = k"
  shows "\<exists>c'. udb_handle_get c =
            Some ((case store_abs (core_db c) k of None \<Rightarrow> ''NULL'' | Some v \<Rightarrow> v) @ CRLF, c')
          \<and> core_db c' = core_db c \<and> scanner_mutex c' = scanner_mutex c"
proof -
  have c1: "core_db c1 = core_db c" "scanner_mutex c1 = scanner_mutex c"
    using t1 next_token_db [of c] next_token_mutex [of c] by simp_all
  have vals: "store_abs (core_db c) k = Some v \<Longrightarrow> nul_free v" for v
    using inv by (auto simp: store_abs_def db_invar_def intro: ghash_invar_values)
  show ?thesis
    using inv vals c1
    by (auto simp: udb_handle_get_def t1 sk db_invar_lookup k store_abs_def split: option.split)
qed

lemma udb_handle_get_ident:
  assumes inv: "db_invar (core_db c)" and tok: "scan_token (core_scanner c) \<noteq> G_TOKEN_EOF"
    and htx: "scan_text (core_scanner c) = '' '' @ k @ NUL # m"
    and k: "udb_identifier k"
  shows "\<exists>c'. udb_handle_get c =
            Some ((case store_abs (core_db c) k of None \<Rightarrow> ''NULL'' | Some v \<Rightarrow> v) @ CRLF, c')
          \<and> core_db c' = core_db c \<and> scanner_mutex c' = scanner_mutex c"
proof -
  obtain k' r where t1: "next_token c = (G_TOKEN_IDENTIFIER k', scanned c (G_TOKEN_IDENTIFIER k') r)"
    and k': "cstr k' = k"
    using next_token_ident_eol [OF tok _ _ k, of "'' ''" m] htx by auto
  show ?thesis
    using udb_handle_get_key [OF inv t1 _ k'] by (simp add: scanner_key_def)
qed

lemma udb_handle_del_ident:
  assumes inv: "db_invar (core_db c)" and tok: "scan_token (core_scanner c) \<noteq> G_TOKEN_EOF"
    and htx: "scan_text (core_scanner c) = '' '' @ k @ NUL # m"
    and k: "udb_identifier k"
  shows "\<exists>c'. udb_handle_del c = Some (''OK'' @ CRLF, c') \<and> db_invar (core_db c')
          \<and> scanner_mutex c' = scanner_mutex c \<and> store_abs (core_db c') = (store_abs (core_db c))(k := None)"
proof -
  obtain k' r where t1: "next_token c = (G_TOKEN_IDENTIFIER k', scanned c (G_TOKEN_IDENTIFIER k') r)"
    and k': "cstr k' = k"
    using next_token_ident_eol [OF tok _ _ k, of "'' ''" m] htx by auto
  have rm: "db_remove k' (core_db c) = Some (k \<in> dom (store_abs (core_db c)),
      (core_db c)\<lparr>db_mem := filter (\<lambda>p. fst p \<noteq> k) (db_mem (core_db c)), db_mutex := False\<rparr>)"
    using inv k' by (simp add: db_remove_free db_invar_free store_abs_def)
  have inv': "db_invar ((core_db c)\<lparr>db_mem := filter (\<lambda>p. fst p \<noteq> k) (db_mem (core_db c)), db_mutex := False\<rparr>)"
    using inv ghash_invar_remove [of "db_mem (core_db c)" k]
    by (simp add: db_invar_def g_hash_table_remove_def)
  show ?thesis
    using inv' by (simp add: udb_handle_del_def t1 scanner_key_def rm store_abs_def)
qed

text \<open>The scanner state \<open>c1\<close> that \<^verbatim>\<open>process_command_line\<close> sets up before its first
  token: the scanner mutex taken and the line given to \<^verbatim>\<open>g_scanner_input_text\<close>.\<close>

lemma process_command_line_first:
  assumes inv: "core_invar c"
    and nt: "next_token (c\<lparr>scanner_mutex := True,
               core_scanner := g_scanner_input_text (core_scanner c) mem (- 1)\<rparr>) = (G_TOKEN_IDENTIFIER w, c2)"
    and w: "nul_free w"
  shows "process_command_line conf mem c =
           (case find_command udb_commands w of
              Some h \<Rightarrow> do { (response, c') \<leftarrow> udb_call h conf c2; Some (response, c'\<lparr>scanner_mutex := False\<rparr>) }
            | None \<Rightarrow> Some (''ERR Unknown command: '' @ w @ CRLF, c2\<lparr>scanner_mutex := False\<rparr>))"
  using inv nt w by (simp add: process_command_line_def core_invar_def g_mutex_lock_def
      g_mutex_unlock_def split: option.split)

lemma first_token_line:
  assumes len: "length (w @ rest) < 4294967295"
    and w: "udb_identifier w" and stop: "ident_stop (rest @ NUL # m)"
  shows "\<exists>c2 m'. next_token (c\<lparr>scanner_mutex := True,
               core_scanner := g_scanner_input_text (core_scanner c) (w @ rest @ NUL # m) (- 1)\<rparr>) =
             (G_TOKEN_IDENTIFIER w, c2)
           \<and> scan_token (core_scanner c2) = G_TOKEN_IDENTIFIER w
           \<and> scan_text (core_scanner c2) = rest @ NUL # m' \<and> core_db c2 = core_db c \<and> scanner_mutex c2"
proof -
  obtain m' where it: "g_scanner_input_text (core_scanner c) (w @ rest @ NUL # m) (- 1) =
      (core_scanner c)\<lparr>scan_text := w @ rest @ NUL # m', scan_token := G_TOKEN_NONE\<rparr>"
    using input_text_line [OF len] by auto
  let ?c1 = "c\<lparr>scanner_mutex := True, core_scanner := (core_scanner c)\<lparr>scan_text := w @ rest @ NUL # m',
               scan_token := G_TOKEN_NONE\<rparr>\<rparr>"
  have stop': "ident_stop (rest @ NUL # m')"
    using stop by (cases rest) (simp_all add: ident_stop_def)
  have "next_token ?c1 = (G_TOKEN_IDENTIFIER w, scanned ?c1 (G_TOKEN_IDENTIFIER w) (rest @ NUL # m'))"
    using next_token_ident [OF _ _ _ w stop', of ?c1 "[]"] by simp
  then show ?thesis by (simp add: it)
qed

lemma first_token_eol:
  assumes len: "length w < 4294967295"
    and w: "udb_identifier w" and two: "2 \<le> length w"
  shows "\<exists>c2 m'. next_token (c\<lparr>scanner_mutex := True,
               core_scanner := g_scanner_input_text (core_scanner c) (w @ NUL # m) (- 1)\<rparr>) =
             (G_TOKEN_IDENTIFIER w, c2)
           \<and> scan_token (core_scanner c2) = G_TOKEN_IDENTIFIER w
           \<and> scan_text (core_scanner c2) = NUL # m' \<and> core_db c2 = core_db c \<and> scanner_mutex c2"
proof -
  obtain m' where it: "g_scanner_input_text (core_scanner c) (w @ NUL # m) (- 1) =
      (core_scanner c)\<lparr>scan_text := w @ NUL # m', scan_token := G_TOKEN_NONE\<rparr>"
    using input_text_line [OF len] by auto
  then show ?thesis
    using w two by (simp add: next_token_def g_scanner_get_next_token_def get_token_i_ident_eol)
qed

lemma process_command_line_dispatch:
  assumes inv: "core_invar c" and len: "length (w @ rest) < 4294967295"
    and w: "udb_identifier w" and h: "find_command udb_commands w = Some h"
    and stop: "ident_stop (rest @ NUL # m)"
  shows "\<exists>c2 m'. scan_token (core_scanner c2) = G_TOKEN_IDENTIFIER w
           \<and> scan_text (core_scanner c2) = rest @ NUL # m' \<and> core_db c2 = core_db c \<and> scanner_mutex c2
           \<and> process_command_line conf (w @ rest @ NUL # m) c =
               do { (response, c') \<leftarrow> udb_call h conf c2; Some (response, c'\<lparr>scanner_mutex := False\<rparr>) }"
proof -
  obtain c2 m' where nt: "next_token (c\<lparr>scanner_mutex := True,
               core_scanner := g_scanner_input_text (core_scanner c) (w @ rest @ NUL # m) (- 1)\<rparr>) =
             (G_TOKEN_IDENTIFIER w, c2)"
    and c2: "scan_token (core_scanner c2) = G_TOKEN_IDENTIFIER w"
      "scan_text (core_scanner c2) = rest @ NUL # m'" "core_db c2 = core_db c" "scanner_mutex c2"
    using first_token_line [OF len w stop] by blast
  show ?thesis
    using process_command_line_first [OF inv nt udb_identifier_nul_free [OF w], of conf] h c2 by auto
qed

subsection \<open>Whole command lines\<close>

lemma udb_identifier_cmds [simp]:
  "udb_identifier ''GET''" "udb_identifier ''SET''" "udb_identifier ''DEL''"
  by (simp_all add: udb_identifier_def ident_first_def ident_nth_def G_CSET_a_2_z_def
      G_CSET_A_2_Z_def G_CSET_DIGITS_def)

lemma core_invar_after:
  "db_invar (core_db c') \<Longrightarrow> core_invar (c'\<lparr>scanner_mutex := False\<rparr>)"
  by (simp add: core_invar_def)

lemma process_set_line:
  assumes inv: "core_invar c" and k: "udb_identifier k" and v: "udb_identifier v"
    and len: "length k \<le> UDB_MAX_KEY_LENGTH conf"
    and line: "length k + length v < 4294967290"
  shows "\<exists>c'. process_command_line conf (''SET '' @ k @ '' '' @ v @ NUL # m) c = Some (''OK'' @ CRLF, c')
           \<and> core_invar c' \<and> store_abs (core_db c') = (store_abs (core_db c))(k \<mapsto> v)"
proof -
  obtain c2 m' where c2: "scan_token (core_scanner c2) = G_TOKEN_IDENTIFIER ''SET''"
    "scan_text (core_scanner c2) = (CHR '' '' # k @ CHR '' '' # v) @ NUL # m'"
    "core_db c2 = core_db c"
    and eq: "process_command_line conf (''SET'' @ (CHR '' '' # k @ CHR '' '' # v) @ NUL # m) c =
      do { (response, c') \<leftarrow> udb_call UDB_HANDLE_SET conf c2; Some (response, c'\<lparr>scanner_mutex := False\<rparr>) }"
    using process_command_line_dispatch [OF inv _ _ _, of "''SET''" "CHR '' '' # k @ CHR '' '' # v" UDB_HANDLE_SET m conf]
      line by (auto simp: find_command_udb ident_stop_blank)
  obtain c3 where c3: "udb_handle_set conf c2 = Some (''OK'' @ CRLF, c3)" "db_invar (core_db c3)"
    "store_abs (core_db c3) = (store_abs (core_db c))(k \<mapsto> v)"
    using udb_handle_set_ident [of c2 k v m' conf] inv c2 k v len by (auto simp: core_invar_def)
  show ?thesis
    using eq c3 by (simp add: core_invar_def)
qed

lemma process_get_line:
  assumes inv: "core_invar c" and k: "udb_identifier k" and line: "length k < 4294967291"
  shows "\<exists>c'. process_command_line conf (''GET '' @ k @ NUL # m) c =
             Some ((case store_abs (core_db c) k of None \<Rightarrow> ''NULL'' | Some v \<Rightarrow> v) @ CRLF, c')
           \<and> core_invar c' \<and> core_db c' = core_db c"
proof -
  obtain c2 m' where c2: "scan_token (core_scanner c2) = G_TOKEN_IDENTIFIER ''GET''"
    "scan_text (core_scanner c2) = (CHR '' '' # k) @ NUL # m'"
    "core_db c2 = core_db c"
    and eq: "process_command_line conf (''GET'' @ (CHR '' '' # k) @ NUL # m) c =
      do { (response, c') \<leftarrow> udb_call UDB_HANDLE_GET conf c2; Some (response, c'\<lparr>scanner_mutex := False\<rparr>) }"
    using process_command_line_dispatch [OF inv _ _ _, of "''GET''" "CHR '' '' # k" UDB_HANDLE_GET m conf]
      line by (auto simp: find_command_udb ident_stop_blank)
  obtain c3 where c3: "udb_handle_get c2 =
      Some ((case store_abs (core_db c) k of None \<Rightarrow> ''NULL'' | Some v \<Rightarrow> v) @ CRLF, c3)"
    "core_db c3 = core_db c"
    using udb_handle_get_ident [of c2 k m'] inv c2 k by (auto simp: core_invar_def)
  show ?thesis
    using eq c3 inv by (simp add: core_invar_def)
qed

lemma process_del_line:
  assumes inv: "core_invar c" and k: "udb_identifier k" and line: "length k < 4294967291"
  shows "\<exists>c'. process_command_line conf (''DEL '' @ k @ NUL # m) c = Some (''OK'' @ CRLF, c')
           \<and> core_invar c' \<and> store_abs (core_db c') = (store_abs (core_db c))(k := None)"
proof -
  obtain c2 m' where c2: "scan_token (core_scanner c2) = G_TOKEN_IDENTIFIER ''DEL''"
    "scan_text (core_scanner c2) = (CHR '' '' # k) @ NUL # m'"
    "core_db c2 = core_db c"
    and eq: "process_command_line conf (''DEL'' @ (CHR '' '' # k) @ NUL # m) c =
      do { (response, c') \<leftarrow> udb_call UDB_HANDLE_DEL conf c2; Some (response, c'\<lparr>scanner_mutex := False\<rparr>) }"
    using process_command_line_dispatch [OF inv _ _ _, of "''DEL''" "CHR '' '' # k" UDB_HANDLE_DEL m conf]
      line by (auto simp: find_command_udb ident_stop_blank)
  obtain c3 where c3: "udb_handle_del c2 = Some (''OK'' @ CRLF, c3)" "db_invar (core_db c3)"
    "store_abs (core_db c3) = (store_abs (core_db c))(k := None)"
    using udb_handle_del_ident [of c2 k m'] inv c2 k by (auto simp: core_invar_def)
  show ?thesis
    using eq c3 by (simp add: core_invar_def)
qed


lemma process_unknown_line:
  assumes inv: "core_invar c" and len: "length (w @ rest) < 4294967295"
    and w: "udb_identifier w" and none: "find_command udb_commands w = None"
    and stop: "ident_stop (rest @ NUL # m)"
  shows "\<exists>c'. process_command_line conf (w @ rest @ NUL # m) c = Some (''ERR Unknown command: '' @ w @ CRLF, c')
           \<and> core_invar c' \<and> core_db c' = core_db c"
proof -
  obtain c2 m' where nt: "next_token (c\<lparr>scanner_mutex := True,
               core_scanner := g_scanner_input_text (core_scanner c) (w @ rest @ NUL # m) (- 1)\<rparr>) =
             (G_TOKEN_IDENTIFIER w, c2)" and c2: "core_db c2 = core_db c"
    using first_token_line [OF len w stop] by blast
  show ?thesis
    using process_command_line_first [OF inv nt udb_identifier_nul_free [OF w], of conf] none c2 inv
    by (simp add: core_invar_def)
qed

lemma next_token_eof:
  assumes "scan_token (core_scanner c) \<noteq> G_TOKEN_EOF" and "scan_text (core_scanner c) = NUL # m"
  shows "next_token c = (G_TOKEN_EOF, scanned c G_TOKEN_EOF m)"
  using assms by (simp add: next_token_def g_scanner_get_next_token_def get_token_i_eof scanned_def)

lemma process_set_nokey_line:
  assumes inv: "core_invar c"
  shows "\<exists>c'. process_command_line conf (''SET'' @ NUL # m) c =
             Some (''ERR Missing KEY (token=0)'' @ CRLF, c') \<and> core_invar c' \<and> core_db c' = core_db c"
proof -
  obtain c2 m' where nt: "next_token (c\<lparr>scanner_mutex := True,
               core_scanner := g_scanner_input_text (core_scanner c) (''SET'' @ NUL # m) (- 1)\<rparr>) =
             (G_TOKEN_IDENTIFIER ''SET'', c2)"
    and c2: "scan_token (core_scanner c2) = G_TOKEN_IDENTIFIER ''SET''"
      "scan_text (core_scanner c2) = NUL # m'" "core_db c2 = core_db c"
    using first_token_eol [of "''SET''" c m] by auto
  have "udb_handle_set conf c2 = Some (missing_key G_TOKEN_EOF, scanned c2 G_TOKEN_EOF m')"
    using next_token_eof [of c2 m'] c2 by (simp add: udb_handle_set_def scanner_key_def)
  moreover have "missing_key G_TOKEN_EOF = ''ERR Missing KEY (token=0)'' @ CRLF"
    by (simp add: missing_key_def g_token_type_def int_dec_def nat_dec_small dec_digit_def)
  ultimately show ?thesis
    using process_command_line_first [OF inv nt, of conf] c2 inv
    by (simp add: find_command_udb core_invar_def)
qed

lemma process_set_long_line:
  assumes inv: "core_invar c" and k: "udb_identifier k"
    and long: "UDB_MAX_KEY_LENGTH conf < length k"
    and line: "length k + length v < 4294967290"
  shows "\<exists>c'. process_command_line conf (''SET '' @ k @ '' '' @ v @ NUL # m) c =
             Some (''ERR Key To Long'' @ CRLF, c') \<and> core_invar c' \<and> core_db c' = core_db c"
proof -
  obtain c2 m' where c2: "scan_token (core_scanner c2) = G_TOKEN_IDENTIFIER ''SET''"
    "scan_text (core_scanner c2) = (CHR '' '' # k @ CHR '' '' # v) @ NUL # m'"
    "core_db c2 = core_db c"
    and eq: "process_command_line conf (''SET'' @ (CHR '' '' # k @ CHR '' '' # v) @ NUL # m) c =
      do { (response, c') \<leftarrow> udb_call UDB_HANDLE_SET conf c2; Some (response, c'\<lparr>scanner_mutex := False\<rparr>) }"
    using process_command_line_dispatch [OF inv _ _ _, of "''SET''" "CHR '' '' # k @ CHR '' '' # v" UDB_HANDLE_SET m conf]
      line by (auto simp: find_command_udb ident_stop_blank)
  let ?r = "CHR '' '' # v @ NUL # m'"
  have stop: "ident_stop ?r" by (simp add: ident_stop_blank)
  have "next_token c2 = (G_TOKEN_IDENTIFIER k, scanned c2 (G_TOKEN_IDENTIFIER k) ?r)"
    using next_token_ident [OF _ _ _ k stop, of c2 "'' ''"] c2 by simp
  then have "udb_handle_set conf c2 = Some (''ERR Key To Long'' @ CRLF, scanned c2 (G_TOKEN_IDENTIFIER k) ?r)"
    using long udb_identifier_nul_free [OF k] by (simp add: udb_handle_set_def scanner_key_def)
  then show ?thesis
    using eq c2 inv by (simp add: core_invar_def)
qed



subsection \<open>A one-character key at the end of the line\<close>

lemma scan_ident_rest_nul_word:
  assumes "list_all ident_nth w" and "ident_stop r"
  shows "scan_ident_rest (cset_identifier_nth udb_scanner_init) (NUL # w @ r) = (NUL # w, r)"
proof (cases w)
  case Nil
  with assms show ?thesis by (cases r) (auto simp: ident_stop_def Let_def)
next
  case (Cons d ds)
  have "scan_ident_rest (cset_identifier_nth udb_scanner_init) (d # ds @ r) = (d # ds, r)"
    using assms Cons by (intro scan_ident_rest_word) (auto simp: ident_stop_def, cases r, auto)
  moreover have "d \<noteq> NUL"
    using assms(1) Cons ident_nth_not_nul by fastforce
  ultimately show ?thesis using assms Cons by (simp add: Let_def)
qed

lemma next_token_ident1_overread:
  assumes "scan_token (core_scanner c) \<noteq> G_TOKEN_EOF"
    and "scan_text (core_scanner c) = ws @ a # NUL # w @ r"
    and "set ws \<subseteq> set (cset_skip_characters udb_scanner_init)"
    and "ident_first a" and "list_all ident_nth w" and "ident_stop r"
  shows "next_token c = (G_TOKEN_IDENTIFIER (a # NUL # w), scanned c (G_TOKEN_IDENTIFIER (a # NUL # w)) r)"
  using assms get_token_i_ident1_eol [OF assms(4), of "w @ r"] scan_ident_rest_nul_word [OF assms(5,6)]
  by (simp add: next_token_def g_scanner_get_next_token_def get_token_i_blanks scanned_def
      del: scan_ident_rest.simps)

lemma process_set_overread:
  assumes inv: "core_invar c" and a: "ident_first a" and w: "list_all ident_nth w"
    and v: "udb_identifier v" and len: "1 \<le> UDB_MAX_KEY_LENGTH conf"
    and line: "length w + length v < 4294967288"
  shows "\<exists>c'. process_command_line conf (''SET '' @ a # NUL # w @ '' '' @ v @ NUL # m) c =
             Some (''OK'' @ CRLF, c') \<and> core_invar c' \<and> store_abs (core_db c') = (store_abs (core_db c))([a] \<mapsto> v)"
proof -
  let ?rest = "CHR '' '' # a # NUL # w @ CHR '' '' # v"
  obtain c2 m' where c2: "scan_token (core_scanner c2) = G_TOKEN_IDENTIFIER ''SET''"
    "scan_text (core_scanner c2) = ?rest @ NUL # m'" "core_db c2 = core_db c"
    and eq: "process_command_line conf (''SET'' @ ?rest @ NUL # m) c =
      do { (response, c') \<leftarrow> udb_call UDB_HANDLE_SET conf c2; Some (response, c'\<lparr>scanner_mutex := False\<rparr>) }"
    using process_command_line_dispatch [OF inv _ _ _, of "''SET''" ?rest UDB_HANDLE_SET m conf]
      line by (auto simp: find_command_udb ident_stop_blank)
  let ?r = "CHR '' '' # v @ NUL # m'"
  have t1: "next_token c2 = (G_TOKEN_IDENTIFIER (a # NUL # w), scanned c2 (G_TOKEN_IDENTIFIER (a # NUL # w)) ?r)"
    using next_token_ident1_overread [of c2 "'' ''" a w ?r] c2 a w by (simp add: ident_stop_blank)
  have na: "a \<noteq> NUL" using a ident_first_not_nul by blast
  obtain c3 where c3: "udb_handle_set conf c2 = Some (''OK'' @ CRLF, c3)" "db_invar (core_db c3)"
    "store_abs (core_db c3) = (store_abs (core_db c))([a] \<mapsto> v)"
    using udb_handle_set_value [OF _ t1, of "[a]" conf v m'] inv c2 v len na
    by (auto simp: core_invar_def)
  show ?thesis
    using eq c3 by (simp add: core_invar_def)
qed

subsection \<open>Blank lines\<close>

text \<open>C40: a blank line is answered with an error and changes nothing. For a line that is
  empty or holds only blanks (spaces, tabs, carriage returns), the scanner's first token
  is \<^verbatim>\<open>G_TOKEN_EOF\<close>. \<^verbatim>\<open>process_command_line\<close> then answers
  \<^verbatim>\<open>ERR Expected Command Identifier (got token=0)\<close>, releases the scanner and leaves the
  store as it was.\<close>

theorem blank_line_reply:
  assumes inv: "core_invar c" and ws: "set ws \<subseteq> set (cset_skip_characters udb_scanner_init)"
    and len: "length ws < 4294967295"
  shows "\<exists>c'. process_command_line conf (ws @ NUL # m) c =
             Some (''ERR Expected Command Identifier (got token=0)'' @ CRLF, c')
           \<and> core_invar c' \<and> core_db c' = core_db c"
proof -
  obtain m' where it: "g_scanner_input_text (core_scanner c) (ws @ NUL # m) (- 1) =
      (core_scanner c)\<lparr>scan_text := ws @ NUL # m', scan_token := G_TOKEN_NONE\<rparr>"
    using input_text_line [OF len] by auto
  have tok: "g_scanner_get_token_i udb_scanner_init (ws @ NUL # m') = (G_TOKEN_EOF, m')"
    using get_token_i_blanks [OF ws] get_token_i_eof(2) by simp
  have "int_dec (g_token_type G_TOKEN_EOF) = ''0''"
    by (simp add: g_token_type_def int_dec_def nat_dec_small dec_digit_def)
  then show ?thesis
    using inv it tok
    by (simp add: process_command_line_def core_invar_def g_mutex_lock_def g_mutex_unlock_def
        next_token_def g_scanner_get_next_token_def)
qed

theorem blank_line_reply_witness:
  "\<exists>c'. process_command_line \<lparr>UDB_MAX_KEY_LENGTH = 255, UDB_DB_SECTION = ''udb''\<rparr> ([CHR '' '', CHR 0x0D] @ NUL # [])
          core_init = Some (''ERR Expected Command Identifier (got token=0)'' @ CRLF, c')
     \<and> core_invar c' \<and> core_db c' = core_db core_init"
  by (rule blank_line_reply) (simp_all add: udb_scanner_init_csets)

end
