(* ===== verification/Numbers.thy ===== *)
theory Numbers
  imports Lines
begin

text \<open>
  Integer values of \<^verbatim>\<open>SET\<close>. A decimal literal is lexed by GScanner's number
  loop and converted by \<^verbatim>\<open>g_ascii_strtoull\<close>, which saturates at \<open>2^64 - 1\<close>.
  \<^verbatim>\<open>udb_handle_set\<close> then prints \<^verbatim>\<open>value.v_int\<close> (an unsigned
  \<^verbatim>\<open>gulong\<close>) with \<^verbatim>\<open>%ld\<close>, i.e. as a signed 64-bit number. The lemmas follow
  a line \<^verbatim>\<open>SET k n\<close> through \<^verbatim>\<open>process_command_line\<close> and compute the
  stored text, with the wrap-around at \<open>2^63\<close>.
\<close>

text \<open>The value of a decimal digit, and a decimal literal as GScanner reads one in
  base 10: digits only, not starting with \<^verbatim>\<open>0\<close> (which starts an octal or prefixed
  number).\<close>

definition digit_val :: "char \<Rightarrow> nat" where
  "digit_val c = of_char c - 48"

definition dec_literal :: "bytes \<Rightarrow> bool" where
  "dec_literal ds \<longleftrightarrow> ds \<noteq> [] \<and> hd ds \<noteq> CHR ''0'' \<and> list_all is_digit ds"

text \<open>A byte that ends a number of kind \<open>NK_INT\<close> without an error.\<close>

definition num_stop :: "bytes \<Rightarrow> bool" where
  "num_stop r \<longleftrightarrow> r = [] \<or> (g_scanner_char_2_num (hd r) 36 = None \<and> hd r \<noteq> CHR ''.'')"

lemma char_2_num_digit:
  "is_digit c \<Longrightarrow> b \<ge> 10 \<Longrightarrow> g_scanner_char_2_num c b = Some (digit_val c)"
  by (auto simp: is_digit_def G_CSET_DIGITS_def g_scanner_char_2_num_def digit_val_def)

lemma digit_props:
  "is_digit c \<Longrightarrow> c \<noteq> NUL \<and> c \<noteq> CHR ''.'' \<and> c \<noteq> CHR ''-'' \<and> c \<noteq> CHR ''+'' \<and> c \<noteq> CHR ''e''
     \<and> c \<noteq> CHR ''E'' \<and> \<not> ident_first c \<and> c \<noteq> CHR 0x22 \<and> c \<noteq> CHR 0x27"
  by (auto simp: is_digit_def G_CSET_DIGITS_def ident_first_def G_CSET_a_2_z_def G_CSET_A_2_Z_def)

lemma scan_number_loop_digits:
  "list_all is_digit ds \<Longrightarrow> num_stop r \<Longrightarrow>
   scan_number_loop udb_scanner_init NK_INT ch (ds @ r) = (Inr NK_INT, ds, r)"
proof (induction ds arbitrary: ch)
  case Nil
  then show ?case by (cases r) (auto simp: num_stop_def)
next
  case (Cons c ds)
  then show ?case using digit_props [of c] char_2_num_digit [of c 36] by (simp add: Let_def)
qed

lemma digit_run_digits: "list_all is_digit ds \<Longrightarrow> digit_run 10 ds = (map digit_val ds, [])"
  by (induction ds) (auto simp: char_2_num_digit)

lemma strtoull_dec:
  "dec_literal ds \<Longrightarrow>
   g_ascii_strtoull ds 10 = (min (digits_value 10 (map digit_val ds)) (2 ^ 64 - 1), [])"
  by (simp add: g_ascii_strtoull_def dec_literal_def digit_run_digits)

lemma dec_literal_nul_free: "dec_literal ds \<Longrightarrow> nul_free ds"
  by (auto simp: dec_literal_def nul_free_def list_all_iff dest: digit_props)

lemma get_token_i_dec:
  assumes ds: "dec_literal ds" and r: "num_stop r"
  shows "g_scanner_get_token_i udb_scanner_init (ds @ r) =
     (G_TOKEN_INT (word_of_nat (min (digits_value 10 (map digit_val ds)) (2 ^ 64 - 1))), r)"
proof -
  obtain d ds' where d: "ds = d # ds'" "is_digit d" "d \<noteq> CHR ''0''" "list_all is_digit ds'"
    using ds by (cases ds) (auto simp: dec_literal_def)
  have "g_scanner_get_token_ll udb_scanner_init (ds @ r) = scan_number udb_scanner_init NK_INT [d] d (ds' @ r)"
    using d digit_props [of d] by (simp add: g_scanner_get_token_ll_def)
  also have "\<dots> = (G_TOKEN_INT (word_of_nat (min (digits_value 10 (map digit_val ds)) (2 ^ 64 - 1))), r)"
    using scan_number_loop_digits [OF d(4) r] strtoull_dec [OF ds] cstr_id [OF dec_literal_nul_free [OF ds]]
    by (simp add: scan_number_def scan_number_finish_def num_base_def int_token_def d del: cstr_Cons)
  finally show ?thesis
    by (subst get_token_i_unfold) (simp add: token_skipped_def numbers_to_int_def)
qed

lemma num_stop_nul [simp]: "num_stop (NUL # m)"
  by (simp add: num_stop_def g_scanner_char_2_num_def)

lemma next_token_dec_eol:
  assumes "scan_token (core_scanner c) \<noteq> G_TOKEN_EOF"
    and "scan_text (core_scanner c) = ws @ ds @ NUL # m"
    and "set ws \<subseteq> set (cset_skip_characters udb_scanner_init)" and "dec_literal ds"
  shows "next_token c = (G_TOKEN_INT (word_of_nat (min (digits_value 10 (map digit_val ds)) (2 ^ 64 - 1))),
           scanned c (G_TOKEN_INT (word_of_nat (min (digits_value 10 (map digit_val ds)) (2 ^ 64 - 1)))) (NUL # m))"
  using assms
  by (simp add: next_token_def g_scanner_get_next_token_def get_token_i_blanks get_token_i_dec
      scanned_def)

lemma sint_word_of_nat64:
  assumes "u < 2 ^ 64"
  shows "sint (word_of_nat u :: 64 word) = (if u < 2 ^ 63 then int u else int u - 2 ^ 64)"
proof -
  have mod_minus_self: "(k :: int) mod m = (k - m) mod m" for k m
    by (simp add: mod_diff_right_eq [symmetric])
  have p: "(2 :: int) ^ 64 = 18446744073709551616" by simp
  have u: "int u < 18446744073709551616" using assms by simp
  have "sint (word_of_nat u :: 64 word) = signed_take_bit 63 (int u)"
    using sint_sbintrunc' [where ?'a = 64, of "int u"] by simp
  also have "\<dots> = (int u + 9223372036854775808) mod 18446744073709551616 - 9223372036854775808"
    by (simp add: signed_take_bit_eq_take_bit_shift take_bit_eq_mod)
  also have "\<dots> = (if u < 2 ^ 63 then int u else int u - 2 ^ 64)"
  proof (cases "u < 2 ^ 63")
    case True
    then have "int u < 9223372036854775808" by simp
    then have "(int u + 9223372036854775808) mod 18446744073709551616 = int u + 9223372036854775808"
      by (intro mod_pos_pos_trivial) linarith+
    then show ?thesis by (simp only: if_P [OF True])
  next
    case False
    then have f: "9223372036854775808 \<le> int u" by simp
    have "(int u + 9223372036854775808) mod 18446744073709551616
        = (int u + 9223372036854775808 - 18446744073709551616) mod 18446744073709551616"
      by (rule mod_minus_self)
    also have "\<dots> = int u + 9223372036854775808 - 18446744073709551616"
      using f u by (intro mod_pos_pos_trivial) linarith+
    finally show ?thesis using p by (simp only: if_not_P [OF False])
  qed
  finally show ?thesis .
qed

text \<open>The text \<^verbatim>\<open>g_strdup_printf ("%ld", v_int)\<close> gives for a decimal literal: its
  value saturated at \<open>2^64 - 1\<close> by \<^verbatim>\<open>g_ascii_strtoull\<close>, then read as a signed
  64-bit number.\<close>

lemma set_value_dec:
  "set_value (G_TOKEN_INT (word_of_nat (min n (2 ^ 64 - 1)))) =
     Inr (int_dec (let u = min n (2 ^ 64 - 1) in if u < 2 ^ 63 then int u else int u - 2 ^ 64))"
proof -
  have "min n (2 ^ 64 - 1) < (2 :: nat) ^ 64" by simp
  then show ?thesis by (simp add: set_value_def sint_word_of_nat64 Let_def)
qed

text \<open>A line \<^verbatim>\<open>SET k n\<close> with a decimal literal: the text stored for \<open>k\<close>.\<close>

lemma process_set_dec_line:
  assumes inv: "core_invar c" and k: "udb_identifier k" and ds: "dec_literal ds"
    and len: "length k \<le> UDB_MAX_KEY_LENGTH conf"
    and line: "length k + length ds < 4294967290"
  shows "\<exists>c'. process_command_line conf (''SET '' @ k @ '' '' @ ds @ NUL # m) c = Some (''OK'' @ CRLF, c')
           \<and> core_invar c' \<and> store_abs (core_db c') = (store_abs (core_db c))(k \<mapsto>
               int_dec (let u = min (digits_value 10 (map digit_val ds)) (2 ^ 64 - 1)
                        in if u < 2 ^ 63 then int u else int u - 2 ^ 64))"
proof -
  let ?w = "word_of_nat (min (digits_value 10 (map digit_val ds)) (2 ^ 64 - 1)) :: 64 word"
  obtain c2 m' where c2: "scan_token (core_scanner c2) = G_TOKEN_IDENTIFIER ''SET''"
    "scan_text (core_scanner c2) = (CHR '' '' # k @ CHR '' '' # ds) @ NUL # m'"
    "core_db c2 = core_db c"
    and eq: "process_command_line conf (''SET'' @ (CHR '' '' # k @ CHR '' '' # ds) @ NUL # m) c =
      do { (response, c') \<leftarrow> udb_call UDB_HANDLE_SET conf c2; Some (response, c'\<lparr>scanner_mutex := False\<rparr>) }"
    using process_command_line_dispatch [OF inv _ _ _, of "''SET''" "CHR '' '' # k @ CHR '' '' # ds" UDB_HANDLE_SET m conf]
      line by (auto simp: find_command_udb ident_stop_blank)
  let ?r = "CHR '' '' # ds @ NUL # m'"
  have t1: "next_token c2 = (G_TOKEN_IDENTIFIER k, scanned c2 (G_TOKEN_IDENTIFIER k) ?r)"
    using next_token_ident [OF _ _ _ k ident_stop_blank, of c2 "'' ''"] c2 by simp
  have t2: "next_token (scanned c2 (G_TOKEN_IDENTIFIER k) ?r) =
      (G_TOKEN_INT ?w, scanned (scanned c2 (G_TOKEN_IDENTIFIER k) ?r) (G_TOKEN_INT ?w) (NUL # m'))"
    using next_token_dec_eol [OF _ _ _ ds, of _ "'' ''" m'] by simp
  obtain c3 where c3: "udb_handle_set conf c2 = Some (''OK'' @ CRLF, c3)" "db_invar (core_db c3)"
    "store_abs (core_db c3) = (store_abs (core_db c))(k \<mapsto>
       int_dec (let u = min (digits_value 10 (map digit_val ds)) (2 ^ 64 - 1)
                in if u < 2 ^ 63 then int u else int u - 2 ^ 64))"
    using udb_handle_set_token [OF _ t1 _ len t2 set_value_dec] inv c2 k
    by (auto simp: core_invar_def udb_identifier_nul_free)
  show ?thesis
    using eq c3 by (simp add: core_invar_def)
qed

text \<open>C26: \<^verbatim>\<open>SET k n\<close> with a decimal integer \<open>n\<close> stores \<open>n\<close> as a signed
  64-bit number. The value is first saturated at \<open>2^64 - 1\<close>, and a value from
  \<open>2^63\<close> on wraps to a negative number. So the stored text equals the literal only
  below \<open>2^63\<close>.\<close>

theorem set_integer_wraps:
  assumes "core_invar c" and "udb_identifier k" and "dec_literal ds"
    and "length k \<le> UDB_MAX_KEY_LENGTH conf"
    and "length k + length ds < 4294967290"
  shows "\<exists>c'. process_command_line conf (''SET '' @ k @ '' '' @ ds @ NUL # m) c = Some (''OK'' @ CRLF, c')
           \<and> core_invar c' \<and> store_abs (core_db c') = (store_abs (core_db c))(k \<mapsto>
               int_dec (let u = min (digits_value 10 (map digit_val ds)) (2 ^ 64 - 1)
                        in if u < 2 ^ 63 then int u else int u - 2 ^ 64))"
  using assms by (rule process_set_dec_line)

theorem set_integer_wraps_witness:
  "\<exists>c'. process_command_line \<lparr>UDB_MAX_KEY_LENGTH = 255, UDB_DB_SECTION = ''udb''\<rparr>
          (''SET '' @ ''n'' @ '' '' @ ''9223372036854775808'' @ NUL # []) core_init = Some (''OK'' @ CRLF, c')
     \<and> core_invar c' \<and> store_abs (core_db c') = (store_abs (core_db core_init))(''n'' \<mapsto> ''-9223372036854775808'')"
proof -
  have k: "udb_identifier ''n''"
    by (simp add: udb_identifier_def ident_first_def G_CSET_a_2_z_def)
  have ds: "dec_literal ''9223372036854775808''"
    by (simp add: dec_literal_def is_digit_def G_CSET_DIGITS_def)
  have v: "int_dec (let u = min (digits_value 10 (map digit_val ''9223372036854775808'')) (2 ^ 64 - 1)
                    in if u < 2 ^ 63 then int u else int u - 2 ^ 64) = ''-9223372036854775808''"
    by (simp add: digits_value_def digit_val_def int_dec_def udb_simps dec_digit_def)
  show ?thesis
    using set_integer_wraps [OF core_invar_init k ds, of "\<lparr>UDB_MAX_KEY_LENGTH = 255, UDB_DB_SECTION = ''udb''\<rparr>" "[]"]
    unfolding v by simp
qed

subsection \<open>Printing back a decimal literal\<close>

lemma dec_digit_val: "is_digit c \<Longrightarrow> dec_digit (digit_val c) = c \<and> digit_val c < 10"
  by (auto simp: is_digit_def G_CSET_DIGITS_def digit_val_def dec_digit_def)

text \<open>\<^verbatim>\<open>%d\<close> of the value of a decimal literal without leading zero is the literal.\<close>

lemma nat_dec_digits_value:
  "dec_literal ds \<Longrightarrow> nat_dec (digits_value 10 (map digit_val ds)) = ds"
proof (induction ds rule: rev_induct)
  case (snoc c xs)
  have c: "is_digit c" using snoc.prems by (simp add: dec_literal_def)
  show ?case
  proof (cases "xs = []")
    case True
    with snoc.prems c dec_digit_val [OF c] show ?thesis
      by (simp add: dec_literal_def digits_value_def nat_dec_small)
  next
    case False
    then have xs: "dec_literal xs" using snoc.prems by (simp add: dec_literal_def)
    let ?v = "digits_value 10 (map digit_val xs)"
    have v: "nat_dec ?v = xs" using snoc.IH [OF xs] .
    have "?v \<noteq> 0"
    proof
      assume "?v = 0"
      with v have "xs = [dec_digit 0]" by (simp add: nat_dec_small)
      with xs show False by (simp add: dec_literal_def dec_digit_def)
    qed
    moreover have "digits_value 10 (map digit_val (xs @ [c])) = ?v * 10 + digit_val c"
      by (simp add: digits_value_def)
    ultimately show ?thesis
      using v dec_digit_val [OF c] by (simp add: nat_dec_big)
  qed
qed (simp add: dec_literal_def)


text \<open>C36: an integer below \<open>2^63\<close> survives \<^verbatim>\<open>SET\<close> and \<^verbatim>\<open>GET\<close> unchanged.
  After \<^verbatim>\<open>SET k n\<close> with a decimal literal \<open>n\<close> without leading zero and of value
  below \<open>2^63\<close>, \<^verbatim>\<open>GET k\<close> answers \<open>n\<close> itself. The literal is converted by
  \<^verbatim>\<open>g_ascii_strtoull\<close>, printed back with \<^verbatim>\<open>%ld\<close>, and that text is stored.\<close>

theorem set_get_integer_roundtrip:
  assumes inv: "core_invar c" and k: "udb_identifier k" and ds: "dec_literal ds"
    and small: "digits_value 10 (map digit_val ds) < 2 ^ 63"
    and len: "length k \<le> UDB_MAX_KEY_LENGTH conf"
    and line: "length k + length ds < 4294967290"
  shows "\<exists>c1 c2. process_command_line conf (''SET '' @ k @ '' '' @ ds @ NUL # m1) c = Some (''OK'' @ CRLF, c1)
           \<and> process_command_line conf (''GET '' @ k @ NUL # m2) c1 = Some (ds @ CRLF, c2)"
proof -
  have stored: "int_dec (let u = min (digits_value 10 (map digit_val ds)) (2 ^ 64 - 1)
                      in if u < 2 ^ 63 then int u else int u - 2 ^ 64) = ds"
    using small nat_dec_digits_value [OF ds] by (simp add: Let_def int_dec_def)
  obtain c1 where c1: "process_command_line conf (''SET '' @ k @ '' '' @ ds @ NUL # m1) c = Some (''OK'' @ CRLF, c1)"
    "core_invar c1" "store_abs (core_db c1) k = Some ds"
    using process_set_dec_line [OF inv k ds len line, of m1] stored by auto
  obtain c2 where "process_command_line conf (''GET '' @ k @ NUL # m2) c1 = Some (ds @ CRLF, c2)"
    using process_get_line [OF c1(2) k, of conf m2] line c1(3) by auto
  with c1(1) show ?thesis by blast
qed

theorem set_get_integer_roundtrip_witness:
  "\<exists>c1 c2. process_command_line \<lparr>UDB_MAX_KEY_LENGTH = 255, UDB_DB_SECTION = ''udb''\<rparr>
        (''SET '' @ ''n'' @ '' '' @ ''9223372036854775807'' @ NUL # []) core_init = Some (''OK'' @ CRLF, c1)
     \<and> process_command_line \<lparr>UDB_MAX_KEY_LENGTH = 255, UDB_DB_SECTION = ''udb''\<rparr>
        (''GET '' @ ''n'' @ NUL # []) c1 = Some (''9223372036854775807'' @ CRLF, c2)"
proof -
  have k: "udb_identifier ''n''"
    by (simp add: udb_identifier_def ident_first_def G_CSET_a_2_z_def)
  have ds: "dec_literal ''9223372036854775807''"
    by (simp add: dec_literal_def is_digit_def G_CSET_DIGITS_def)
  have small: "digits_value 10 (map digit_val ''9223372036854775807'') < 2 ^ 63"
    by (simp add: digits_value_def digit_val_def)
  show ?thesis
    by (rule set_get_integer_roundtrip [OF core_invar_init k ds small]) simp_all
qed

end
