(* ===== verification/KeyFile.thy ===== *)
theory KeyFile
  imports Prelude "HOL-Library.AList"
begin

text \<open>
  GLib's \<^verbatim>\<open>GKeyFile\<close>, the snapshot format of udb. It is GLib code, outside the
  repository, modelled from the behaviour of \<^verbatim>\<open>gkeyfile.c\<close> for the calls that
  \<^verbatim>\<open>db_save_to_file\<close> and \<^verbatim>\<open>db_load_from_file\<close> make:
  \<^item> writing: \<^verbatim>\<open>g_key_file_new\<close>, \<^verbatim>\<open>g_key_file_set_string\<close> (value escaping by
    \<^verbatim>\<open>g_key_file_parse_string_as_value\<close>, the key-name check
    \<^verbatim>\<open>g_key_file_is_key_name\<close>), \<^verbatim>\<open>g_key_file_to_data\<close> and
    \<^verbatim>\<open>g_file_set_contents\<close>;
  \<^item> reading: \<^verbatim>\<open>g_key_file_load_from_file\<close> (line splitting, the parsing of comments,
    groups and key-value pairs, the \<^verbatim>\<open>Encoding\<close> key check and the dropping of
    translations for locales the process does not use), \<^verbatim>\<open>g_key_file_get_keys\<close> and
    \<^verbatim>\<open>g_key_file_get_string\<close> (UTF-8 validation and unescaping).

  A key file is its list of named groups in creation order, each with its key-value pairs
  in file order (GLib keeps both lists reversed and walks them backwards, which is the same
  order); comment lines carry no data and are dropped. A lookup finds the last pair of a
  key, as GLib's per-group hash table does. Lines are read as C strings (\<open>cstr\<close>),
  as GLib's parser does with \<^verbatim>\<open>strchr\<close> and \<^verbatim>\<open>g_strndup\<close>. The language names
  of the process (\<^verbatim>\<open>g_get_language_names\<close>) are a parameter \<open>langs\<close>. Locale
  suffixes of key names are checked on ASCII letters and digits only.
  The disk file of the snapshot is a \<open>disk_file\<close>; a failed write is given by the
  environment as the \<^verbatim>\<open>GFileError\<close> code it reports.
\<close>

text \<open>The error domains udb meets: files and key files here, option parsing, character
  set conversion and sockets in theory \<open>Startup\<close>.\<close>

datatype gerror_domain = G_FILE_ERROR | G_KEY_FILE_ERROR | G_OPTION_ERROR | G_CONVERT_ERROR | G_IO_ERROR

record gerror =
  err_domain :: gerror_domain
  err_code :: nat

text \<open>The error codes: \<^verbatim>\<open>GKeyFileError\<close> and the one \<^verbatim>\<open>GFileError\<close> the server
  tests.\<close>

abbreviation G_KEY_FILE_ERROR_UNKNOWN_ENCODING :: nat where "G_KEY_FILE_ERROR_UNKNOWN_ENCODING \<equiv> 0"
abbreviation G_KEY_FILE_ERROR_PARSE :: nat where "G_KEY_FILE_ERROR_PARSE \<equiv> 1"
abbreviation G_KEY_FILE_ERROR_GROUP_NOT_FOUND :: nat where "G_KEY_FILE_ERROR_GROUP_NOT_FOUND \<equiv> 4"
abbreviation G_FILE_ERROR_NOENT :: nat where "G_FILE_ERROR_NOENT \<equiv> 4"

definition kf_error :: "nat \<Rightarrow> gerror" where
  "kf_error code = \<lparr>err_domain = G_KEY_FILE_ERROR, err_code = code\<rparr>"

definition file_error :: "nat \<Rightarrow> gerror" where
  "file_error code = \<lparr>err_domain = G_FILE_ERROR, err_code = code\<rparr>"

datatype disk_file = NO_FILE | UNREADABLE nat | NOT_REGULAR | REGULAR bytes

record gkeyfile =
  kf_groups :: "(string \<times> (string \<times> string) list) list"
  kf_current :: "string option"

subsection \<open>Characters and names\<close>

definition g_ascii_isspace :: "char \<Rightarrow> bool" where
  "g_ascii_isspace c \<longleftrightarrow> c \<in> set [CHR 0x20, TAB, LF, CHR 0x0B, CHR 0x0C, CR]"

definition g_ascii_iscntrl :: "char \<Rightarrow> bool" where
  "g_ascii_iscntrl c \<longleftrightarrow> of_char c < (32::nat) \<or> of_char c = (127::nat)"

definition g_ascii_isalnum :: "char \<Rightarrow> bool" where
  "g_ascii_isalnum c \<longleftrightarrow>
     (let n = (of_char c :: nat) in (48 \<le> n \<and> n \<le> 57) \<or> (65 \<le> n \<and> n \<le> 90) \<or> (97 \<le> n \<and> n \<le> 122))"

definition locale_char :: "char \<Rightarrow> bool" where
  "locale_char c \<longleftrightarrow> g_ascii_isalnum c \<or> c \<in> set ''-_.@''"

text \<open>\<^verbatim>\<open>g_key_file_is_key_name\<close>: a non-empty name up to the first \<^verbatim>\<open>=\<close>,
  \<^verbatim>\<open>[\<close> or \<^verbatim>\<open>]\<close>, not starting or ending with a space, then nothing or a
  locale suffix \<^verbatim>\<open>[xx]\<close> closing the name.\<close>

definition g_key_file_is_key_name :: "string \<Rightarrow> bool" where
  "g_key_file_is_key_name name \<longleftrightarrow>
     (let base = takeWhile (\<lambda>c. c \<notin> set ''=[]'') name; rest = drop (length base) name in
      base \<noteq> [] \<and> hd base \<noteq> CHR '' '' \<and> last base \<noteq> CHR '' '' \<and>
      (rest = [] \<or> (hd rest = CHR ''['' \<and> dropWhile locale_char (tl rest) = '']'')))"

definition g_key_file_is_group_name :: "string \<Rightarrow> bool" where
  "g_key_file_is_group_name name \<longleftrightarrow>
     name \<noteq> [] \<and> list_all (\<lambda>c. c \<noteq> CHR ''['' \<and> c \<noteq> CHR '']'' \<and> \<not> g_ascii_iscntrl c) name"

subsection \<open>Value escaping\<close>

text \<open>\<^verbatim>\<open>g_key_file_parse_string_as_value\<close> (with \<^verbatim>\<open>escape_separator = FALSE\<close>):
  newline, carriage return and backslash are always escaped, spaces and tabs only while
  they lead the value.\<close>

fun g_key_file_escape :: "bool \<Rightarrow> string \<Rightarrow> string" where
  "g_key_file_escape lead [] = []"
| "g_key_file_escape lead (c # s) =
     (if c = CHR 0x20 then (if lead then [BSL, CHR ''s''] else [c]) @ g_key_file_escape lead s
      else if c = TAB then (if lead then [BSL, CHR ''t''] else [c]) @ g_key_file_escape lead s
      else if c = LF then [BSL, CHR ''n''] @ g_key_file_escape lead s
      else if c = CR then [BSL, CHR ''r''] @ g_key_file_escape lead s
      else if c = BSL then [BSL, BSL] @ g_key_file_escape False s
      else c # g_key_file_escape False s)"

definition g_key_file_parse_string_as_value :: "string \<Rightarrow> string" where
  "g_key_file_parse_string_as_value s = g_key_file_escape True (cstr s)"

text \<open>\<^verbatim>\<open>g_key_file_parse_value_as_string\<close>: the escapes \<^verbatim>\<open>\s \n \t \r \\\<close>; any
  other escape, or a backslash at the end, is \<^verbatim>\<open>G_KEY_FILE_ERROR_INVALID_VALUE\<close>, on
  which \<^verbatim>\<open>g_key_file_get_string\<close> returns \<^verbatim>\<open>NULL\<close> (\<open>None\<close>).\<close>

fun g_key_file_unescape :: "string \<Rightarrow> string option" where
  "g_key_file_unescape [] = Some []"
| "g_key_file_unescape (c # s) =
     (if c = BSL then
        (case s of
           [] \<Rightarrow> None
         | d # s' \<Rightarrow>
             (if d = CHR ''s'' then map_option (Cons (CHR 0x20)) (g_key_file_unescape s')
              else if d = CHR ''n'' then map_option (Cons LF) (g_key_file_unescape s')
              else if d = CHR ''t'' then map_option (Cons TAB) (g_key_file_unescape s')
              else if d = CHR ''r'' then map_option (Cons CR) (g_key_file_unescape s')
              else if d = BSL then map_option (Cons BSL) (g_key_file_unescape s')
              else None))
      else map_option (Cons c) (g_key_file_unescape s))"

subsection \<open>UTF-8 validation\<close>

text \<open>\<^verbatim>\<open>g_utf8_validate\<close> as a byte automaton: a state is the number of continuation
  bytes still expected and the range allowed for the next one (excluding overlong forms,
  surrogates and code points above U+10FFFF).\<close>

datatype utf8_state = U_START | U_CONT nat nat nat

definition utf8_next :: "utf8_state \<Rightarrow> char \<Rightarrow> utf8_state option" where
  "utf8_next st c =
     (let n = (of_char c :: nat) in
      case st of
        U_START \<Rightarrow>
          (if n < 0x80 then Some U_START
           else if 0xC2 \<le> n \<and> n \<le> 0xDF then Some (U_CONT 1 0x80 0xBF)
           else if n = 0xE0 then Some (U_CONT 2 0xA0 0xBF)
           else if n = 0xED then Some (U_CONT 2 0x80 0x9F)
           else if 0xE1 \<le> n \<and> n \<le> 0xEF then Some (U_CONT 2 0x80 0xBF)
           else if n = 0xF0 then Some (U_CONT 3 0x90 0xBF)
           else if 0xF1 \<le> n \<and> n \<le> 0xF3 then Some (U_CONT 3 0x80 0xBF)
           else if n = 0xF4 then Some (U_CONT 3 0x80 0x8F)
           else None)
      | U_CONT k lo hi \<Rightarrow>
          (if lo \<le> n \<and> n \<le> hi then Some (if k \<le> 1 then U_START else U_CONT (k - 1) 0x80 0xBF)
           else None))"

fun utf8_run :: "utf8_state \<Rightarrow> bytes \<Rightarrow> bool" where
  "utf8_run st [] = (st = U_START)"
| "utf8_run st (c # s) = (case utf8_next st c of None \<Rightarrow> False | Some st' \<Rightarrow> utf8_run st' s)"

definition g_utf8_validate :: "bytes \<Rightarrow> bool" where
  "g_utf8_validate s = utf8_run U_START s"

subsection \<open>Writing\<close>

definition g_key_file_new :: gkeyfile where
  "g_key_file_new = \<lparr>kf_groups = [], kf_current = None\<rparr>"

text \<open>\<^verbatim>\<open>g_key_file_set_value\<close>: its \<^verbatim>\<open>g_return_if_fail\<close> guards on the group and
  key names make it a no-op on an invalid name; otherwise the pair is replaced or added,
  the group created if needed.\<close>

definition g_key_file_set_value :: "gkeyfile \<Rightarrow> string \<Rightarrow> string \<Rightarrow> string \<Rightarrow> gkeyfile" where
  "g_key_file_set_value kf g k v =
     (if \<not> g_key_file_is_group_name g \<or> \<not> g_key_file_is_key_name k then kf
      else case map_of (kf_groups kf) g of
        None \<Rightarrow> kf\<lparr>kf_groups := kf_groups kf @ [(g, [(k, v)])], kf_current := Some g\<rparr>
      | Some ps \<Rightarrow> kf\<lparr>kf_groups := AList.update g (AList.update k v ps) (kf_groups kf)\<rparr>)"

definition g_key_file_set_string :: "gkeyfile \<Rightarrow> string \<Rightarrow> string \<Rightarrow> string \<Rightarrow> gkeyfile" where
  "g_key_file_set_string kf g k s = g_key_file_set_value kf g (cstr k) (g_key_file_parse_string_as_value s)"

fun kf_pairs_data :: "(string \<times> string) list \<Rightarrow> string" where
  "kf_pairs_data [] = []"
| "kf_pairs_data ((k, v) # ps) = k @ ''='' @ v @ [LF] @ kf_pairs_data ps"

text \<open>\<^verbatim>\<open>g_key_file_to_data\<close>: groups separated by an empty line, each as its header
  and its \<^verbatim>\<open>key=value\<close> lines.\<close>

definition kf_group_data :: "string \<Rightarrow> string \<times> (string \<times> string) list \<Rightarrow> string" where
  "kf_group_data acc gp =
     (if 2 \<le> length acc \<and> acc ! (length acc - 2) \<noteq> LF then acc @ [LF] else acc)
     @ ''['' @ fst gp @ '']'' @ [LF] @ kf_pairs_data (snd gp)"

definition g_key_file_to_data :: "gkeyfile \<Rightarrow> string" where
  "g_key_file_to_data kf = foldl kf_group_data [] (kf_groups kf)"

text \<open>\<^verbatim>\<open>g_file_set_contents\<close>: the whole file is replaced, or on failure (the
  \<^verbatim>\<open>GFileError\<close> code \<open>wfail\<close> the system reports) left as it was.\<close>

definition g_file_set_contents :: "bytes \<Rightarrow> nat option \<Rightarrow> disk_file \<Rightarrow> gerror option \<times> disk_file" where
  "g_file_set_contents data wfail disk =
     (case wfail of None \<Rightarrow> (None, REGULAR data) | Some code \<Rightarrow> (Some (file_error code), disk))"

subsection \<open>Reading\<close>

text \<open>The line classes of \<^verbatim>\<open>g_key_file_parse_line\<close>, on the line with its leading
  whitespace skipped.\<close>

definition line_is_comment :: "string \<Rightarrow> bool" where
  "line_is_comment l \<longleftrightarrow> l = [] \<or> hd l = CHR ''#'' \<or> hd l = LF"

definition line_is_group :: "string \<Rightarrow> bool" where
  "line_is_group l \<longleftrightarrow>
     l \<noteq> [] \<and> hd l = CHR ''['' \<and>
     (let r = dropWhile (\<lambda>c. c \<noteq> CHR '']'') (tl l) in
      r \<noteq> [] \<and> list_all (\<lambda>c. c = CHR '' '' \<or> c = TAB) (tl r))"

definition line_is_key_value_pair :: "string \<Rightarrow> bool" where
  "line_is_key_value_pair l \<longleftrightarrow> CHR ''='' \<in> set l \<and> hd l \<noteq> CHR ''=''"

text \<open>\<^verbatim>\<open>key_get_locale\<close>: the text between the last \<^verbatim>\<open>[\<close> and the final byte,
  when there is any; \<^verbatim>\<open>g_key_file_locale_is_interesting\<close>: it names one of the
  process's languages, ignoring ASCII case.\<close>

definition key_get_locale :: "string \<Rightarrow> string option" where
  "key_get_locale key =
     (if CHR ''['' \<in> set key then
        (let sfx = rev (takeWhile (\<lambda>c. c \<noteq> CHR ''['') (rev key)) in
         if 1 < length sfx then Some (butlast sfx) else None)
      else None)"

definition locale_is_interesting :: "string list \<Rightarrow> string \<Rightarrow> bool" where
  "locale_is_interesting langs loc \<longleftrightarrow> list_ex (\<lambda>l. g_ascii_strcasecmp_eq l loc) langs"

definition kf_add_pair :: "gkeyfile \<Rightarrow> string \<Rightarrow> string \<Rightarrow> string \<Rightarrow> gkeyfile" where
  "kf_add_pair kf g k v =
     kf\<lparr>kf_groups := AList.update g (the (map_of (kf_groups kf) g) @ [(k, v)]) (kf_groups kf)\<rparr>"

text \<open>\<^verbatim>\<open>g_key_file_parse_group\<close>: the name up to the closing bracket must be a valid
  group name (else \<^verbatim>\<open>G_KEY_FILE_ERROR_PARSE\<close>); an existing group becomes current
  again, a new one is appended.\<close>

definition g_key_file_parse_group :: "gkeyfile \<Rightarrow> string \<Rightarrow> gerror + gkeyfile" where
  "g_key_file_parse_group kf l =
     (let name = takeWhile (\<lambda>c. c \<noteq> CHR '']'') (tl l) in
      if \<not> g_key_file_is_group_name name then Inl (kf_error G_KEY_FILE_ERROR_PARSE)
      else if name \<in> fst ` set (kf_groups kf) then Inr (kf\<lparr>kf_current := Some name\<rparr>)
      else Inr (kf\<lparr>kf_groups := kf_groups kf @ [(name, [])], kf_current := Some name\<rparr>))"

text \<open>\<^verbatim>\<open>g_key_file_parse_key_value_pair\<close>: a pair before any group is
  \<^verbatim>\<open>G_KEY_FILE_ERROR_GROUP_NOT_FOUND\<close>; the key is the text before the first
  \<^verbatim>\<open>=\<close> with trailing whitespace removed and must be a valid key name (else
  \<^verbatim>\<open>G_KEY_FILE_ERROR_PARSE\<close>); the value is the rest with leading whitespace removed.
  A key \<^verbatim>\<open>Encoding\<close> in the first group must have the value \<^verbatim>\<open>UTF-8\<close> (else
  \<^verbatim>\<open>G_KEY_FILE_ERROR_UNKNOWN_ENCODING\<close>); a key with a locale suffix the process
  does not use is dropped.\<close>

definition g_key_file_parse_key_value_pair :: "string list \<Rightarrow> gkeyfile \<Rightarrow> string \<Rightarrow> gerror + gkeyfile" where
  "g_key_file_parse_key_value_pair langs kf l =
     (case kf_current kf of
        None \<Rightarrow> Inl (kf_error G_KEY_FILE_ERROR_GROUP_NOT_FOUND)
      | Some g \<Rightarrow>
          (let key = rev (dropWhile g_ascii_isspace (rev (takeWhile (\<lambda>c. c \<noteq> CHR ''='') l)));
               value = dropWhile g_ascii_isspace (tl (dropWhile (\<lambda>c. c \<noteq> CHR ''='') l))
           in if \<not> g_key_file_is_key_name key then Inl (kf_error G_KEY_FILE_ERROR_PARSE)
              else if g = fst (hd (kf_groups kf)) \<and> key = ''Encoding'' \<and> \<not> g_ascii_strcasecmp_eq value ''UTF-8''
              then Inl (kf_error G_KEY_FILE_ERROR_UNKNOWN_ENCODING)
              else (case key_get_locale key of
                      None \<Rightarrow> Inr (kf_add_pair kf g key value)
                    | Some loc \<Rightarrow>
                        if locale_is_interesting langs loc then Inr (kf_add_pair kf g key value)
                        else Inr kf)))"

definition g_key_file_parse_line :: "string list \<Rightarrow> gkeyfile \<Rightarrow> bytes \<Rightarrow> gerror + gkeyfile" where
  "g_key_file_parse_line langs kf buf =
     (let l = dropWhile g_ascii_isspace (cstr buf) in
      if line_is_comment l then Inr kf
      else if line_is_group l then g_key_file_parse_group kf l
      else if line_is_key_value_pair l then g_key_file_parse_key_value_pair langs kf l
      else Inl (kf_error G_KEY_FILE_ERROR_PARSE))"

text \<open>\<^verbatim>\<open>g_key_file_parse_data\<close> and the final \<^verbatim>\<open>g_key_file_flush_parse_buffer\<close>
  of \<^verbatim>\<open>g_key_file_load_from_data\<close>: bytes gather in a buffer up to a newline; the
  buffer loses one trailing carriage return and, when not empty, is parsed as a line; the
  bytes after the last newline are parsed at the end as they are.\<close>

definition strip_cr :: "bytes \<Rightarrow> bytes" where
  "strip_cr buf = (if buf \<noteq> [] \<and> last buf = CR then butlast buf else buf)"

fun kf_parse_data :: "string list \<Rightarrow> gkeyfile \<Rightarrow> bytes \<Rightarrow> bytes \<Rightarrow> gerror + gkeyfile" where
  "kf_parse_data langs kf buf [] = (if buf = [] then Inr kf else g_key_file_parse_line langs kf buf)"
| "kf_parse_data langs kf buf (c # d) =
     (if c = LF then
        (let l = strip_cr buf in
         if l = [] then kf_parse_data langs kf [] d
         else case g_key_file_parse_line langs kf l of
                Inl e \<Rightarrow> Inl e
              | Inr kf' \<Rightarrow> kf_parse_data langs kf' [] d)
      else kf_parse_data langs kf (buf @ [c]) d)"

definition g_key_file_load_from_data :: "string list \<Rightarrow> bytes \<Rightarrow> gerror + gkeyfile" where
  "g_key_file_load_from_data langs data = kf_parse_data langs g_key_file_new [] data"

text \<open>\<^verbatim>\<open>g_key_file_load_from_file\<close>: a missing file is
  \<^verbatim>\<open>G_FILE_ERROR_NOENT\<close>, an unreadable one the \<^verbatim>\<open>GFileError\<close> of its errno, and
  anything but a regular file \<^verbatim>\<open>G_KEY_FILE_ERROR_PARSE\<close>.\<close>

definition g_key_file_load_from_file :: "string list \<Rightarrow> disk_file \<Rightarrow> gerror + gkeyfile" where
  "g_key_file_load_from_file langs disk =
     (case disk of
        NO_FILE \<Rightarrow> Inl (file_error G_FILE_ERROR_NOENT)
      | UNREADABLE code \<Rightarrow> Inl (file_error code)
      | NOT_REGULAR \<Rightarrow> Inl (kf_error G_KEY_FILE_ERROR_PARSE)
      | REGULAR data \<Rightarrow> g_key_file_load_from_data langs data)"

text \<open>\<^verbatim>\<open>g_key_file_get_keys\<close> (\<open>None\<close>: \<^verbatim>\<open>G_KEY_FILE_ERROR_GROUP_NOT_FOUND\<close>),
  \<^verbatim>\<open>g_key_file_get_value\<close> (the last pair of the key) and
  \<^verbatim>\<open>g_key_file_get_string\<close> (\<open>None\<close> on a missing key, a value that is not
  UTF-8 or an invalid escape).\<close>

definition g_key_file_get_keys :: "gkeyfile \<Rightarrow> string \<Rightarrow> string list option" where
  "g_key_file_get_keys kf g = map_option (map fst) (map_of (kf_groups kf) g)"

definition g_key_file_get_value :: "gkeyfile \<Rightarrow> string \<Rightarrow> string \<Rightarrow> string option" where
  "g_key_file_get_value kf g k = (case map_of (kf_groups kf) g of None \<Rightarrow> None | Some ps \<Rightarrow> map_of (rev ps) k)"

definition g_key_file_get_string :: "gkeyfile \<Rightarrow> string \<Rightarrow> string \<Rightarrow> string option" where
  "g_key_file_get_string kf g k =
     (case g_key_file_get_value kf g k of
        None \<Rightarrow> None
      | Some v \<Rightarrow> if g_utf8_validate v then g_key_file_unescape v else None)"

subsection \<open>What the format carries\<close>

text \<open>The automaton's states after a lead byte expect bytes from \<open>0x80\<close> up.\<close>

definition utf8_cont_ok :: "utf8_state \<Rightarrow> bool" where
  "utf8_cont_ok st \<longleftrightarrow> (case st of U_START \<Rightarrow> True | U_CONT k lo hi \<Rightarrow> 0x80 \<le> lo)"

text \<open>The keys and values that survive a save and a load, and the shape of a
  \<^verbatim>\<open>key=value\<close> line the parser reads back as written. A key must be a plain key
  name (no locale suffix, which a process may drop as a translation it does not use), on one
  line, not starting with whitespace or \<^verbatim>\<open>#\<close> (the parser skips leading whitespace and
  reads such a line as a comment), not ending in whitespace (trimmed before the
  \<^verbatim>\<open>=\<close>), and not \<^verbatim>\<open>Encoding\<close> (checked against \<^verbatim>\<open>UTF-8\<close> in the first
  group). A value must be UTF-8 and must not start with a vertical tab or form feed (the
  writer does not escape them, the parser strips them as leading whitespace).\<close>

definition snapshot_key :: "string \<Rightarrow> bool" where
  "snapshot_key k \<longleftrightarrow> g_key_file_is_key_name k \<and> LF \<notin> set k \<and> CHR ''['' \<notin> set k
     \<and> \<not> g_ascii_isspace (hd k) \<and> hd k \<noteq> CHR ''#'' \<and> \<not> g_ascii_isspace (last k) \<and> k \<noteq> ''Encoding''"
definition pair_line_ok :: "string \<times> string \<Rightarrow> bool" where
  "pair_line_ok p \<longleftrightarrow> snapshot_key (fst p) \<and> nul_free (fst p) \<and> nul_free (snd p)
     \<and> LF \<notin> set (snd p) \<and> CR \<notin> set (snd p) \<and> (snd p = [] \<or> \<not> g_ascii_isspace (hd (snd p)))"
definition snapshot_value :: "string \<Rightarrow> bool" where
  "snapshot_value v \<longleftrightarrow> g_utf8_validate v \<and> (v = [] \<or> (hd v \<noteq> CHR 0x0B \<and> hd v \<noteq> CHR 0x0C))"

abbreviation escaped_table :: "(string \<times> string) list \<Rightarrow> (string \<times> string) list" where
  "escaped_table t \<equiv> map (\<lambda>(k, v). (k, g_key_file_escape True v)) t"

subsection \<open>Round trip of the text format\<close>

subsection \<open>Escaping round trip\<close>

lemma unescape_escape:
  "nul_free s \<Longrightarrow> g_key_file_unescape (g_key_file_escape b s) = Some s"
  by (induction s arbitrary: b) auto

lemma escape_no_newline:
  "LF \<notin> set (g_key_file_escape b s)" "CR \<notin> set (g_key_file_escape b s)"
  by (induction s arbitrary: b) auto

lemma escape_nul_free: "nul_free s \<Longrightarrow> nul_free (g_key_file_escape b s)"
  by (induction s arbitrary: b) auto

lemma escape_Nil_iff [simp]: "g_key_file_escape b s = [] \<longleftrightarrow> s = []"
  by (cases s) auto

lemma escape_hd_space:
  "s \<noteq> [] \<Longrightarrow> hd s \<noteq> CHR 0x0B \<Longrightarrow> hd s \<noteq> CHR 0x0C \<Longrightarrow>
   \<not> g_ascii_isspace (hd (g_key_file_escape True s))"
  by (cases s) (auto simp: g_ascii_isspace_def)

lemma kf_pairs_data_append: "kf_pairs_data (xs @ ys) = kf_pairs_data xs @ kf_pairs_data ys"
  by (induction xs rule: kf_pairs_data.induct) simp_all

lemma tolower_bsl: "ascii_tolower BSL = BSL"
  by (simp add: ascii_tolower_def)

lemma escape_no_bsl: "BSL \<notin> set (g_key_file_escape b v) \<Longrightarrow> g_key_file_escape b v = v"
  by (induction v arbitrary: b) (auto split: if_splits)

lemma strcasecmp_escape:
  assumes "g_ascii_strcasecmp_eq (g_key_file_escape b v) ''UTF-8''"
  shows "g_ascii_strcasecmp_eq v ''UTF-8''"
proof -
  have "BSL \<notin> set (g_key_file_escape b v)"
  proof
    assume "BSL \<in> set (g_key_file_escape b v)"
    then have "BSL \<in> set (map ascii_tolower (g_key_file_escape b v))"
      using tolower_bsl by (metis image_eqI list.set_map)
    with assms show False by (simp add: g_ascii_strcasecmp_eq_def ascii_tolower_def eq_char_of char_of_eq)
  qed
  then have "g_key_file_escape b v = v" by (rule escape_no_bsl)
  with assms show ?thesis by simp
qed

lemma utf8_next_ok:
  "utf8_cont_ok st \<Longrightarrow> utf8_next st c = Some st' \<Longrightarrow> utf8_cont_ok st'"
  by (auto simp: utf8_next_def utf8_cont_ok_def Let_def split: utf8_state.splits if_splits)

lemma utf8_next_ascii:
  "utf8_cont_ok st \<Longrightarrow> of_char c < (128::nat) \<Longrightarrow>
   utf8_next st c = (if st = U_START then Some U_START else None)"
  by (auto simp: utf8_next_def utf8_cont_ok_def Let_def split: utf8_state.splits)

lemma utf8_run_ascii:
  "utf8_cont_ok st \<Longrightarrow> of_char c < (128::nat) \<Longrightarrow> utf8_run st (c # s) \<longleftrightarrow> st = U_START \<and> utf8_run U_START s"
  by (simp add: utf8_next_ascii)

lemma escape_Cons_cases:
  "\<exists>b'. g_key_file_escape b (c # s) = c # g_key_file_escape b' s
       \<or> (of_char c < (128::nat) \<and> (\<exists>d. of_char d < (128::nat) \<and> g_key_file_escape b (c # s) = BSL # d # g_key_file_escape b' s))"
proof (cases "c \<in> set [CHR 0x20, TAB, LF, CR, BSL]")
  case True
  then show ?thesis by (cases b) auto
next
  case False
  then show ?thesis by auto
qed

lemma utf8_run_escape:
  "utf8_cont_ok st \<Longrightarrow> utf8_run st (g_key_file_escape b s) = utf8_run st s"
proof (induction s arbitrary: st b)
  case Nil
  then show ?case by simp
next
  case (Cons c s)
  obtain b' where esc: "g_key_file_escape b (c # s) = c # g_key_file_escape b' s
       \<or> (of_char c < (128::nat) \<and> (\<exists>d. of_char d < (128::nat) \<and> g_key_file_escape b (c # s) = BSL # d # g_key_file_escape b' s))"
    using escape_Cons_cases by blast
  then show ?case
  proof
    assume e: "g_key_file_escape b (c # s) = c # g_key_file_escape b' s"
    have "utf8_run st' (g_key_file_escape b' s) = utf8_run st' s"
      if "utf8_next st c = Some st'" for st'
      using Cons.IH utf8_next_ok [OF Cons.prems that] by blast
    then show ?thesis
      unfolding e by (simp split: option.split)
  next
    assume "of_char c < (128::nat) \<and> (\<exists>d. of_char d < (128::nat) \<and> g_key_file_escape b (c # s) = BSL # d # g_key_file_escape b' s)"
    then obtain d where c: "of_char c < (128::nat)" and d: "of_char d < (128::nat)"
      and e: "g_key_file_escape b (c # s) = BSL # d # g_key_file_escape b' s" by blast
    have start: "utf8_cont_ok U_START" by (simp add: utf8_cont_ok_def)
    have bsl: "of_char BSL < (128::nat)" by simp
    show ?thesis
      unfolding e utf8_run_ascii [OF Cons.prems bsl] utf8_run_ascii [OF Cons.prems c]
        utf8_run_ascii [OF start d] Cons.IH [OF start] by simp
  qed
qed

lemma utf8_validate_escape: "g_utf8_validate (g_key_file_escape b s) = g_utf8_validate s"
  by (simp add: g_utf8_validate_def utf8_run_escape utf8_cont_ok_def)


subsection \<open>Writing a table\<close>

lemma key_name_plain:
  assumes kn: "g_key_file_is_key_name k" and nb: "CHR ''['' \<notin> set k"
  shows "k \<noteq> [] \<and> CHR ''='' \<notin> set k \<and> CHR '']'' \<notin> set k"
proof -
  let ?P = "\<lambda>c. c \<notin> set ''=[]''"
  have "drop (length (takeWhile ?P k)) k = []"
  proof (rule ccontr)
    assume ne: "drop (length (takeWhile ?P k)) k \<noteq> []"
    then have "hd (drop (length (takeWhile ?P k)) k) = CHR ''[''"
      using kn by (auto simp: g_key_file_is_key_name_def Let_def)
    moreover have "hd (drop (length (takeWhile ?P k)) k) \<in> set k"
      using ne by (metis hd_in_set in_set_dropD)
    ultimately show False using nb by simp
  qed
  then have "\<forall>c \<in> set k. ?P c"
    by (simp add: dropWhile_eq_drop [symmetric] dropWhile_eq_Nil_conv)
  moreover have "k \<noteq> []" using kn by (auto simp: g_key_file_is_key_name_def Let_def)
  ultimately show ?thesis by auto
qed

lemma alist_update_new: "k \<notin> fst ` set ps \<Longrightarrow> AList.update k v ps = ps @ [(k, v)]"
  by (induction ps) auto

lemma set_string_append:
  assumes "g_key_file_is_group_name g" and "g_key_file_is_key_name k" and "nul_free k" and "nul_free v"
    and "k \<notin> fst ` set ps"
  shows "g_key_file_set_string \<lparr>kf_groups = [(g, ps)], kf_current = Some g\<rparr> g k v =
           \<lparr>kf_groups = [(g, ps @ [(k, g_key_file_escape True v)])], kf_current = Some g\<rparr>"
  using assms by (simp add: g_key_file_set_string_def g_key_file_set_value_def
      g_key_file_parse_string_as_value_def alist_update_new)

lemma set_string_fold:
  assumes g: "g_key_file_is_group_name g"
    and keys: "\<forall>(k, v) \<in> set t. g_key_file_is_key_name k \<and> nul_free k \<and> nul_free v"
    and dist: "distinct (map fst (ps @ t))"
  shows "foldl (\<lambda>kf (k, v). g_key_file_set_string kf g k v) \<lparr>kf_groups = [(g, ps)], kf_current = Some g\<rparr> t
           = \<lparr>kf_groups = [(g, ps @ map (\<lambda>(k, v). (k, g_key_file_escape True v)) t)], kf_current = Some g\<rparr>"
  using keys dist
proof (induction t arbitrary: ps)
  case Nil
  then show ?case by simp
next
  case (Cons p t)
  obtain k v where p: "p = (k, v)" by fastforce
  have "g_key_file_set_string \<lparr>kf_groups = [(g, ps)], kf_current = Some g\<rparr> g k v =
      \<lparr>kf_groups = [(g, ps @ [(k, g_key_file_escape True v)])], kf_current = Some g\<rparr>"
    using Cons.prems p g by (intro set_string_append) auto
  moreover have "distinct (map fst ((ps @ [(k, g_key_file_escape True v)]) @ t))"
    using Cons.prems p by auto
  ultimately show ?case
    using Cons.IH [of "ps @ [(k, g_key_file_escape True v)]"] Cons.prems p by simp
qed

lemma save_keyfile:
  assumes g: "g_key_file_is_group_name g"
    and keys: "\<forall>(k, v) \<in> set t. g_key_file_is_key_name k \<and> nul_free k \<and> nul_free v"
    and dist: "distinct (map fst t)" and ne: "t \<noteq> []"
  shows "foldl (\<lambda>kf (k, v). g_key_file_set_string kf g k v) g_key_file_new t
           = \<lparr>kf_groups = [(g, map (\<lambda>(k, v). (k, g_key_file_escape True v)) t)], kf_current = Some g\<rparr>"
proof -
  obtain k v t' where t: "t = (k, v) # t'" using ne by (metis list.exhaust prod.exhaust)
  have "g_key_file_set_string g_key_file_new g k v =
      \<lparr>kf_groups = [(g, [(k, g_key_file_escape True v)])], kf_current = Some g\<rparr>"
    using keys g t by (simp add: g_key_file_set_string_def g_key_file_set_value_def
        g_key_file_parse_string_as_value_def g_key_file_new_def)
  then show ?thesis
    using set_string_fold [OF g, of t' "[(k, g_key_file_escape True v)]"] keys dist t by simp
qed

lemma to_data_single:
  "g_key_file_to_data \<lparr>kf_groups = [(g, ps)], kf_current = x\<rparr> = ''['' @ g @ '']'' @ [LF] @ kf_pairs_data ps"
  by (simp add: g_key_file_to_data_def kf_group_data_def)


subsection \<open>Reading the text back\<close>

lemma kf_parse_data_append:
  "LF \<notin> set l \<Longrightarrow> kf_parse_data langs kf buf (l @ d) = kf_parse_data langs kf (buf @ l) d"
proof (induction l arbitrary: buf)
  case Nil
  then show ?case by simp
next
  case (Cons c l)
  then have "c \<noteq> LF" "LF \<notin> set l" by auto
  then show ?case using Cons.IH [of "buf @ [c]"] by simp
qed

lemma cntrl_nul: "g_ascii_iscntrl NUL"
  by (simp add: g_ascii_iscntrl_def)

lemma group_name_nul_free: "g_key_file_is_group_name g \<Longrightarrow> nul_free g"
  using cntrl_nul unfolding g_key_file_is_group_name_def list_all_iff nul_free_def by blast

lemma group_name_no_close: "g_key_file_is_group_name g \<Longrightarrow> CHR '']'' \<notin> set g"
  unfolding g_key_file_is_group_name_def list_all_iff by blast

lemma parse_group_line:
  assumes g: "g_key_file_is_group_name g"
  shows "g_key_file_parse_line langs g_key_file_new (''['' @ g @ '']'') =
           Inr \<lparr>kf_groups = [(g, [])], kf_current = Some g\<rparr>"
proof -
  have nf: "nul_free g" and nc: "CHR '']'' \<notin> set g"
    using group_name_nul_free [OF g] group_name_no_close [OF g] by simp_all
  have tw: "takeWhile (\<lambda>c. c \<noteq> CHR '']'') (g @ '']'') = g"
    using nc by (subst takeWhile_append2) auto
  have dw: "dropWhile (\<lambda>c. c \<noteq> CHR '']'') (g @ '']'') = '']''"
    using nc by (subst dropWhile_append2) auto
  have cs: "cstr (g @ '']'') = g @ '']''"
    using nf by simp
  show ?thesis
    using g tw dw
    by (simp add: g_key_file_parse_line_def cs g_ascii_isspace_def line_is_comment_def
        line_is_group_def g_key_file_parse_group_def g_key_file_new_def)
qed

lemma rev_dropWhile_last:
  "k \<noteq> [] \<Longrightarrow> \<not> P (last k) \<Longrightarrow> rev (dropWhile P (rev k)) = k"
  by (metis dropWhile.simps(2) last_rev list.collapse rev_is_Nil_conv rev_rev_ident hd_rev)

lemma parse_pair_line:
  assumes k: "snapshot_key k" and nk: "nul_free k" and nv: "nul_free ev"
    and sp: "ev = [] \<or> \<not> g_ascii_isspace (hd ev)"
  shows "g_key_file_parse_line langs \<lparr>kf_groups = [(g, ps)], kf_current = Some g\<rparr> (k @ CHR ''='' # ev) =
           Inr \<lparr>kf_groups = [(g, ps @ [(k, ev)])], kf_current = Some g\<rparr>"
proof -
  have plain: "k \<noteq> []" "CHR ''='' \<notin> set k" "CHR '']'' \<notin> set k" "CHR ''['' \<notin> set k"
    using key_name_plain [of k] k by (auto simp: snapshot_key_def)
  have hd1: "\<not> g_ascii_isspace (hd k)" "hd k \<noteq> CHR ''#''" "\<not> g_ascii_isspace (last k)"
    "k \<noteq> ''Encoding''" "g_key_file_is_key_name k"
    using k by (simp_all add: snapshot_key_def)
  have line: "dropWhile g_ascii_isspace (cstr (k @ CHR ''='' # ev)) = k @ ''='' @ ev"
    using nk nv plain(1) hd1(1) by (cases k) simp_all
  have tw: "takeWhile (\<lambda>c. c \<noteq> CHR ''='') (k @ CHR ''='' # ev) = k"
    using plain(2) by (subst takeWhile_append2) auto
  have dw: "dropWhile (\<lambda>c. c \<noteq> CHR ''='') (k @ CHR ''='' # ev) = CHR ''='' # ev"
    using plain(2) by (subst dropWhile_append2) auto
  have key: "rev (dropWhile g_ascii_isspace (rev k)) = k"
    using rev_dropWhile_last [of k g_ascii_isspace] plain(1) hd1(3) by simp
  have val: "dropWhile g_ascii_isspace ev = ev"
    using sp by (cases ev) auto
  have loc: "key_get_locale k = None"
    using plain(4) by (simp add: key_get_locale_def)
  have ncom: "\<not> line_is_comment (k @ CHR ''='' # ev)"
    using plain(1) hd1(1,2) by (cases k) (auto simp: line_is_comment_def g_ascii_isspace_def)
  have ngrp: "\<not> line_is_group (k @ CHR ''='' # ev)"
    using plain(1,4) by (cases k) (auto simp: line_is_group_def)
  have kv: "line_is_key_value_pair (k @ CHR ''='' # ev)"
    using plain(1,2) by (cases k) (auto simp: line_is_key_value_pair_def)
  show ?thesis
    using hd1(4,5)
    by (simp add: g_key_file_parse_line_def line ncom ngrp kv g_key_file_parse_key_value_pair_def
        tw dw key val loc kf_add_pair_def)
qed


lemma strip_cr_pair_line:
  "CR \<notin> set ev \<Longrightarrow> strip_cr (k @ CHR ''='' # ev) = k @ CHR ''='' # ev"
  by (cases ev rule: rev_cases) (auto simp: strip_cr_def)


lemma parse_encoding_line:
  assumes nv: "nul_free ev" and enc: "\<not> g_ascii_strcasecmp_eq (dropWhile g_ascii_isspace ev) ''UTF-8''"
  shows "g_key_file_parse_line langs \<lparr>kf_groups = [(g, ps)], kf_current = Some g\<rparr> (''Encoding='' @ ev) =
           Inl (kf_error G_KEY_FILE_ERROR_UNKNOWN_ENCODING)"
  using nv enc
  by (simp add: g_key_file_parse_line_def g_ascii_isspace_def line_is_comment_def line_is_group_def
      line_is_key_value_pair_def g_key_file_parse_key_value_pair_def g_key_file_is_key_name_def)

lemma parse_pairs_app:
  assumes "list_all pair_line_ok qs"
  shows "kf_parse_data langs \<lparr>kf_groups = [(g, ps)], kf_current = Some g\<rparr> [] (kf_pairs_data qs @ d) =
           kf_parse_data langs \<lparr>kf_groups = [(g, ps @ qs)], kf_current = Some g\<rparr> [] d"
  using assms
proof (induction qs arbitrary: ps)
  case Nil
  then show ?case by simp
next
  case (Cons q qs)
  obtain k ev where q: "q = (k, ev)" by fastforce
  have ok: "snapshot_key k" "nul_free k" "nul_free ev" "LF \<notin> set ev" "CR \<notin> set ev"
    "ev = [] \<or> \<not> g_ascii_isspace (hd ev)"
    using Cons.prems q by (simp_all add: pair_line_ok_def)
  have nlk: "LF \<notin> set k" using ok(1) by (simp add: snapshot_key_def)
  have nl: "LF \<notin> set (k @ CHR ''='' # ev)" using nlk ok(4) by simp
  have data: "kf_pairs_data (q # qs) @ d = (k @ CHR ''='' # ev) @ LF # (kf_pairs_data qs @ d)"
    by (simp add: q)
  have step: "kf_parse_data langs \<lparr>kf_groups = [(g, ps)], kf_current = Some g\<rparr> [] (kf_pairs_data (q # qs) @ d) =
      kf_parse_data langs \<lparr>kf_groups = [(g, ps @ [(k, ev)])], kf_current = Some g\<rparr> [] (kf_pairs_data qs @ d)"
    unfolding data kf_parse_data_append [OF nl]
    using strip_cr_pair_line [OF ok(5), of k] parse_pair_line [OF ok(1,2,3,6), of langs g ps]
    by (simp del: kf_parse_data.simps(2) add: kf_parse_data.simps(2) [of _ _ _ LF])
  show ?case
    using step Cons.IH [of "ps @ [(k, ev)]"] Cons.prems q by simp
qed

lemma parse_pairs:
  assumes "list_all pair_line_ok qs"
  shows "kf_parse_data langs \<lparr>kf_groups = [(g, ps)], kf_current = Some g\<rparr> [] (kf_pairs_data qs) =
           Inr \<lparr>kf_groups = [(g, ps @ qs)], kf_current = Some g\<rparr>"
  using parse_pairs_app [OF assms, of langs g ps "[]"] by simp


lemma group_name_no_lf: "g_key_file_is_group_name g \<Longrightarrow> LF \<notin> set g"
proof -
  have "g_ascii_iscntrl LF" by (simp add: g_ascii_iscntrl_def)
  then show "g_key_file_is_group_name g \<Longrightarrow> LF \<notin> set g"
    unfolding g_key_file_is_group_name_def list_all_iff by blast
qed

lemma load_saved:
  assumes g: "g_key_file_is_group_name g" and ps: "list_all pair_line_ok ps"
  shows "g_key_file_load_from_data langs (''['' @ g @ '']'' @ [LF] @ kf_pairs_data ps) =
           Inr \<lparr>kf_groups = [(g, ps)], kf_current = Some g\<rparr>"
proof -
  have nl: "LF \<notin> set (CHR ''['' # g @ '']'')" using group_name_no_lf [OF g] by simp
  have data: "''['' @ g @ '']'' @ [LF] @ kf_pairs_data ps = (CHR ''['' # g @ '']'') @ LF # kf_pairs_data ps"
    by simp
  have sc: "strip_cr (CHR ''['' # g @ '']'') = CHR ''['' # g @ '']''"
    by (simp add: strip_cr_def)
  have grp: "g_key_file_parse_line langs g_key_file_new (CHR ''['' # g @ '']'') =
      Inr \<lparr>kf_groups = [(g, [])], kf_current = Some g\<rparr>"
    using parse_group_line [OF g, of langs] by simp
  show ?thesis
    unfolding g_key_file_load_from_data_def data kf_parse_data_append [OF nl]
    using sc grp parse_pairs [OF ps, of langs g "[]"]
    by (simp del: kf_parse_data.simps(2) add: kf_parse_data.simps(2) [of _ _ _ LF])
qed

lemma escaped_pair_ok:
  assumes "snapshot_key k" and "nul_free k" and "nul_free v" and "snapshot_value v"
  shows "pair_line_ok (k, g_key_file_escape True v)"
  using assms escape_no_newline [of True v] escape_nul_free [of v True] escape_hd_space [of v]
  by (cases v) (auto simp: pair_line_ok_def snapshot_value_def)

lemma load_encoding:
  assumes g: "g_key_file_is_group_name g" and qs: "list_all pair_line_ok qs"
    and nv: "nul_free ev" and lf: "LF \<notin> set ev" "CR \<notin> set ev"
    and enc: "\<not> g_ascii_strcasecmp_eq (dropWhile g_ascii_isspace ev) ''UTF-8''"
  shows "g_key_file_load_from_data langs
           (''['' @ g @ '']'' @ [LF] @ kf_pairs_data qs @ ''Encoding='' @ ev @ LF # rest) =
         Inl (kf_error G_KEY_FILE_ERROR_UNKNOWN_ENCODING)"
proof -
  have nl: "LF \<notin> set (CHR ''['' # g @ '']'')" using group_name_no_lf [OF g] by simp
  have nle: "LF \<notin> set (''Encoding='' @ ev)" using lf(1) by simp
  have data: "''['' @ g @ '']'' @ [LF] @ kf_pairs_data qs @ ''Encoding='' @ ev @ LF # rest =
      (CHR ''['' # g @ '']'') @ LF # (kf_pairs_data qs @ (''Encoding='' @ ev) @ LF # rest)"
    by simp
  have sc: "strip_cr (CHR ''['' # g @ '']'') = CHR ''['' # g @ '']''"
    by (simp add: strip_cr_def)
  have sce: "strip_cr (''Encoding='' @ ev) = ''Encoding='' @ ev"
    using lf(2) by (cases ev rule: rev_cases) (auto simp: strip_cr_def)
  have grp: "g_key_file_parse_line langs g_key_file_new (CHR ''['' # g @ '']'') =
      Inr \<lparr>kf_groups = [(g, [])], kf_current = Some g\<rparr>"
    using parse_group_line [OF g, of langs] by simp
  have "kf_parse_data langs \<lparr>kf_groups = [(g, qs)], kf_current = Some g\<rparr> []
          ((''Encoding='' @ ev) @ LF # rest) = Inl (kf_error G_KEY_FILE_ERROR_UNKNOWN_ENCODING)"
    unfolding kf_parse_data_append [OF nle]
    using sce parse_encoding_line [OF nv enc, of langs g qs]
    by (simp del: kf_parse_data.simps(2) add: kf_parse_data.simps(2) [of _ _ _ LF])
  then show ?thesis
    unfolding g_key_file_load_from_data_def data kf_parse_data_append [OF nl]
    using sc grp parse_pairs_app [OF qs, of langs g "[]"]
    by (simp del: kf_parse_data.simps(2) add: kf_parse_data.simps(2) [of _ _ _ LF])
qed

end
