(* ===== verification/Snapshot.thy ===== *)
theory Snapshot
  imports Store KeyFile
begin

text \<open>
  The snapshot codec of \<^verbatim>\<open>src/udb.c\<close>: \<^verbatim>\<open>db_save_to_file\<close> (lines 57--97) writes
  every pair of \<^verbatim>\<open>db_mem\<close> with \<^verbatim>\<open>g_key_file_set_string\<close> into the group
  \<^verbatim>\<open>UDB_DB_SECTION\<close> and the key file's text to \<^verbatim>\<open>db_file_path\<close>;
  \<^verbatim>\<open>db_load_from_file\<close> (lines 99--155) reads that file back, empties
  \<^verbatim>\<open>db_mem\<close> and inserts every key of the group whose value
  \<^verbatim>\<open>g_key_file_get_string\<close> returns. The GLib calls are those of theory
  \<open>KeyFile\<close>. \<^verbatim>\<open>db_file_path\<close> is a \<open>string option\<close> (\<open>None\<close> when
  \<^verbatim>\<open>--db-file\<close> is not given); on \<open>None\<close> both functions stop at their
  \<^verbatim>\<open>g_return_if_fail\<close> without setting an error. The allocation failure branch of
  \<^verbatim>\<open>g_key_file_new\<close> is unreachable (GLib aborts on out-of-memory) and is not
  modelled. An error is returned as the \<^verbatim>\<open>GError\<close> the function sets.

  The lemmas show the round trip: a table whose keys and values the format can carry is
  saved and loaded back to the same map. They also show each way a pair is lost or the
  load fails, because the key file cannot carry it.
\<close>

definition db_save_to_file ::
  "udb_config \<Rightarrow> string option \<Rightarrow> nat option \<Rightarrow> ghash \<Rightarrow> disk_file \<Rightarrow> gerror option \<times> disk_file" where
  "db_save_to_file conf path wfail t disk =
     (case path of
        None \<Rightarrow> (None, disk)
      | Some _ \<Rightarrow>
          (let kf = foldl (\<lambda>kf (k, v). g_key_file_set_string kf (UDB_DB_SECTION conf) k v) g_key_file_new t
           in g_file_set_contents (g_key_file_to_data kf) wfail disk))"

text \<open>The loop \<^verbatim>\<open>for (i = 0; i < n_keys; i++)\<close> of \<^verbatim>\<open>db_load_from_file\<close>.\<close>

fun load_keys :: "gkeyfile \<Rightarrow> string \<Rightarrow> string list \<Rightarrow> ghash \<Rightarrow> ghash" where
  "load_keys kf g [] t = t"
| "load_keys kf g (k # ks) t =
     load_keys kf g ks
       (case g_key_file_get_string kf g k of
          None \<Rightarrow> t
        | Some v \<Rightarrow> snd (g_hash_table_insert (cstr k) (cstr v) t))"

definition db_load_from_file ::
  "udb_config \<Rightarrow> string option \<Rightarrow> string list \<Rightarrow> disk_file \<Rightarrow> ghash \<Rightarrow> gerror option \<times> ghash" where
  "db_load_from_file conf path langs disk t =
     (case path of
        None \<Rightarrow> (None, t)
      | Some _ \<Rightarrow>
          (case g_key_file_load_from_file langs disk of
             Inl e \<Rightarrow> (Some e, t)
           | Inr kf \<Rightarrow>
               (let t0 = g_hash_table_remove_all t in
                case g_key_file_get_keys kf (UDB_DB_SECTION conf) of
                  None \<Rightarrow> (Some (kf_error G_KEY_FILE_ERROR_GROUP_NOT_FOUND), t0)
                | Some keys \<Rightarrow> (None, load_keys kf (UDB_DB_SECTION conf) keys t0))))"

lemma load_keys_map:
  assumes "\<forall>k \<in> set ks. nul_free k \<and> (\<forall>v. g_key_file_get_string kf g k = Some v \<longrightarrow> nul_free v)"
  shows "map_of (load_keys kf g ks t) =
           foldl (\<lambda>m k. case g_key_file_get_string kf g k of None \<Rightarrow> m | Some v \<Rightarrow> m(k \<mapsto> v)) (map_of t) ks"
  using assms by (induction ks arbitrary: t) (auto split: option.split)

lemma load_keys_invar:
  assumes "ghash_invar t"
    and "\<forall>k \<in> set ks. nul_free k \<and> (\<forall>v. g_key_file_get_string kf g k = Some v \<longrightarrow> nul_free v)"
  shows "ghash_invar (load_keys kf g ks t)"
  using assms by (induction ks arbitrary: t) (auto split: option.split)


lemma load_keys_abs:
  "map_of (load_keys kf g ks t) =
     foldl (\<lambda>m k. case g_key_file_get_string kf g k of None \<Rightarrow> m | Some v \<Rightarrow> m(cstr k \<mapsto> cstr v)) (map_of t) ks"
  by (induction ks arbitrary: t) (auto split: option.split)

subsection \<open>The round trip\<close>

lemma snapshot_pairs:
  assumes "ghash_invar t" and "\<forall>(k, v) \<in> set t. snapshot_key k"
  shows "\<forall>(k, v) \<in> set t. g_key_file_is_key_name k \<and> nul_free k \<and> nul_free v"
  using assms by (auto simp: ghash_invar_def list_all_iff snapshot_key_def)

lemma save_data_names:
  assumes g: "g_key_file_is_group_name (UDB_DB_SECTION conf)" and inv: "ghash_invar t"
    and ne: "t \<noteq> []" and keys: "\<forall>(k, v) \<in> set t. g_key_file_is_key_name k"
  shows "db_save_to_file conf (Some p) None t disk =
           (None, REGULAR (''['' @ UDB_DB_SECTION conf @ '']'' @ [LF] @ kf_pairs_data (escaped_table t)))"
proof -
  have "distinct (map fst t)" using inv by (simp add: ghash_invar_def)
  moreover have "\<forall>(k, v) \<in> set t. g_key_file_is_key_name k \<and> nul_free k \<and> nul_free v"
    using inv keys by (auto simp: ghash_invar_def list_all_iff)
  ultimately show ?thesis
    using save_keyfile [OF g _ _ ne]
    by (simp add: db_save_to_file_def g_file_set_contents_def to_data_single)
qed

lemma save_data:
  assumes g: "g_key_file_is_group_name (UDB_DB_SECTION conf)" and inv: "ghash_invar t"
    and ne: "t \<noteq> []" and keys: "\<forall>(k, v) \<in> set t. snapshot_key k"
  shows "db_save_to_file conf (Some p) None t disk =
           (None, REGULAR (''['' @ UDB_DB_SECTION conf @ '']'' @ [LF] @ kf_pairs_data (escaped_table t)))"
proof -
  have "\<forall>(k, v) \<in> set t. g_key_file_is_key_name k" using keys by (auto simp: snapshot_key_def)
  then show ?thesis by (rule save_data_names [OF g inv ne])
qed

lemma get_string_saved:
  assumes "distinct (map fst t)" and "(k, v) \<in> set t" and "nul_free v" and "g_utf8_validate v"
  shows "g_key_file_get_string \<lparr>kf_groups = [(g, escaped_table t)], kf_current = x\<rparr> g k = Some v"
proof -
  have d: "distinct (map fst (escaped_table t))"
    using assms(1) by (simp add: case_prod_beta comp_def)
  have "map_of (escaped_table t) k = Some (g_key_file_escape True v)"
    using d assms(2) by (intro map_of_is_SomeI) auto
  then show ?thesis
    using assms(3,4) map_of_rev_distinct [OF d]
    by (simp add: g_key_file_get_string_def g_key_file_get_value_def utf8_validate_escape unescape_escape)
qed

lemma load_data:
  assumes g: "g_key_file_is_group_name (UDB_DB_SECTION conf)" and inv: "ghash_invar t"
    and ok: "\<forall>(k, v) \<in> set t. snapshot_key k \<and> snapshot_value v"
  shows "\<exists>t'. db_load_from_file conf (Some p) langs
             (REGULAR (''['' @ UDB_DB_SECTION conf @ '']'' @ [LF] @ kf_pairs_data (escaped_table t))) t0 = (None, t')
           \<and> ghash_invar t' \<and> map_of t' = map_of t"
proof -
  let ?g = "UDB_DB_SECTION conf"
  let ?kf = "\<lparr>kf_groups = [(?g, escaped_table t)], kf_current = Some ?g\<rparr>"
  have nf: "\<forall>(k, v) \<in> set t. g_key_file_is_key_name k \<and> nul_free k \<and> nul_free v"
    using snapshot_pairs [OF inv] ok by auto
  have dist: "distinct (map fst t)" using inv by (simp add: ghash_invar_def)
  have lines: "list_all pair_line_ok (escaped_table t)"
    using ok nf by (auto simp: list_all_iff intro: escaped_pair_ok)
  have get: "\<forall>(k, v) \<in> set t. g_key_file_get_string ?kf ?g k = Some v"
    using ok nf dist by (auto simp: snapshot_value_def intro: get_string_saved)
  have keys: "g_key_file_get_keys ?kf ?g = Some (map fst t)"
    by (simp add: g_key_file_get_keys_def comp_def case_prod_beta)
  have pre: "\<forall>k \<in> set (map fst t). nul_free k \<and> (\<forall>v. g_key_file_get_string ?kf ?g k = Some v \<longrightarrow> nul_free v)"
    using get nf by fastforce
  have load: "db_load_from_file conf (Some p) langs
      (REGULAR (''['' @ ?g @ '']'' @ [LF] @ kf_pairs_data (escaped_table t))) t0 =
      (None, load_keys ?kf ?g (map fst t) [])"
    using load_saved [OF g lines, of langs] keys
    by (simp add: db_load_from_file_def g_key_file_load_from_file_def g_hash_table_remove_all_def)
  have "map_of (load_keys ?kf ?g (map fst t) []) = map_of t"
    using load_keys_map [OF pre, of "[]"] foldl_get_map_of [OF dist get, of Map.empty] by simp
  moreover have "ghash_invar (load_keys ?kf ?g (map fst t) [])"
    using load_keys_invar [OF ghash_invar_nil pre] .
  ultimately show ?thesis using load by blast
qed

subsection \<open>Properties of the snapshot codec\<close>

text \<open>C10: saving a non-empty table and loading the file back gives the same map. This
  holds for any table whose keys and values the key-file format carries
  (\<open>snapshot_key\<close>, \<open>snapshot_value\<close>), including values with leading blanks,
  newlines, carriage returns and backslashes, for any locale and any previous table.\<close>

theorem snapshot_roundtrip:
  assumes "g_key_file_is_group_name (UDB_DB_SECTION conf)" and "ghash_invar t" and "t \<noteq> []"
    and "\<forall>(k, v) \<in> set t. snapshot_key k \<and> snapshot_value v"
  shows "\<exists>data t'. db_save_to_file conf (Some p) None t disk = (None, REGULAR data)
           \<and> db_load_from_file conf (Some p) langs (REGULAR data) t0 = (None, t')
           \<and> ghash_invar t' \<and> map_of t' = map_of t"
  using save_data [OF assms(1,2,3)] load_data [OF assms(1,2) assms(4)] assms(4) by fastforce

theorem snapshot_roundtrip_witness:
  "\<exists>data t'. db_save_to_file \<lparr>UDB_MAX_KEY_LENGTH = 255, UDB_DB_SECTION = ''udb''\<rparr> (Some ''db.ini'') None
               [(''name'', ''Alice''), (''note'', '' two'' @ [LF] @ ''lines'')] NO_FILE = (None, REGULAR data)
     \<and> db_load_from_file \<lparr>UDB_MAX_KEY_LENGTH = 255, UDB_DB_SECTION = ''udb''\<rparr> (Some ''db.ini'') [''C'']
               (REGULAR data) [] = (None, t')
     \<and> ghash_invar t' \<and> map_of t' = map_of [(''name'', ''Alice''), (''note'', '' two'' @ [LF] @ ''lines'')]"
  by (rule snapshot_roundtrip)
    (simp_all add: g_key_file_is_group_name_def g_ascii_iscntrl_def ghash_invar_def snapshot_key_def
      snapshot_value_def g_key_file_is_key_name_def g_ascii_isspace_def g_utf8_validate_def utf8_next_def)

text \<open>C11: an empty table is saved as an empty file. Loading that file finds no group
  \<^verbatim>\<open>UDB_DB_SECTION\<close> and reports \<^verbatim>\<open>G_KEY_FILE_ERROR_GROUP_NOT_FOUND\<close>, whose code
  4 is also the code of \<^verbatim>\<open>G_FILE_ERROR_NOENT\<close>. The table is left empty.\<close>

theorem snapshot_empty_store:
  "db_save_to_file conf (Some p) None [] disk = (None, REGULAR [])
   \<and> db_load_from_file conf (Some p) langs (REGULAR []) t =
       (Some (kf_error G_KEY_FILE_ERROR_GROUP_NOT_FOUND), [])
   \<and> err_code (kf_error G_KEY_FILE_ERROR_GROUP_NOT_FOUND) = G_FILE_ERROR_NOENT"
  by (simp add: db_save_to_file_def g_file_set_contents_def g_key_file_to_data_def g_key_file_new_def
      db_load_from_file_def g_key_file_load_from_file_def g_key_file_load_from_data_def
      g_key_file_get_keys_def g_hash_table_remove_all_def kf_error_def)

text \<open>C12: a pair whose key is not a GLib key name is not saved. Such a key contains
  \<^verbatim>\<open>=\<close>, \<^verbatim>\<open>[\<close> or \<^verbatim>\<open>]\<close>, starts or ends with a space, or is empty, and a quoted
  \<^verbatim>\<open>SET\<close> key can be any of these. The guard of \<^verbatim>\<open>g_key_file_set_value\<close> turns
  \<^verbatim>\<open>g_key_file_set_string\<close> into a no-op, so wherever the pair sits in the table, the
  snapshot of the table is the snapshot without that pair.\<close>

theorem save_drops_invalid_key:
  assumes "\<not> g_key_file_is_key_name (cstr k)"
  shows "db_save_to_file conf path wfail (t1 @ (k, v) # t2) disk = db_save_to_file conf path wfail (t1 @ t2) disk"
proof -
  have "g_key_file_set_string kf (UDB_DB_SECTION conf) k v = kf" for kf
    using assms by (simp add: g_key_file_set_string_def g_key_file_set_value_def)
  then show ?thesis by (simp add: db_save_to_file_def split: option.split)
qed

theorem save_drops_invalid_key_witness:
  "db_save_to_file \<lparr>UDB_MAX_KEY_LENGTH = 255, UDB_DB_SECTION = ''udb''\<rparr> (Some ''db.ini'') None
     [(''c'', ''y''), (''a=b'', ''x''), (''d'', ''z'')] NO_FILE
   = db_save_to_file \<lparr>UDB_MAX_KEY_LENGTH = 255, UDB_DB_SECTION = ''udb''\<rparr> (Some ''db.ini'') None
     [(''c'', ''y''), (''d'', ''z'')] NO_FILE"
  using save_drops_invalid_key [of "''a=b''" "\<lparr>UDB_MAX_KEY_LENGTH = 255, UDB_DB_SECTION = ''udb''\<rparr>"
      "Some ''db.ini''" None "[(''c'', ''y'')]" "''x''" "[(''d'', ''z'')]" NO_FILE]
  by (simp add: g_key_file_is_key_name_def)

text \<open>C13: a stored key \<^verbatim>\<open>Encoding\<close> poisons the snapshot. Take any table, under
  any valid section name, that holds the key \<^verbatim>\<open>Encoding\<close> with a value other than
  \<^verbatim>\<open>UTF-8\<close> (in any ASCII case), e.g. after \<^verbatim>\<open>SET Encoding latin1\<close>. The pairs
  saved before it must be ones the format carries; the pairs after it may be anything
  with a valid key name. The saved file has a line \<^verbatim>\<open>Encoding=...\<close> in its first
  and only group. \<^verbatim>\<open>g_key_file_load_from_file\<close> rejects that line with
  \<^verbatim>\<open>G_KEY_FILE_ERROR_UNKNOWN_ENCODING\<close>, whose code is 0, so no pair is loaded and
  the previous table is kept.\<close>

theorem snapshot_encoding_key_fails:
  assumes g: "g_key_file_is_group_name (UDB_DB_SECTION conf)"
    and inv: "ghash_invar (t1 @ (''Encoding'', v) # t2)"
    and t1: "\<forall>(k, w) \<in> set t1. snapshot_key k \<and> snapshot_value w"
    and t2: "\<forall>(k, w) \<in> set t2. g_key_file_is_key_name k"
    and enc: "\<not> g_ascii_strcasecmp_eq v ''UTF-8''"
    and vhd: "v = [] \<or> (hd v \<noteq> CHR 0x0B \<and> hd v \<noteq> CHR 0x0C)"
  shows "\<exists>data. db_save_to_file conf (Some p) None (t1 @ (''Encoding'', v) # t2) disk = (None, REGULAR data)
           \<and> db_load_from_file conf (Some p) langs (REGULAR data) t0 =
               (Some (kf_error G_KEY_FILE_ERROR_UNKNOWN_ENCODING), t0)"
proof -
  let ?t = "t1 @ (''Encoding'', v) # t2"
  let ?ev = "g_key_file_escape True v"
  have names: "\<forall>(k, w) \<in> set ?t. g_key_file_is_key_name k"
    using t1 t2 by (auto simp: snapshot_key_def g_key_file_is_key_name_def)
  have save: "db_save_to_file conf (Some p) None ?t disk =
      (None, REGULAR (''['' @ UDB_DB_SECTION conf @ '']'' @ [LF] @ kf_pairs_data (escaped_table ?t)))"
    using save_data_names [OF g inv _ names] by simp
  have nf: "nul_free v" "\<forall>(k, w) \<in> set t1. nul_free k \<and> nul_free w"
    using inv by (auto simp: ghash_invar_def list_all_iff)
  have lines: "list_all pair_line_ok (escaped_table t1)"
    using t1 nf(2) by (auto simp: list_all_iff intro: escaped_pair_ok)
  have sp: "dropWhile g_ascii_isspace ?ev = ?ev"
  proof (cases "v = []")
    case False
    then have "\<not> g_ascii_isspace (hd ?ev)" "?ev \<noteq> []" using escape_hd_space [of v] vhd by simp_all
    then show ?thesis by (cases ?ev) auto
  qed simp
  have ev: "nul_free ?ev" "LF \<notin> set ?ev" "CR \<notin> set ?ev"
    "\<not> g_ascii_strcasecmp_eq (dropWhile g_ascii_isspace ?ev) ''UTF-8''"
    using escape_nul_free [OF nf(1)] escape_no_newline [of True v] sp enc strcasecmp_escape [of True v]
    by auto
  have data: "kf_pairs_data (escaped_table ?t) =
      kf_pairs_data (escaped_table t1) @ ''Encoding='' @ ?ev @ LF # kf_pairs_data (escaped_table t2)"
    by (simp add: kf_pairs_data_append)
  have "g_key_file_load_from_data langs
      (''['' @ UDB_DB_SECTION conf @ '']'' @ [LF] @ kf_pairs_data (escaped_table ?t)) =
      Inl (kf_error G_KEY_FILE_ERROR_UNKNOWN_ENCODING)"
    unfolding data using load_encoding [OF g lines ev] by simp
  then show ?thesis
    using save by (simp add: db_load_from_file_def g_key_file_load_from_file_def)
qed

theorem snapshot_encoding_key_fails_witness:
  "\<exists>data. db_save_to_file \<lparr>UDB_MAX_KEY_LENGTH = 255, UDB_DB_SECTION = ''cache''\<rparr> (Some ''db.ini'') None
            [(''name'', ''Alice''), (''Encoding'', ''latin1''), (''x'', ''1'')] NO_FILE = (None, REGULAR data)
     \<and> db_load_from_file \<lparr>UDB_MAX_KEY_LENGTH = 255, UDB_DB_SECTION = ''cache''\<rparr> (Some ''db.ini'') [''C'']
            (REGULAR data) [(''y'', ''2'')] = (Some (kf_error G_KEY_FILE_ERROR_UNKNOWN_ENCODING), [(''y'', ''2'')])"
  using snapshot_encoding_key_fails [of "\<lparr>UDB_MAX_KEY_LENGTH = 255, UDB_DB_SECTION = ''cache''\<rparr>"
      "[(''name'', ''Alice'')]" "''latin1''" "[(''x'', ''1'')]" "''db.ini''" NO_FILE "[''C'']" "[(''y'', ''2'')]"]
  by (simp add: g_key_file_is_group_name_def g_ascii_iscntrl_def ghash_invar_def snapshot_key_def
      snapshot_value_def g_key_file_is_key_name_def g_ascii_isspace_def g_utf8_validate_def utf8_next_def
      g_ascii_strcasecmp_eq_def ascii_tolower_def)

text \<open>C14: a file with pairs before any group header loads nothing. Spec scenario 6's
  file \<^verbatim>\<open>key1=hello\<close> is rejected by the parser with
  \<^verbatim>\<open>G_KEY_FILE_ERROR_GROUP_NOT_FOUND\<close> (code 4, the code of
  \<^verbatim>\<open>G_FILE_ERROR_NOENT\<close>). The table keeps its previous contents, which are empty at
  startup.\<close>

theorem snapshot_without_group:
  "db_load_from_file conf (Some p) langs (REGULAR ''key1=hello'') t =
     (Some (kf_error G_KEY_FILE_ERROR_GROUP_NOT_FOUND), t)"
  by (simp add: db_load_from_file_def g_key_file_load_from_file_def g_key_file_load_from_data_def
      g_key_file_new_def g_key_file_parse_line_def line_is_comment_def line_is_group_def
      line_is_key_value_pair_def g_key_file_parse_key_value_pair_def g_ascii_isspace_def Let_def)

end
