(* ===== verification/Connection.thy ===== *)
theory Connection
  imports Commands
begin

text \<open>
  The connection loop of \<^verbatim>\<open>src/udb.c\<close>, made of three GIO callbacks.
  \<^item> \<^verbatim>\<open>on_incoming\<close> (lines 463--481) takes a reference to the accepted connection
    and issues the first \<^verbatim>\<open>g_data_input_stream_read_line_async\<close>.
  \<^item> \<^verbatim>\<open>on_line_read\<close> (lines 418--461) runs when a read completes.
    \<^item> On a read error or end of stream it drops the connection.
    \<^item> Otherwise it strips one trailing carriage return from the line and hands the line
      to \<^verbatim>\<open>process_command_line\<close>. It starts an asynchronous write of the reply and
      issues the next read at once.
  \<^item> \<^verbatim>\<open>on_write_done\<close> (lines 366--382) finishes the write and logs a failure; it
    does not look at how many bytes were written.

  A connection is the record \<open>conn\<close>: whether the callbacks still hold it, whether a read
  is outstanding, the write in flight on its output stream, the bytes delivered to the
  socket, and the replies that were never written.

  A \<^verbatim>\<open>GOutputStream\<close> allows one outstanding operation. A
  \<^verbatim>\<open>g_output_stream_write_async\<close> issued while another write is pending fails with
  \<^verbatim>\<open>G_IO_ERROR_PENDING\<close> (GLib's documented contract), and its data is not written.

  A completed read is a \<open>read_result\<close>. For a line, the result is the bytes
  \<^verbatim>\<open>g_data_input_stream_read_line_finish\<close> returns (up to the newline, which it
  drops) together with the memory after the NUL it appends. That memory is what the scanner
  may read past the line (see theory \<open>Lines\<close>).
\<close>

datatype read_result = READ_ERROR | READ_EOF | READ_LINE bytes bytes

record conn =
  conn_open :: bool
  conn_reading :: bool
  conn_writing :: "string option"
  conn_sent :: string
  conn_dropped :: "string list"

text \<open>\<^verbatim>\<open>on_incoming\<close>: the new connection, with its first read outstanding.\<close>

definition on_incoming :: conn where
  "on_incoming = \<lparr>conn_open = True, conn_reading = True, conn_writing = None, conn_sent = [],
                  conn_dropped = []\<rparr>"

text \<open>\<^verbatim>\<open>if (g_str_has_suffix (line, "\r")) line[strlen (line) - 1] = '\0';\<close> on the line
  buffer: the line's bytes, its NUL, and the memory after it.\<close>

definition strip_cr_line :: "bytes \<Rightarrow> bytes \<Rightarrow> bytes" where
  "strip_cr_line line m =
     (let s = cstr line in
      if s \<noteq> [] \<and> last s = CR then butlast s @ NUL # drop (length s) line @ NUL # m
      else line @ NUL # m)"

definition g_output_stream_write_async :: "conn \<Rightarrow> string \<Rightarrow> conn" where
  "g_output_stream_write_async cn data =
     (case conn_writing cn of
        None \<Rightarrow> cn\<lparr>conn_writing := Some data\<rparr>
      | Some _ \<Rightarrow> cn\<lparr>conn_dropped := conn_dropped cn @ [data]\<rparr>)"

text \<open>\<^verbatim>\<open>on_line_read\<close>: the shared state and the connection after the callback;
  \<open>None\<close> when \<^verbatim>\<open>process_command_line\<close> blocks. The reply is written with
  \<^verbatim>\<open>strlen (response)\<close> bytes.\<close>

definition on_line_read :: "udb_config \<Rightarrow> read_result \<Rightarrow> core \<times> conn \<Rightarrow> (core \<times> conn) option" where
  "on_line_read conf res st =
     (let (c, cn) = st in
      case res of
        READ_ERROR \<Rightarrow> Some (c, cn\<lparr>conn_open := False, conn_reading := False\<rparr>)
      | READ_EOF \<Rightarrow> Some (c, cn\<lparr>conn_open := False, conn_reading := False\<rparr>)
      | READ_LINE line m \<Rightarrow> do {
          (response, c') \<leftarrow> process_command_line conf (strip_cr_line line m) c;
          let cn' = g_output_stream_write_async cn (cstr response);
          Some (c', cn'\<lparr>conn_reading := True\<rparr>)
        })"

text \<open>\<^verbatim>\<open>on_write_done\<close>: the write in flight completes.
  \<^verbatim>\<open>g_output_stream_write_finish\<close> gives the number \<open>n\<close> of bytes written, which
  may be fewer than requested, or fails (\<open>None\<close>) and the error is logged. The callback
  ignores the count, so only the first \<open>n\<close> bytes reach the socket.\<close>

definition on_write_done :: "nat option \<Rightarrow> conn \<Rightarrow> conn" where
  "on_write_done res cn =
     (case conn_writing cn of
        None \<Rightarrow> cn
      | Some d \<Rightarrow> cn\<lparr>conn_writing := None,
                     conn_sent := conn_sent cn @ (case res of None \<Rightarrow> [] | Some n \<Rightarrow> take n d)\<rparr>)"

text \<open>Two schedules of one connection. \<open>replies\<close> is the reference: the lines' memories
  given to \<^verbatim>\<open>process_command_line\<close> one after the other, with the list of replies.
  \<open>serve_lines\<close> is the callbacks on a connection whose peer reads every reply before
  the next line arrives: each \<^verbatim>\<open>on_line_read\<close> is followed by the
  \<^verbatim>\<open>on_write_done\<close> of its reply, written in full.\<close>

fun replies :: "udb_config \<Rightarrow> bytes list \<Rightarrow> core \<Rightarrow> (string list \<times> core) option" where
  "replies conf [] c = Some ([], c)"
| "replies conf (mem # ms) c = do {
     (r, c') \<leftarrow> process_command_line conf mem c;
     (rs, c'') \<leftarrow> replies conf ms c';
     Some (r # rs, c'')
   }"

fun serve_lines :: "udb_config \<Rightarrow> (bytes \<times> bytes) list \<Rightarrow> core \<times> conn \<Rightarrow> (core \<times> conn) option" where
  "serve_lines conf [] st = Some st"
| "serve_lines conf ((l, m) # ls) st = do {
     (c', cn') \<leftarrow> on_line_read conf (READ_LINE l m) st;
     serve_lines conf ls (c', on_write_done (map_option length (conn_writing cn')) cn')
   }"

subsection \<open>The line callback\<close>

lemma cstr_crlf_line: "crlf_line r \<Longrightarrow> cstr r = r"
  by (simp add: crlf_line_def)

lemma on_line_read_line:
  assumes "core_invar c"
  shows "\<exists>r c'. process_command_line conf (strip_cr_line l m) c = Some (r, c') \<and> crlf_line r \<and> core_invar c'
           \<and> on_line_read conf (READ_LINE l m) (c, cn) =
               Some (c', (g_output_stream_write_async cn r)\<lparr>conn_reading := True\<rparr>)"
proof -
  obtain r c' where p: "process_command_line conf (strip_cr_line l m) c = Some (r, c')" "crlf_line r"
    "core_invar c'"
    using process_command_line_ok [OF assms] by blast
  then show ?thesis
    by (simp add: on_line_read_def cstr_crlf_line)
qed

lemma on_line_read_ok:
  assumes "core_invar c"
  shows "\<exists>c' cn'. on_line_read conf res (c, cn) = Some (c', cn') \<and> core_invar c'"
proof (cases res)
  case (READ_LINE l m)
  then show ?thesis using on_line_read_line [OF assms, of conf l m cn] by auto
qed (simp_all add: on_line_read_def assms)

lemma write_async_idle [simp]:
  "conn_writing cn = None \<Longrightarrow> g_output_stream_write_async cn d = cn\<lparr>conn_writing := Some d\<rparr>"
  by (simp add: g_output_stream_write_async_def)

lemma write_async_busy:
  "conn_writing cn = Some w \<Longrightarrow> g_output_stream_write_async cn d = cn\<lparr>conn_dropped := conn_dropped cn @ [d]\<rparr>"
  by (simp add: g_output_stream_write_async_def)

subsection \<open>Stripping the carriage return\<close>

lemma strip_cr_line_plain:
  "nul_free l \<Longrightarrow> (l = [] \<or> last l \<noteq> CR) \<Longrightarrow> strip_cr_line l m = l @ NUL # m"
  by (auto simp: strip_cr_line_def)

lemma strip_cr_line_cr:
  "nul_free l \<Longrightarrow> strip_cr_line (l @ [CR]) m = l @ NUL # NUL # m"
  by (simp add: strip_cr_line_def)

subsection \<open>A paced session\<close>

text \<open>C15: on a paced connection the replies are sent in the order of the lines. Here the
  peer reads every reply before the next line arrives. Each line's reply ends in
  CRLF. The bytes sent on the socket are the replies that
  \<^verbatim>\<open>process_command_line\<close> gives to the lines in turn, each with one trailing
  carriage return stripped. No reply is dropped, and the shared state stays well formed.\<close>

theorem session_replies_in_order:
  assumes "core_invar c" and "conn_writing cn = None"
  shows "\<exists>rs c' cn'. replies conf (map (\<lambda>(l, m). strip_cr_line l m) ls) c = Some (rs, c')
           \<and> serve_lines conf ls (c, cn) = Some (c', cn')
           \<and> core_invar c' \<and> list_all crlf_line rs
           \<and> conn_sent cn' = conn_sent cn @ concat rs \<and> conn_dropped cn' = conn_dropped cn
           \<and> conn_writing cn' = None"
  using assms
proof (induction ls arbitrary: c cn)
  case Nil
  then show ?case by simp
next
  case (Cons lm ls)
  obtain l m where lm: "lm = (l, m)" by fastforce
  obtain r c1 where p: "process_command_line conf (strip_cr_line l m) c = Some (r, c1)" "crlf_line r"
    "core_invar c1"
    and olr: "on_line_read conf (READ_LINE l m) (c, cn) =
      Some (c1, (g_output_stream_write_async cn r)\<lparr>conn_reading := True\<rparr>)"
    using on_line_read_line [OF Cons.prems(1)] by blast
  let ?cn0 = "(g_output_stream_write_async cn r)\<lparr>conn_reading := True\<rparr>"
  let ?cn1 = "on_write_done (map_option length (conn_writing ?cn0)) ?cn0"
  have cn1: "conn_writing ?cn1 = None" "conn_sent ?cn1 = conn_sent cn @ r"
    "conn_dropped ?cn1 = conn_dropped cn"
    using Cons.prems(2) by (simp_all add: on_write_done_def)
  obtain rs c' cn' where ih: "replies conf (map (\<lambda>(l, m). strip_cr_line l m) ls) c1 = Some (rs, c')"
    "serve_lines conf ls (c1, ?cn1) = Some (c', cn')" "core_invar c'" "list_all crlf_line rs"
    "conn_sent cn' = conn_sent ?cn1 @ concat rs" "conn_dropped cn' = conn_dropped ?cn1"
    "conn_writing cn' = None"
    using Cons.IH [OF p(3) cn1(1)] by blast
  show ?case
    using ih p olr cn1 lm by simp
qed

text \<open>C16: a reply is lost when a line arrives before the previous reply is written.
  \<^verbatim>\<open>on_line_read\<close> issues the next read right after starting the write. When the
  next line completes while that write is still pending, its reply's
  \<^verbatim>\<open>g_output_stream_write_async\<close> fails with \<^verbatim>\<open>G_IO_ERROR_PENDING\<close>. The command
  has taken effect, but its non-empty reply is never sent.\<close>

theorem reply_dropped_while_writing:
  assumes "core_invar c" and "conn_writing cn = Some w"
  shows "\<exists>r c'. process_command_line conf (strip_cr_line l m) c = Some (r, c') \<and> r \<noteq> []
           \<and> on_line_read conf (READ_LINE l m) (c, cn) =
               Some (c', cn\<lparr>conn_dropped := conn_dropped cn @ [r], conn_reading := True\<rparr>)"
proof -
  obtain r c' where "process_command_line conf (strip_cr_line l m) c = Some (r, c')" "crlf_line r"
    "on_line_read conf (READ_LINE l m) (c, cn) = Some (c', (g_output_stream_write_async cn r)\<lparr>conn_reading := True\<rparr>)"
    using on_line_read_line [OF assms(1)] by blast
  then show ?thesis
    using assms(2) crlf_line_length [of r] by (auto simp: write_async_busy)
qed

text \<open>C17: a line ending in a carriage return is handled like the line without it. The
  stripped byte becomes a NUL, so the scanner sees the line followed by a second NUL.\<close>

theorem trailing_cr_ignored:
  assumes "nul_free l" and "l = [] \<or> last l \<noteq> CR"
  shows "on_line_read conf (READ_LINE (l @ [CR]) m) st = on_line_read conf (READ_LINE l (NUL # m)) st"
  using assms by (simp add: on_line_read_def strip_cr_line_cr strip_cr_line_plain)

theorem trailing_cr_ignored_witness:
  "on_line_read \<lparr>UDB_MAX_KEY_LENGTH = 255, UDB_DB_SECTION = ''udb''\<rparr> (READ_LINE (''GET name'' @ [CR]) []) (core_init, on_incoming)
   = on_line_read \<lparr>UDB_MAX_KEY_LENGTH = 255, UDB_DB_SECTION = ''udb''\<rparr> (READ_LINE ''GET name'' [NUL]) (core_init, on_incoming)"
  by (rule trailing_cr_ignored) simp_all

theorem session_replies_in_order_witness:
  "\<exists>rs c' cn'. replies \<lparr>UDB_MAX_KEY_LENGTH = 255, UDB_DB_SECTION = ''udb''\<rparr>
        (map (\<lambda>(l, m). strip_cr_line l m) [(''SET a 1'', []), (''GET a'' @ [CR], [])]) core_init = Some (rs, c')
     \<and> serve_lines \<lparr>UDB_MAX_KEY_LENGTH = 255, UDB_DB_SECTION = ''udb''\<rparr>
        [(''SET a 1'', []), (''GET a'' @ [CR], [])] (core_init, on_incoming) = Some (c', cn')
     \<and> core_invar c' \<and> list_all crlf_line rs
     \<and> conn_sent cn' = conn_sent on_incoming @ concat rs \<and> conn_dropped cn' = conn_dropped on_incoming
     \<and> conn_writing cn' = None"
  by (rule session_replies_in_order) (simp_all add: on_incoming_def)

theorem reply_dropped_while_writing_witness:
  "\<exists>r c'. process_command_line \<lparr>UDB_MAX_KEY_LENGTH = 255, UDB_DB_SECTION = ''udb''\<rparr>
            (strip_cr_line ''GET a'' []) core_init = Some (r, c') \<and> r \<noteq> []
     \<and> on_line_read \<lparr>UDB_MAX_KEY_LENGTH = 255, UDB_DB_SECTION = ''udb''\<rparr> (READ_LINE ''GET a'' [])
          (core_init, on_incoming\<lparr>conn_writing := Some ''OK''\<rparr>) =
        Some (c', (on_incoming\<lparr>conn_writing := Some ''OK''\<rparr>)\<lparr>conn_dropped := [] @ [r], conn_reading := True\<rparr>)"
  using reply_dropped_while_writing [of core_init "on_incoming\<lparr>conn_writing := Some ''OK''\<rparr>" "''OK''"
      "\<lparr>UDB_MAX_KEY_LENGTH = 255, UDB_DB_SECTION = ''udb''\<rparr>" "''GET a''" "[]"]
  by (simp add: on_incoming_def)

end
