(* ===== verification/Server.thy ===== *)
theory Server
  imports Connection Snapshot
begin

text \<open>
  The lifecycle of the udb process and the interleaving of its callbacks.

  \<^bold>\<open>Startup.\<close> \<open>udb_main\<close> models the part of \<^verbatim>\<open>main\<close> (lines 539--562) after
  the socket is bound. It runs \<^verbatim>\<open>db_init\<close> and \<^verbatim>\<open>udb_scanner_init\<close>. When
  \<^verbatim>\<open>--db-file\<close> is given it then calls \<^verbatim>\<open>db_load_from_file\<close>. Any error whose
  \<^verbatim>\<open>code\<close> differs from \<^verbatim>\<open>G_FILE_ERROR_NOENT\<close> ends the process with that code
  as its status; the error's domain is not checked. Otherwise the main loop starts.

  \<^bold>\<open>Running.\<close> The main loop then dispatches one callback at a time:
  \<^item> a new connection (\<^verbatim>\<open>on_incoming\<close>);
  \<^item> a completed read or write on a connection;
  \<^item> the periodic \<^verbatim>\<open>on_db_save_timeout\<close>, registered only with a db file;
  \<^item> the signal handler \<^verbatim>\<open>sigint_handler\<close> setting \<^verbatim>\<open>got_sigint\<close>;
  \<^item> the idle callback \<^verbatim>\<open>on_check_sigint\<close>, which on a raised flag saves the table
    and quits the loop.

  Both save callbacks hold \<^verbatim>\<open>db_mutex\<close> around \<^verbatim>\<open>db_save_to_file\<close> and log a
  failure (\<open>srv_log\<close>) without stopping.

  \<^bold>\<open>The model.\<close>
  \<^item> The state \<open>server\<close> holds the shared \<open>core\<close>, the connections in accept
    order, the snapshot file on disk, the signal flag, whether the loop runs, and the
    logged save errors.
  \<^item> \<open>server_step\<close> runs one callback; it is \<open>None\<close> when a mutex would block the
    single thread.
  \<^item> \<open>server_reach\<close> is the set of states the process can reach from a successful
    startup through any interleaving of enabled callbacks. The environment chooses each
    read's result and how many bytes each write completes, if it does not fail.
\<close>

record server =
  srv_core :: core
  srv_conns :: "conn list"
  srv_disk :: disk_file
  srv_got_sigint :: bool
  srv_running :: bool
  srv_log :: "gerror list"

datatype main_outcome = EXIT nat | RUN server

datatype event =
    EV_INCOMING
  | EV_READ nat read_result
  | EV_WRITE_DONE nat "nat option"
  | EV_SIGINT
  | EV_SAVE_TIMEOUT "nat option"
  | EV_CHECK_SIGINT "nat option"

definition server_init :: "core \<Rightarrow> disk_file \<Rightarrow> server" where
  "server_init c disk =
     \<lparr>srv_core = c, srv_conns = [], srv_disk = disk, srv_got_sigint = False, srv_running = True,
      srv_log = []\<rparr>"

text \<open>\<^verbatim>\<open>main\<close> from \<^verbatim>\<open>db_init ()\<close> to \<^verbatim>\<open>g_main_loop_run\<close>. The process's
  language names \<open>langs\<close> and the snapshot file \<open>disk\<close> come from the
  environment.\<close>

definition udb_main :: "udb_config \<Rightarrow> string option \<Rightarrow> string list \<Rightarrow> disk_file \<Rightarrow> main_outcome" where
  "udb_main conf path langs disk =
     (case path of
        None \<Rightarrow> RUN (server_init core_init disk)
      | Some _ \<Rightarrow>
          (case db_load_from_file conf path langs disk (db_mem (core_db core_init)) of
             (Some e, t) \<Rightarrow>
               if err_code e \<noteq> G_FILE_ERROR_NOENT then EXIT (err_code e)
               else RUN (server_init (core_init\<lparr>core_db := (core_db core_init)\<lparr>db_mem := t\<rparr>\<rparr>) disk)
           | (None, t) \<Rightarrow> RUN (server_init (core_init\<lparr>core_db := (core_db core_init)\<lparr>db_mem := t\<rparr>\<rparr>) disk)))"

text \<open>\<^verbatim>\<open>g_mutex_lock (&db_mutex); db_save_to_file (&error); g_mutex_unlock (&db_mutex);\<close>
  and the logging of the error, shared by both save callbacks. \<open>wfail\<close> is the
  environment's answer to the file write.\<close>

definition save_locked :: "udb_config \<Rightarrow> string option \<Rightarrow> nat option \<Rightarrow> server \<Rightarrow> server option" where
  "save_locked conf path wfail s = do {
     m \<leftarrow> g_mutex_lock (db_mutex (core_db (srv_core s)));
     let (err, disk) = db_save_to_file conf path wfail (db_mem (core_db (srv_core s))) (srv_disk s);
     let c = srv_core s;
     Some (s\<lparr>srv_core := c\<lparr>core_db := (core_db c)\<lparr>db_mutex := g_mutex_unlock m\<rparr>\<rparr>,
             srv_disk := disk, srv_log := srv_log s @ (case err of None \<Rightarrow> [] | Some e \<Rightarrow> [e])\<rparr>)
   }"

definition on_db_save_timeout :: "udb_config \<Rightarrow> string option \<Rightarrow> nat option \<Rightarrow> server \<Rightarrow> server option" where
  "on_db_save_timeout conf path wfail s = save_locked conf path wfail s"

definition sigint_handler :: "server \<Rightarrow> server" where
  "sigint_handler s = s\<lparr>srv_got_sigint := True\<rparr>"

definition on_check_sigint :: "udb_config \<Rightarrow> string option \<Rightarrow> nat option \<Rightarrow> server \<Rightarrow> server option" where
  "on_check_sigint conf path wfail s =
     (if \<not> srv_got_sigint s then Some s
      else do {
        s' \<leftarrow> save_locked conf path wfail s;
        Some (s'\<lparr>srv_running := False\<rparr>)
      })"

text \<open>Whether the main loop can dispatch an event: reads and write completions only for
  a connection with that operation outstanding, the save timer only with a db file.\<close>

definition event_enabled :: "string option \<Rightarrow> event \<Rightarrow> server \<Rightarrow> bool" where
  "event_enabled path ev s \<longleftrightarrow> srv_running s \<and>
     (case ev of
        EV_READ i _ \<Rightarrow> i < length (srv_conns s) \<and> conn_reading (srv_conns s ! i)
      | EV_WRITE_DONE i _ \<Rightarrow> i < length (srv_conns s) \<and> conn_writing (srv_conns s ! i) \<noteq> None
      | EV_SAVE_TIMEOUT _ \<Rightarrow> path \<noteq> None
      | _ \<Rightarrow> True)"

definition server_step :: "udb_config \<Rightarrow> string option \<Rightarrow> event \<Rightarrow> server \<Rightarrow> server option" where
  "server_step conf path ev s =
     (case ev of
        EV_INCOMING \<Rightarrow> Some (s\<lparr>srv_conns := srv_conns s @ [on_incoming]\<rparr>)
      | EV_READ i res \<Rightarrow> do {
          (c', cn') \<leftarrow> on_line_read conf res (srv_core s, srv_conns s ! i);
          Some (s\<lparr>srv_core := c', srv_conns := (srv_conns s)[i := cn']\<rparr>)
        }
      | EV_WRITE_DONE i res \<Rightarrow> Some (s\<lparr>srv_conns := (srv_conns s)[i := on_write_done res (srv_conns s ! i)]\<rparr>)
      | EV_SIGINT \<Rightarrow> Some (sigint_handler s)
      | EV_SAVE_TIMEOUT wfail \<Rightarrow> on_db_save_timeout conf path wfail s
      | EV_CHECK_SIGINT wfail \<Rightarrow> on_check_sigint conf path wfail s)"

inductive server_reach :: "udb_config \<Rightarrow> string option \<Rightarrow> string list \<Rightarrow> disk_file \<Rightarrow> server \<Rightarrow> bool"
  for conf path langs disk0 where
  start: "udb_main conf path langs disk0 = RUN s \<Longrightarrow> server_reach conf path langs disk0 s"
| step: "server_reach conf path langs disk0 s \<Longrightarrow> event_enabled path ev s \<Longrightarrow>
         server_step conf path ev s = Some s' \<Longrightarrow> server_reach conf path langs disk0 s'"


subsection \<open>Startup\<close>

lemma load_keys_ghash_invar: "ghash_invar t \<Longrightarrow> ghash_invar (load_keys kf g ks t)"
proof (induction ks arbitrary: t)
  case (Cons k ks)
  show ?case
    using Cons.IH [OF Cons.prems] Cons.IH [OF ghash_invar_insert [OF Cons.prems cstr_nul_free cstr_nul_free]]
    by (simp split: option.split)
qed simp

lemma db_load_invar:
  "ghash_invar t \<Longrightarrow> ghash_invar (snd (db_load_from_file conf path langs disk t))"
  by (auto simp: db_load_from_file_def g_hash_table_remove_all_def load_keys_ghash_invar
      split: option.split sum.split)

lemma core_invar_table:
  "ghash_invar t \<Longrightarrow> core_invar (core_init\<lparr>core_db := db_init\<lparr>db_mem := t\<rparr>\<rparr>)"
  by (simp add: core_invar_def core_init_def db_invar_def db_init_def)

lemma udb_main_invar:
  assumes "udb_main conf path langs disk = RUN s"
  shows "core_invar (srv_core s)"
proof (cases path)
  case None
  with assms show ?thesis by (auto simp: udb_main_def server_init_def)
next
  case (Some p)
  obtain e t where ld: "db_load_from_file conf path langs disk (db_mem (core_db core_init)) = (e, t)"
    by fastforce
  have "ghash_invar t"
    using db_load_invar [of "db_mem (core_db core_init)" conf path langs disk] ld
    by (simp add: core_init_def db_init_def)
  with assms Some ld show ?thesis
    by (cases e) (auto simp: udb_main_def server_init_def core_invar_table split: if_splits)
qed

subsection \<open>The callbacks keep the shared state well formed and never block\<close>

lemma save_locked_ok:
  assumes "core_invar (srv_core s)"
  shows "\<exists>s'. save_locked conf path wfail s = Some s' \<and> srv_core s' = srv_core s
           \<and> srv_disk s' = snd (db_save_to_file conf path wfail (db_mem (core_db (srv_core s))) (srv_disk s))
           \<and> srv_running s' = srv_running s \<and> srv_conns s' = srv_conns s
           \<and> srv_got_sigint s' = srv_got_sigint s
           \<and> srv_log s' = srv_log s @ (case fst (db_save_to_file conf path wfail (db_mem (core_db (srv_core s))) (srv_disk s)) of None \<Rightarrow> [] | Some e \<Rightarrow> [e])"
  using assms
  by (auto simp: save_locked_def core_invar_def db_invar_def g_mutex_lock_def g_mutex_unlock_def
      case_prod_beta Let_def)

lemma server_step_ok:
  assumes "core_invar (srv_core s)" and "event_enabled path ev s"
  shows "\<exists>s'. server_step conf path ev s = Some s' \<and> core_invar (srv_core s')"
proof (cases ev)
  case (EV_READ i res)
  obtain c' cn' where "on_line_read conf res (srv_core s, srv_conns s ! i) = Some (c', cn')" "core_invar c'"
    using on_line_read_ok [OF assms(1)] by blast
  with EV_READ show ?thesis by (simp add: server_step_def)
next
  case (EV_SAVE_TIMEOUT wfail)
  with save_locked_ok [OF assms(1), of conf path wfail] assms(1) show ?thesis
    by (auto simp: server_step_def on_db_save_timeout_def)
next
  case (EV_CHECK_SIGINT wfail)
  with save_locked_ok [OF assms(1), of conf path wfail] assms(1) show ?thesis
    by (auto simp: server_step_def on_check_sigint_def)
qed (use assms(1) in \<open>simp_all add: server_step_def sigint_handler_def\<close>)

lemma server_reach_invar:
  "server_reach conf path langs disk0 s \<Longrightarrow> core_invar (srv_core s)"
proof (induction rule: server_reach.induct)
  case (start s)
  then show ?case by (rule udb_main_invar)
next
  case (step s ev s')
  then show ?case using server_step_ok [OF step.IH step.hyps(2), of conf] by auto
qed

text \<open>SIGINT in a reachable running state, then the idle check: both callbacks run, the
  loop quits, and the shared state is the same as before.\<close>

lemma sigint_then_check:
  assumes reach: "server_reach conf path langs disk0 s" and run: "srv_running s"
  shows "\<exists>s2. server_step conf path EV_SIGINT s = Some (sigint_handler s)
           \<and> event_enabled path (EV_CHECK_SIGINT w) (sigint_handler s)
           \<and> server_step conf path (EV_CHECK_SIGINT w) (sigint_handler s) = Some s2
           \<and> server_reach conf path langs disk0 s2 \<and> \<not> srv_running s2 \<and> srv_core s2 = srv_core s"
proof -
  have s1: "server_step conf path EV_SIGINT s = Some (sigint_handler s)"
    by (simp add: server_step_def)
  have e1: "event_enabled path EV_SIGINT s" using run by (simp add: event_enabled_def)
  have r1: "server_reach conf path langs disk0 (sigint_handler s)"
    using server_reach.step [OF reach e1 s1] .
  have e2: "event_enabled path (EV_CHECK_SIGINT w) (sigint_handler s)"
    using run by (simp add: event_enabled_def sigint_handler_def)
  obtain s' where s': "save_locked conf path w (sigint_handler s) = Some s'"
    "srv_core s' = srv_core s"
    using save_locked_ok [OF server_reach_invar [OF r1], of conf path w] by (auto simp: sigint_handler_def)
  have s2: "server_step conf path (EV_CHECK_SIGINT w) (sigint_handler s) = Some (s'\<lparr>srv_running := False\<rparr>)"
    using s' by (simp add: server_step_def on_check_sigint_def sigint_handler_def)
  show ?thesis
    using s1 e2 s2 s'(2) server_reach.step [OF r1 e2 s2] by auto
qed

subsection \<open>Properties of the lifecycle\<close>

text \<open>C18: no reachable state of the server blocks. In every state reachable from a
  successful startup, through any interleaving of connections, reads, writes, save timers
  and signals, the shared state is well formed. The store is well formed, both mutexes are
  free between callbacks, and every callback the main loop can dispatch returns.\<close>

theorem reachable_never_blocks:
  assumes "server_reach conf path langs disk0 s"
  shows "core_invar (srv_core s) \<and> (\<forall>ev. event_enabled path ev s \<longrightarrow> server_step conf path ev s \<noteq> None)"
  using server_reach_invar [OF assms] server_step_ok [of s path _ conf] by fastforce

theorem reachable_never_blocks_witness:
  "core_invar (srv_core (server_init core_init NO_FILE))
   \<and> event_enabled None (EV_CHECK_SIGINT None) (server_init core_init NO_FILE)
   \<and> server_step \<lparr>UDB_MAX_KEY_LENGTH = 255, UDB_DB_SECTION = ''udb''\<rparr> None (EV_CHECK_SIGINT None)
         (server_init core_init NO_FILE) \<noteq> None"
proof -
  have "udb_main \<lparr>UDB_MAX_KEY_LENGTH = 255, UDB_DB_SECTION = ''udb''\<rparr> None [] NO_FILE = RUN (server_init core_init NO_FILE)"
    by (simp add: udb_main_def)
  moreover have "event_enabled None (EV_CHECK_SIGINT None) (server_init core_init NO_FILE)"
    by (simp add: event_enabled_def server_init_def)
  ultimately show ?thesis
    using reachable_never_blocks [OF server_reach.start] by blast
qed

text \<open>C19: startup without a snapshot file runs. With \<^verbatim>\<open>--db-file\<close> naming a file that
  does not exist, \<^verbatim>\<open>db_load_from_file\<close> fails with \<^verbatim>\<open>G_FILE_ERROR_NOENT\<close>.
  \<^verbatim>\<open>main\<close> ignores that error and runs with an empty store.\<close>

theorem startup_without_snapshot:
  "udb_main conf (Some p) langs NO_FILE = RUN (server_init core_init NO_FILE)"
  by (simp add: udb_main_def db_load_from_file_def g_key_file_load_from_file_def file_error_def
      core_init_def db_init_def)

text \<open>C20: the shutdown snapshot restores the store at the next start. From any
  reachable state with the signal flag raised, \<^verbatim>\<open>on_check_sigint\<close> saves the table and
  stops the loop. A later startup from the file written then finds the same store. This
  needs the save to succeed, the table to be non-empty, and every pair to be one the format
  carries.\<close>

theorem restart_restores_store:
  assumes reach: "server_reach conf (Some p) langs disk0 s" and sig: "srv_got_sigint s"
    and g: "g_key_file_is_group_name (UDB_DB_SECTION conf)"
    and ne: "db_mem (core_db (srv_core s)) \<noteq> []"
    and ok: "\<forall>(k, v) \<in> set (db_mem (core_db (srv_core s))). snapshot_key k \<and> snapshot_value v"
  shows "\<exists>s' s2. on_check_sigint conf (Some p) None s = Some s' \<and> \<not> srv_running s'
           \<and> udb_main conf (Some p) langs' (srv_disk s') = RUN s2
           \<and> store_abs (core_db (srv_core s2)) = store_abs (core_db (srv_core s))"
proof -
  let ?t = "db_mem (core_db (srv_core s))"
  have inv: "core_invar (srv_core s)" using server_reach_invar [OF reach] .
  then have gi: "ghash_invar ?t" by (simp add: core_invar_def db_invar_def)
  have keys: "\<forall>(k, v) \<in> set ?t. snapshot_key k" using ok by auto
  obtain s' where s': "save_locked conf (Some p) None s = Some s'"
    "srv_disk s' = REGULAR (''['' @ UDB_DB_SECTION conf @ '']'' @ [LF] @ kf_pairs_data (escaped_table ?t))"
    using save_locked_ok [OF inv, of conf "Some p" None] save_data [OF g gi ne keys, of p "srv_disk s"]
    by auto
  obtain t' where t': "db_load_from_file conf (Some p) langs' (srv_disk s') [] = (None, t')"
    "map_of t' = map_of ?t"
    using load_data [OF g gi ok, of p langs' "[]"] s'(2) by auto
  have "udb_main conf (Some p) langs' (srv_disk s') =
      RUN (server_init (core_init\<lparr>core_db := db_init\<lparr>db_mem := t'\<rparr>\<rparr>) (srv_disk s'))"
    using t' by (simp add: udb_main_def core_init_def db_init_def)
  then show ?thesis
    using s' t' sig by (simp add: on_check_sigint_def server_init_def store_abs_def)
qed

theorem restart_restores_store_witness:
  "\<exists>s' s2. on_check_sigint \<lparr>UDB_MAX_KEY_LENGTH = 255, UDB_DB_SECTION = ''udb''\<rparr> (Some ''db.ini'') None
       (sigint_handler (server_init (core_init\<lparr>core_db := db_init\<lparr>db_mem := [(''name'', ''Alice'')]\<rparr>\<rparr>)
          (REGULAR (''[udb]'' @ [LF] @ ''name=Alice'' @ [LF])))) = Some s' \<and> \<not> srv_running s'
     \<and> udb_main \<lparr>UDB_MAX_KEY_LENGTH = 255, UDB_DB_SECTION = ''udb''\<rparr> (Some ''db.ini'') [] (srv_disk s') = RUN s2
     \<and> store_abs (core_db (srv_core s2)) = [''name'' \<mapsto> ''Alice'']"
proof -
  let ?conf = "\<lparr>UDB_MAX_KEY_LENGTH = 255, UDB_DB_SECTION = ''udb''\<rparr>"
  let ?d = "REGULAR (''[udb]'' @ [LF] @ ''name=Alice'' @ [LF])"
  let ?s0 = "server_init (core_init\<lparr>core_db := db_init\<lparr>db_mem := [(''name'', ''Alice'')]\<rparr>\<rparr>) ?d"
  have "udb_main ?conf (Some ''db.ini'') [] ?d = RUN ?s0"
    by (simp add: udb_main_def db_load_from_file_def g_key_file_load_from_file_def
      g_key_file_load_from_data_def g_key_file_new_def g_key_file_parse_line_def line_is_comment_def
      line_is_group_def line_is_key_value_pair_def g_key_file_parse_group_def
      g_key_file_parse_key_value_pair_def g_key_file_is_group_name_def g_ascii_iscntrl_def
      g_key_file_is_key_name_def g_ascii_isspace_def g_ascii_strcasecmp_eq_def ascii_tolower_def
      strip_cr_def eq_char_of char_of_eq Let_def core_init_def db_init_def key_get_locale_def
      kf_add_pair_def g_key_file_get_keys_def g_key_file_get_string_def g_key_file_get_value_def
      g_utf8_validate_def utf8_next_def g_hash_table_remove_all_def cstr_def)
  then have r0: "server_reach ?conf (Some ''db.ini'') [] ?d ?s0" by (rule server_reach.start)
  have r1: "server_reach ?conf (Some ''db.ini'') [] ?d (sigint_handler ?s0)"
    by (rule server_reach.step [OF r0, of EV_SIGINT])
       (simp_all add: event_enabled_def server_step_def server_init_def)
  have "g_key_file_is_group_name (UDB_DB_SECTION ?conf)"
    by (simp add: g_key_file_is_group_name_def g_ascii_iscntrl_def)
  moreover have "\<forall>(k, v) \<in> set [(''name'', ''Alice'')]. snapshot_key k \<and> snapshot_value v"
    by (simp add: snapshot_key_def snapshot_value_def g_key_file_is_key_name_def g_ascii_isspace_def
      g_utf8_validate_def utf8_next_def)
  ultimately show ?thesis
    using restart_restores_store [OF r1, of "[]"]
    by (simp add: sigint_handler_def server_init_def core_init_def db_init_def store_abs_def)
qed

text \<open>C21: a failed periodic save is only logged. When the file write fails with a
  \<^verbatim>\<open>GFileError\<close> code, \<^verbatim>\<open>on_db_save_timeout\<close> leaves the file as it was and logs
  the error. The store, the connections and the main loop are unchanged.\<close>

theorem save_failure_logged:
  assumes "core_invar (srv_core s)"
  shows "\<exists>s'. on_db_save_timeout conf (Some p) (Some code) s = Some s'
           \<and> srv_disk s' = srv_disk s \<and> srv_log s' = srv_log s @ [file_error code]
           \<and> srv_core s' = srv_core s \<and> srv_conns s' = srv_conns s \<and> srv_running s' = srv_running s"
  using save_locked_ok [OF assms, of conf "Some p" "Some code"]
  by (auto simp: on_db_save_timeout_def db_save_to_file_def g_file_set_contents_def Let_def)

theorem save_failure_logged_witness:
  "\<exists>s'. on_db_save_timeout \<lparr>UDB_MAX_KEY_LENGTH = 255, UDB_DB_SECTION = ''udb''\<rparr> (Some ''db.ini'') (Some 12)
          (server_init core_init NO_FILE) = Some s'
     \<and> srv_disk s' = NO_FILE \<and> srv_log s' = [] @ [file_error 12]
     \<and> srv_core s' = core_init \<and> srv_conns s' = [] \<and> srv_running s' = True"
  using save_failure_logged [of "server_init core_init NO_FILE"] by (simp add: server_init_def)

text \<open>C22: a snapshot holding the key \<^verbatim>\<open>Encoding\<close> stops the start with exit
  status 0. Take any file whose first group, under any valid name, holds lines the format
  carries and then a line \<^verbatim>\<open>Encoding=\<close> whose value, after the blanks the parser
  skips, is not \<^verbatim>\<open>UTF-8\<close> in any ASCII case; anything may follow. Loading it fails with
  \<^verbatim>\<open>G_KEY_FILE_ERROR_UNKNOWN_ENCODING\<close>, code 0, which \<^verbatim>\<open>main\<close> does not treat as
  "not found". It returns \<^verbatim>\<open>error->code\<close>, i.e. 0, the status of success.\<close>

theorem startup_encoding_exits_zero:
  assumes g: "g_key_file_is_group_name g" and qs: "list_all pair_line_ok qs"
    and ev: "nul_free ev" "LF \<notin> set ev" "CR \<notin> set ev"
    and enc: "\<not> g_ascii_strcasecmp_eq (dropWhile g_ascii_isspace ev) ''UTF-8''"
  shows "udb_main conf (Some p) langs
           (REGULAR (''['' @ g @ '']'' @ [LF] @ kf_pairs_data qs @ ''Encoding='' @ ev @ LF # rest)) = EXIT 0"
  using load_encoding [OF g qs ev enc, of langs rest]
  by (simp add: udb_main_def db_load_from_file_def g_key_file_load_from_file_def kf_error_def)

theorem startup_encoding_exits_zero_witness:
  "udb_main \<lparr>UDB_MAX_KEY_LENGTH = 255, UDB_DB_SECTION = ''udb''\<rparr> (Some ''db.ini'') [''C'']
      (REGULAR (''['' @ ''cache'' @ '']'' @ [LF] @ kf_pairs_data [(''name'', ''Alice'')]
                @ ''Encoding='' @ '' latin1'' @ LF # ''x=1'' @ [LF])) = EXIT 0"
  using startup_encoding_exits_zero [of "''cache''" "[(''name'', ''Alice'')]" "'' latin1''"
      "\<lparr>UDB_MAX_KEY_LENGTH = 255, UDB_DB_SECTION = ''udb''\<rparr>" "''db.ini''" "[''C'']" "''x=1'' @ [LF]"]
  by (simp add: g_key_file_is_group_name_def g_ascii_iscntrl_def pair_line_ok_def snapshot_key_def
      g_key_file_is_key_name_def g_ascii_isspace_def g_ascii_strcasecmp_eq_def ascii_tolower_def)

text \<open>C23: spec scenario 6 starts with an empty store. A snapshot file holding just
  \<^verbatim>\<open>key1=hello\<close> fails to load with \<^verbatim>\<open>G_KEY_FILE_ERROR_GROUP_NOT_FOUND\<close>. Its
  code 4 equals \<^verbatim>\<open>G_FILE_ERROR_NOENT\<close>, so \<^verbatim>\<open>main\<close> goes on as if there were no
  file, and \<^verbatim>\<open>key1\<close> is not in the store.\<close>

theorem startup_bare_key_file:
  "udb_main conf (Some p) langs (REGULAR ''key1=hello'') = RUN (server_init core_init (REGULAR ''key1=hello''))
   \<and> store_abs (core_db core_init) ''key1'' = None"
  by (simp add: udb_main_def db_load_from_file_def g_key_file_load_from_file_def
      g_key_file_load_from_data_def g_key_file_new_def g_key_file_parse_line_def line_is_comment_def
      line_is_group_def line_is_key_value_pair_def g_key_file_parse_key_value_pair_def
      g_ascii_isspace_def Let_def kf_error_def core_init_def db_init_def store_abs_def)

text \<open>C25: a shutdown signal always ends the main loop. In every reachable running state,
  \<^verbatim>\<open>SIGINT\<close> sets the flag. The next \<^verbatim>\<open>on_check_sigint\<close> is then ready and
  returns, whatever the save's outcome. The state it leaves is reachable and stopped, and
  no callback runs after it.\<close>

theorem sigint_stops_server:
  assumes reach: "server_reach conf path langs disk0 s" and run: "srv_running s"
  shows "\<exists>s1 s2. server_step conf path EV_SIGINT s = Some s1
           \<and> event_enabled path (EV_CHECK_SIGINT w) s1
           \<and> server_step conf path (EV_CHECK_SIGINT w) s1 = Some s2
           \<and> server_reach conf path langs disk0 s2 \<and> \<not> srv_running s2
           \<and> (\<forall>ev. \<not> event_enabled path ev s2)"
  using sigint_then_check [OF reach run, of w] by (auto simp: event_enabled_def)

theorem sigint_stops_server_witness:
  "\<exists>s1 s2. server_step \<lparr>UDB_MAX_KEY_LENGTH = 255, UDB_DB_SECTION = ''udb''\<rparr> None EV_SIGINT
              (server_init core_init NO_FILE) = Some s1
     \<and> event_enabled None (EV_CHECK_SIGINT None) s1
     \<and> server_step \<lparr>UDB_MAX_KEY_LENGTH = 255, UDB_DB_SECTION = ''udb''\<rparr> None (EV_CHECK_SIGINT None) s1 = Some s2
     \<and> server_reach \<lparr>UDB_MAX_KEY_LENGTH = 255, UDB_DB_SECTION = ''udb''\<rparr> None [] NO_FILE s2
     \<and> \<not> srv_running s2 \<and> (\<forall>ev. \<not> event_enabled None ev s2)"
proof -
  have "server_reach \<lparr>UDB_MAX_KEY_LENGTH = 255, UDB_DB_SECTION = ''udb''\<rparr> None [] NO_FILE
          (server_init core_init NO_FILE)"
    by (rule server_reach.start) (simp add: udb_main_def)
  moreover have "srv_running (server_init core_init NO_FILE)" by (simp add: server_init_def)
  ultimately show ?thesis by (rule sigint_stops_server)
qed

end
