(* ===== verification/Startup.thy ===== *)
theory Startup
  imports Server
begin

text \<open>
  The start and the end of \<^verbatim>\<open>main\<close>: the command line, the socket service, and the
  exit after the main loop.
  \<^item> Options: \<^verbatim>\<open>cmd_entries\<close> (lines 13--31) declares \<^verbatim>\<open>--socket-path/-p\<close>, a
    string stored in \<^verbatim>\<open>socket_path\<close>, and \<^verbatim>\<open>--db-file/-f\<close>, a file name
    stored in \<^verbatim>\<open>db_file_path\<close>.
  \<^item> Parsing: GLib's \<^verbatim>\<open>g_option_context_parse\<close> is modelled from its documented
    behaviour for such entries (\<open>g_option_parse\<close>):
    \<^item> forms: \<^verbatim>\<open>--name=value\<close>, \<^verbatim>\<open>--name value\<close> and \<^verbatim>\<open>-c value\<close>;
    \<^item> short groups: several short options in one argument take at most one value;
    \<^item> help: \<^verbatim>\<open>--help\<close>, \<^verbatim>\<open>--help-all\<close>, \<^verbatim>\<open>-h\<close> and \<^verbatim>\<open>-?\<close> print
      the help and exit with status 0;
    \<^item> \<^verbatim>\<open>--\<close> ends the options, other arguments are left alone, and a repeated
      option keeps its last value.
  \<^item> Errors: an unknown option is \<^verbatim>\<open>G_OPTION_ERROR_UNKNOWN_OPTION\<close> (0), a missing
    value \<^verbatim>\<open>G_OPTION_ERROR_BAD_VALUE\<close> (1), and a second value in one short group
    \<^verbatim>\<open>G_OPTION_ERROR_FAILED\<close> (2). A string value that is not UTF-8 fails the
    conversion to UTF-8 with \<^verbatim>\<open>G_CONVERT_ERROR_ILLEGAL_SEQUENCE\<close> (1); the process
    runs in a UTF-8 locale. A file name is taken as it is.
  \<^item> Startup: \<open>udb_start\<close> is \<^verbatim>\<open>main\<close> from the parse to the main loop. The
    environment gives the socket service (\<^verbatim>\<open>g_socket_service_new\<close>, never
    \<^verbatim>\<open>NULL\<close> in GLib, but the code tests it) and the outcome of binding the path after
    \<^verbatim>\<open>unlink\<close>. Every \<^verbatim>\<open>return error->code\<close> is an exit status.
  \<^item> Exit: \<open>main_exit\<close> is the end of \<^verbatim>\<open>main\<close> after the loop has quit.
\<close>

datatype opt_arg = G_OPTION_ARG_STRING | G_OPTION_ARG_FILENAME

datatype opt_target = SOCKET_PATH | DB_FILE_PATH

record option_entry =
  long_name :: string
  short_name :: char
  opt_arg :: opt_arg
  arg_data :: opt_target

text \<open>The globals \<^verbatim>\<open>socket_path\<close> and \<^verbatim>\<open>db_file_path\<close> the options write.\<close>

record cli_opts =
  socket_path :: string
  db_file_path :: "string option"

text \<open>The two entries of \<^verbatim>\<open>cmd_entries\<close>, and the array up to
  \<^verbatim>\<open>G_OPTION_ENTRY_NULL\<close>.\<close>

definition socket_path_entry :: option_entry where
  "socket_path_entry =
     \<lparr>long_name = ''socket-path'', short_name = CHR ''p'', opt_arg = G_OPTION_ARG_STRING,
      arg_data = SOCKET_PATH\<rparr>"

definition db_file_entry :: option_entry where
  "db_file_entry =
     \<lparr>long_name = ''db-file'', short_name = CHR ''f'', opt_arg = G_OPTION_ARG_FILENAME,
      arg_data = DB_FILE_PATH\<rparr>"

definition cmd_entries :: "option_entry list" where
  "cmd_entries = [socket_path_entry, db_file_entry]"

text \<open>\<^verbatim>\<open>char* socket_path = UDB_SOCKET_PATH_DEFAULT; char* db_file_path = NULL;\<close>\<close>

definition cli_defaults :: "string \<Rightarrow> cli_opts" where
  "cli_defaults dflt = \<lparr>socket_path = dflt, db_file_path = None\<rparr>"

abbreviation G_OPTION_ERROR_UNKNOWN_OPTION :: nat where "G_OPTION_ERROR_UNKNOWN_OPTION \<equiv> 0"
abbreviation G_OPTION_ERROR_BAD_VALUE :: nat where "G_OPTION_ERROR_BAD_VALUE \<equiv> 1"
abbreviation G_OPTION_ERROR_FAILED :: nat where "G_OPTION_ERROR_FAILED \<equiv> 2"
abbreviation G_CONVERT_ERROR_ILLEGAL_SEQUENCE :: nat where "G_CONVERT_ERROR_ILLEGAL_SEQUENCE \<equiv> 1"

definition option_error :: "nat \<Rightarrow> gerror" where
  "option_error code = \<lparr>err_domain = G_OPTION_ERROR, err_code = code\<rparr>"

text \<open>Why the parse stopped: the help was asked for, or an error.\<close>

datatype opt_stop = OPT_HELP | OPT_ERROR gerror

text \<open>\<^verbatim>\<open>parse_arg\<close>: store the value of an entry in its \<^verbatim>\<open>arg_data\<close>.\<close>

definition parse_arg :: "option_entry \<Rightarrow> string \<Rightarrow> cli_opts \<Rightarrow> opt_stop + cli_opts" where
  "parse_arg e v opts =
     (if opt_arg e = G_OPTION_ARG_STRING \<and> \<not> g_utf8_validate v then
        Inl (OPT_ERROR \<lparr>err_domain = G_CONVERT_ERROR, err_code = G_CONVERT_ERROR_ILLEGAL_SEQUENCE\<rparr>)
      else Inr (case arg_data e of SOCKET_PATH \<Rightarrow> opts\<lparr>socket_path := v\<rparr>
                                | DB_FILE_PATH \<Rightarrow> opts\<lparr>db_file_path := Some v\<rparr>))"

text \<open>\<^verbatim>\<open>parse_short_option\<close> over the characters of one argument \<^verbatim>\<open>-cs\<close>: the
  first entry that takes a value takes the next argument; \<open>taken\<close> says whether it has
  been taken.\<close>

fun parse_short :: "option_entry list \<Rightarrow> string \<Rightarrow> bool \<Rightarrow> string list \<Rightarrow> cli_opts \<Rightarrow>
    opt_stop + cli_opts \<times> bool" where
  "parse_short es [] taken rest opts = Inr (opts, taken)"
| "parse_short es (c # cs) taken rest opts =
     (if c = CHR ''h'' \<or> c = CHR ''?'' then Inl OPT_HELP
      else case find (\<lambda>e. short_name e = c) es of
        None \<Rightarrow> Inl (OPT_ERROR (option_error G_OPTION_ERROR_UNKNOWN_OPTION))
      | Some e \<Rightarrow>
          if taken then Inl (OPT_ERROR (option_error G_OPTION_ERROR_FAILED))
          else (case rest of
                  [] \<Rightarrow> Inl (OPT_ERROR (option_error G_OPTION_ERROR_BAD_VALUE))
                | v # _ \<Rightarrow> (case parse_arg e v opts of
                              Inl err \<Rightarrow> Inl err
                            | Inr opts' \<Rightarrow> parse_short es cs True rest opts')))"

text \<open>\<^verbatim>\<open>g_option_context_parse\<close> on the arguments after \<^verbatim>\<open>argv[0]\<close>.\<close>

fun g_option_parse :: "option_entry list \<Rightarrow> string list \<Rightarrow> cli_opts \<Rightarrow> opt_stop + cli_opts" where
  "g_option_parse es [] opts = Inr opts"
| "g_option_parse es (a # rest) opts =
     (if a = ''--'' then Inr opts
      else if take 2 a = ''--'' then
        (let body = drop 2 a; name = takeWhile (\<lambda>c. c \<noteq> CHR ''='') body in
         if name = ''help'' \<or> name = ''help-all'' then Inl OPT_HELP
         else case find (\<lambda>e. long_name e = name) es of
           None \<Rightarrow> Inl (OPT_ERROR (option_error G_OPTION_ERROR_UNKNOWN_OPTION))
         | Some e \<Rightarrow>
             if CHR ''='' \<in> set body then
               (case parse_arg e (tl (dropWhile (\<lambda>c. c \<noteq> CHR ''='') body)) opts of
                  Inl err \<Rightarrow> Inl err
                | Inr opts' \<Rightarrow> g_option_parse es rest opts')
             else (case rest of
                     [] \<Rightarrow> Inl (OPT_ERROR (option_error G_OPTION_ERROR_BAD_VALUE))
                   | v # rest' \<Rightarrow> (case parse_arg e v opts of
                                    Inl err \<Rightarrow> Inl err
                                  | Inr opts' \<Rightarrow> g_option_parse es rest' opts')))
      else if a \<noteq> [] \<and> hd a = CHR ''-'' \<and> tl a \<noteq> [] then
        (case parse_short es (tl a) False rest opts of
           Inl err \<Rightarrow> Inl err
         | Inr (opts', taken) \<Rightarrow> g_option_parse es (if taken then tl rest else rest) opts')
      else g_option_parse es rest opts)"

text \<open>Arguments that are not options (no leading \<^verbatim>\<open>-\<close>, or just \<^verbatim>\<open>-\<close>) are
  skipped by the parse.\<close>

definition plain_arg :: "string \<Rightarrow> bool" where
  "plain_arg a \<longleftrightarrow> a = [] \<or> hd a \<noteq> CHR ''-'' \<or> a = ''-''"

text \<open>How the process ends: with an exit status, or by reading through the \<^verbatim>\<open>NULL\<close>
  \<^verbatim>\<open>error\<close> pointer in the branch for a failed \<^verbatim>\<open>g_socket_service_new\<close>.\<close>

datatype process_end = EXIT_STATUS nat | NULL_DEREF

text \<open>\<^verbatim>\<open>main\<close> up to \<^verbatim>\<open>g_main_loop_run\<close>: the socket path and the running
  server, or the end of the process. \<open>svc_ok\<close> is whether
  \<^verbatim>\<open>g_socket_service_new\<close> returned a service, \<open>bind_err\<close> the \<^verbatim>\<open>GIOError\<close> code
  of \<^verbatim>\<open>g_socket_listener_add_address\<close> for a path, if it fails.\<close>

definition udb_start :: "udb_config \<Rightarrow> string \<Rightarrow> string list \<Rightarrow> bool \<Rightarrow> (string \<Rightarrow> nat option) \<Rightarrow>
    string list \<Rightarrow> disk_file \<Rightarrow> process_end + string \<times> server" where
  "udb_start conf dflt argv svc_ok bind_err langs disk =
     (case g_option_parse cmd_entries argv (cli_defaults dflt) of
        Inl OPT_HELP \<Rightarrow> Inl (EXIT_STATUS 0)
      | Inl (OPT_ERROR e) \<Rightarrow> Inl (EXIT_STATUS (err_code e))
      | Inr opts \<Rightarrow>
          if \<not> svc_ok then Inl NULL_DEREF
          else (case bind_err (socket_path opts) of
                  Some code \<Rightarrow> Inl (EXIT_STATUS code)
                | None \<Rightarrow> (case udb_main conf (db_file_path opts) langs disk of
                            EXIT n \<Rightarrow> Inl (EXIT_STATUS n)
                          | RUN s \<Rightarrow> Inr (socket_path opts, s))))"

text \<open>After \<^verbatim>\<open>g_main_loop_run\<close> returns: \<^verbatim>\<open>g_main_loop_unref\<close>,
  \<^verbatim>\<open>g_mutex_clear (&db_mutex)\<close>, \<^verbatim>\<open>g_hash_table_destroy (db_mem)\<close> and
  \<^verbatim>\<open>return EXIT_SUCCESS\<close>, the body of \<open>db_deinit\<close> written out. The loop returns
  only once it has quit.\<close>

definition main_exit :: "server \<Rightarrow> process_end option" where
  "main_exit s =
     (if srv_running s then None
      else do {
        _ \<leftarrow> g_mutex_clear (db_mutex (core_db (srv_core s)));
        Some (EXIT_STATUS 0)
      })"


subsection \<open>Parsing the command line\<close>

lemma parse_db_file [simp]: "parse_arg (db_file_entry) v opts = Inr (opts\<lparr>db_file_path := Some v\<rparr>)"
  by (simp add: db_file_entry_def socket_path_entry_def parse_arg_def)

lemma parse_socket_path:
  "parse_arg (socket_path_entry) v opts =
     (if g_utf8_validate v then Inr (opts\<lparr>socket_path := v\<rparr>)
      else Inl (OPT_ERROR \<lparr>err_domain = G_CONVERT_ERROR, err_code = G_CONVERT_ERROR_ILLEGAL_SEQUENCE\<rparr>))"
  by (simp add: db_file_entry_def socket_path_entry_def parse_arg_def)

lemma find_long_entries [simp]:
  "find (\<lambda>e. long_name e = ''socket-path'') cmd_entries = Some (socket_path_entry)"
  "find (\<lambda>e. long_name e = ''db-file'') cmd_entries = Some (db_file_entry)"
  by (simp_all add: cmd_entries_def socket_path_entry_def db_file_entry_def)

lemma find_short_entries [simp]:
  "find (\<lambda>e. short_name e = CHR ''p'') cmd_entries = Some (socket_path_entry)"
  "find (\<lambda>e. short_name e = CHR ''f'') cmd_entries = Some (db_file_entry)"
  by (simp_all add: cmd_entries_def socket_path_entry_def db_file_entry_def)

lemma find_long_none:
  "name \<noteq> ''socket-path'' \<Longrightarrow> name \<noteq> ''db-file'' \<Longrightarrow> find (\<lambda>e. long_name e = name) cmd_entries = None"
  by (auto simp: cmd_entries_def socket_path_entry_def db_file_entry_def)

lemma long_option_split:
  "CHR ''='' \<notin> set name \<Longrightarrow>
   takeWhile (\<lambda>c. c \<noteq> CHR ''='') (name @ CHR ''='' # v) = name
   \<and> tl (dropWhile (\<lambda>c. c \<noteq> CHR ''='') (name @ CHR ''='' # v)) = v"
  by (induction name) auto

lemma long_option_plain:
  "CHR ''='' \<notin> set name \<Longrightarrow> takeWhile (\<lambda>c. c \<noteq> CHR ''='') name = name"
  by (induction name) auto

lemma parse_plain_args:
  "list_all plain_arg ws \<Longrightarrow> g_option_parse es (ws @ rest) opts = g_option_parse es rest opts"
proof (induction ws)
  case (Cons a ws)
  then have "a \<noteq> ''--''" "take 2 a \<noteq> ''--''" "\<not> (a \<noteq> [] \<and> hd a = CHR ''-'' \<and> tl a \<noteq> [])"
    by (cases a; auto simp: plain_arg_def)+
  then have "g_option_parse es (a # ws @ rest) opts = g_option_parse es (ws @ rest) opts"
    by (simp only: g_option_parse.simps if_False simp_thms)
  with Cons show ?case by simp
qed simp

subsection \<open>Startup\<close>

lemma udb_start_parse_error:
  "g_option_parse cmd_entries argv (cli_defaults dflt) = Inl (OPT_ERROR e) \<Longrightarrow>
   udb_start conf dflt argv svc_ok bind_err langs disk = Inl (EXIT_STATUS (err_code e))"
  by (simp add: udb_start_def)

lemma udb_start_run:
  assumes "udb_start conf dflt argv svc_ok bind_err langs disk = Inr (p, s)"
  shows "\<exists>opts. g_option_parse cmd_entries argv (cli_defaults dflt) = Inr opts \<and> svc_ok
           \<and> bind_err (socket_path opts) = None \<and> p = socket_path opts
           \<and> udb_main conf (db_file_path opts) langs disk = RUN s"
  using assms
  by (auto simp: udb_start_def split: sum.splits opt_stop.splits if_splits option.splits main_outcome.splits)

subsection \<open>Properties of the command line and of the process\<close>

text \<open>C29: the three spellings of the snapshot option agree. \<^verbatim>\<open>-f F\<close>,
  \<^verbatim>\<open>--db-file F\<close> and \<^verbatim>\<open>--db-file=F\<close> each set \<^verbatim>\<open>db_file_path\<close> to
  \<open>F\<close>, with no check of \<open>F\<close>, and the parse goes on with the same remaining
  arguments.\<close>

theorem db_file_spellings:
  "g_option_parse cmd_entries (''-f'' # F # rest) opts =
     g_option_parse cmd_entries rest (opts\<lparr>db_file_path := Some F\<rparr>)
   \<and> g_option_parse cmd_entries (''--db-file'' # F # rest) opts =
     g_option_parse cmd_entries rest (opts\<lparr>db_file_path := Some F\<rparr>)
   \<and> g_option_parse cmd_entries ((''--db-file='' @ F) # rest) opts =
     g_option_parse cmd_entries rest (opts\<lparr>db_file_path := Some F\<rparr>)"
  using long_option_split [of "''db-file''" F] long_option_plain [of "''db-file''"]
  by simp

text \<open>C30: an unknown option ends the process with exit status 0. The parse fails with
  \<^verbatim>\<open>G_OPTION_ERROR_UNKNOWN_OPTION\<close>, whose code is 0, and \<^verbatim>\<open>main\<close> returns
  \<^verbatim>\<open>error->code\<close>. This holds after any plain arguments. The spec asks for a
  non-zero status on an argument-parse failure.\<close>

theorem unknown_option_exits_zero:
  assumes ws: "list_all plain_arg ws" and ne: "name \<noteq> []" and eq: "CHR ''='' \<notin> set name"
    and unknown: "name \<notin> {''socket-path'', ''db-file'', ''help'', ''help-all''}"
  shows "udb_start conf dflt (ws @ (''--'' @ name) # rest) svc_ok bind_err langs disk = Inl (EXIT_STATUS 0)"
proof -
  have "g_option_parse cmd_entries ((''--'' @ name) # rest) (cli_defaults dflt) =
      Inl (OPT_ERROR (option_error G_OPTION_ERROR_UNKNOWN_OPTION))"
  proof -
    have tw: "takeWhile (\<lambda>c. c \<noteq> CHR ''='') name = name" by (rule long_option_plain [OF eq])
    have fn: "find (\<lambda>e. long_name e = name) cmd_entries = None"
      using unknown by (intro find_long_none) auto
    show ?thesis using ne unknown by (simp add: Let_def tw fn)
  qed
  then show ?thesis
    using parse_plain_args [OF ws] by (simp add: udb_start_parse_error option_error_def)
qed

theorem unknown_option_exits_zero_witness:
  "udb_start \<lparr>UDB_MAX_KEY_LENGTH = 255, UDB_DB_SECTION = ''udb''\<rparr> ''/tmp/udb.sock''
     ([] @ (''--'' @ ''verbose'') # []) True (\<lambda>_. None) [] NO_FILE = Inl (EXIT_STATUS 0)"
  by (rule unknown_option_exits_zero) (simp_all add: plain_arg_def)

text \<open>C31: an option given last without its value ends the process with exit status 1.
  \<^verbatim>\<open>--socket-path\<close>, \<^verbatim>\<open>--db-file\<close>, \<^verbatim>\<open>-p\<close> or \<^verbatim>\<open>-f\<close> as the last
  argument is \<^verbatim>\<open>G_OPTION_ERROR_BAD_VALUE\<close>.\<close>

theorem missing_value_exits_one:
  assumes ws: "list_all plain_arg ws" and a: "a \<in> {''--socket-path'', ''--db-file'', ''-p'', ''-f''}"
  shows "udb_start conf dflt (ws @ [a]) svc_ok bind_err langs disk = Inl (EXIT_STATUS 1)"
proof -
  have "g_option_parse cmd_entries [a] (cli_defaults dflt) =
      Inl (OPT_ERROR (option_error G_OPTION_ERROR_BAD_VALUE))"
    using a long_option_plain [of "''socket-path''"] long_option_plain [of "''db-file''"] by auto
  then show ?thesis
    using parse_plain_args [OF ws] by (simp add: udb_start_parse_error option_error_def)
qed

theorem missing_value_exits_one_witness:
  "udb_start \<lparr>UDB_MAX_KEY_LENGTH = 255, UDB_DB_SECTION = ''udb''\<rparr> ''/tmp/udb.sock''
     ([''extra''] @ [''--db-file'']) True (\<lambda>_. None) [] NO_FILE = Inl (EXIT_STATUS 1)"
  by (rule missing_value_exits_one) (simp_all add: plain_arg_def)

text \<open>C32: a socket path must be UTF-8 and a file name need not be. \<^verbatim>\<open>-p v\<close> with
  bytes \<open>v\<close> that are not UTF-8 fails the conversion of the string option and ends the
  process with exit status 1. \<^verbatim>\<open>-f v\<close> with the same bytes is accepted as the db
  file.\<close>

theorem socket_path_must_be_utf8:
  assumes "\<not> g_utf8_validate v"
  shows "udb_start conf dflt [''-p'', v] svc_ok bind_err langs disk = Inl (EXIT_STATUS 1)
    \<and> g_option_parse cmd_entries [''-f'', v] (cli_defaults dflt) = Inr \<lparr>socket_path = dflt, db_file_path = Some v\<rparr>"
  using assms by (simp add: udb_start_def parse_socket_path cli_defaults_def)

theorem socket_path_must_be_utf8_witness:
  "udb_start \<lparr>UDB_MAX_KEY_LENGTH = 255, UDB_DB_SECTION = ''udb''\<rparr> ''/tmp/udb.sock'' [''-p'', [CHR 0xFF]] True
     (\<lambda>_. None) [] NO_FILE = Inl (EXIT_STATUS 1)
   \<and> g_option_parse cmd_entries [''-f'', [CHR 0xFF]] (cli_defaults ''/tmp/udb.sock'') =
       Inr \<lparr>socket_path = ''/tmp/udb.sock'', db_file_path = Some [CHR 0xFF]\<rparr>"
  by (rule socket_path_must_be_utf8) (simp add: g_utf8_validate_def utf8_next_def)

text \<open>C33: a clean shutdown ends the process with exit status 0. After a successful
  start, SIGINT in any reachable running state leads to exit status 0. The idle check
  saves the table and quits the loop, whatever the save's outcome, and \<^verbatim>\<open>main\<close> then
  clears the free \<^verbatim>\<open>db_mutex\<close>, frees the table and returns
  \<^verbatim>\<open>EXIT_SUCCESS\<close>.\<close>

theorem clean_shutdown_exits_zero:
  assumes start: "udb_start conf dflt argv svc_ok bind_err langs disk = Inr (p, s0)"
    and opts: "g_option_parse cmd_entries argv (cli_defaults dflt) = Inr opts"
  shows "server_reach conf (db_file_path opts) langs disk s0
    \<and> (\<forall>s. server_reach conf (db_file_path opts) langs disk s \<longrightarrow> srv_running s \<longrightarrow>
         (\<exists>s2. server_step conf (db_file_path opts) EV_SIGINT s = Some (sigint_handler s)
               \<and> server_step conf (db_file_path opts) (EV_CHECK_SIGINT w) (sigint_handler s) = Some s2
               \<and> main_exit s2 = Some (EXIT_STATUS 0)))"
proof (intro conjI allI impI)
  show "server_reach conf (db_file_path opts) langs disk s0"
    using udb_start_run [OF start] opts by (auto intro: server_reach.start)
next
  fix s assume reach: "server_reach conf (db_file_path opts) langs disk s" and run: "srv_running s"
  obtain s2 where s2: "server_step conf (db_file_path opts) EV_SIGINT s = Some (sigint_handler s)"
    "server_step conf (db_file_path opts) (EV_CHECK_SIGINT w) (sigint_handler s) = Some s2"
    "\<not> srv_running s2" "srv_core s2 = srv_core s"
    using sigint_then_check [OF reach run, of w] by blast
  have "\<not> db_mutex (core_db (srv_core s))"
    using server_reach_invar [OF reach] by (simp add: core_invar_def db_invar_def)
  with s2 show "\<exists>s2. server_step conf (db_file_path opts) EV_SIGINT s = Some (sigint_handler s)
               \<and> server_step conf (db_file_path opts) (EV_CHECK_SIGINT w) (sigint_handler s) = Some s2
               \<and> main_exit s2 = Some (EXIT_STATUS 0)"
    by (auto simp: main_exit_def g_mutex_clear_def)
qed

theorem clean_shutdown_exits_zero_witness:
  "server_reach \<lparr>UDB_MAX_KEY_LENGTH = 255, UDB_DB_SECTION = ''udb''\<rparr> None [] NO_FILE
     (server_init core_init NO_FILE)
   \<and> (\<exists>s2. server_step \<lparr>UDB_MAX_KEY_LENGTH = 255, UDB_DB_SECTION = ''udb''\<rparr> None EV_SIGINT
            (server_init core_init NO_FILE) = Some (sigint_handler (server_init core_init NO_FILE))
          \<and> server_step \<lparr>UDB_MAX_KEY_LENGTH = 255, UDB_DB_SECTION = ''udb''\<rparr> None
              (EV_CHECK_SIGINT (Some 28)) (sigint_handler (server_init core_init NO_FILE)) = Some s2
          \<and> main_exit s2 = Some (EXIT_STATUS 0))"
proof -
  have opts: "g_option_parse cmd_entries [] (cli_defaults ''/tmp/udb.sock'') =
      Inr \<lparr>socket_path = ''/tmp/udb.sock'', db_file_path = None\<rparr>"
    by (simp add: cli_defaults_def)
  have start: "udb_start \<lparr>UDB_MAX_KEY_LENGTH = 255, UDB_DB_SECTION = ''udb''\<rparr> ''/tmp/udb.sock'' [] True
      (\<lambda>_. None) [] NO_FILE = Inr (''/tmp/udb.sock'', server_init core_init NO_FILE)"
    by (simp add: udb_start_def opts udb_main_def cli_defaults_def)
  show ?thesis
    using clean_shutdown_exits_zero [OF start opts, of "Some 28"] by (simp add: server_init_def)
qed

text \<open>C34: the store the process starts with is the snapshot's section, as a well-typed
  table. After a successful start with \<^verbatim>\<open>--db-file\<close>, from a file that loads and has the
  group \<^verbatim>\<open>UDB_DB_SECTION\<close>, the table maps each key of that group, in file order, to the
  string \<^verbatim>\<open>g_key_file_get_string\<close> returns for it (both cut at a NUL, as C strings),
  skipping keys whose value does not read as a string; a later key replaces an earlier
  equal one. Its keys are distinct, every key and value is NUL-free, and both mutexes
  are free.\<close>

theorem started_store_typed:
  assumes start: "udb_start conf dflt argv svc_ok bind_err langs disk = Inr (p, s)"
    and parse: "g_option_parse cmd_entries argv (cli_defaults dflt) = Inr opts"
    and path: "db_file_path opts = Some f"
    and kf: "g_key_file_load_from_file langs disk = Inr kf"
    and keys: "g_key_file_get_keys kf (UDB_DB_SECTION conf) = Some ks"
  shows "distinct (map fst (db_mem (core_db (srv_core s))))
    \<and> list_all (\<lambda>(k, v). nul_free k \<and> nul_free v) (db_mem (core_db (srv_core s)))
    \<and> \<not> db_mutex (core_db (srv_core s)) \<and> \<not> scanner_mutex (srv_core s)
    \<and> store_abs (core_db (srv_core s)) =
        foldl (\<lambda>m k. case g_key_file_get_string kf (UDB_DB_SECTION conf) k of
                       None \<Rightarrow> m | Some v \<Rightarrow> m(cstr k \<mapsto> cstr v)) Map.empty ks"
proof -
  obtain o1 :: cli_opts where o1: "g_option_parse cmd_entries argv (cli_defaults dflt) = Inr o1"
    "udb_main conf (db_file_path o1) langs disk = RUN s"
    using udb_start_run [OF start] by blast
  have "o1 = opts" using o1(1) parse by simp
  then have run: "udb_main conf (Some f) langs disk = RUN s" using o1(2) path by simp
  then have "core_invar (srv_core s)" by (rule udb_main_invar)
  moreover have "db_mem (core_db (srv_core s)) = load_keys kf (UDB_DB_SECTION conf) ks []"
    using run kf keys
    by (auto simp: udb_main_def db_load_from_file_def g_hash_table_remove_all_def server_init_def
        core_init_def db_init_def)
  ultimately show ?thesis
    using load_keys_abs [of kf "UDB_DB_SECTION conf" ks "[]"]
    by (simp add: core_invar_def db_invar_def ghash_invar_def store_abs_def)
qed

theorem started_store_typed_witness:
  "distinct (map fst (db_mem (core_db (srv_core (server_init
       (core_init\<lparr>core_db := db_init\<lparr>db_mem := [(''name'', ''Alice'')]\<rparr>\<rparr>) (REGULAR (''[udb]'' @ [LF] @ ''name=Alice'' @ [LF])))))))
    \<and> list_all (\<lambda>(k, v). nul_free k \<and> nul_free v) [(''name'', ''Alice'')]
    \<and> \<not> db_mutex db_init \<and> \<not> scanner_mutex core_init
    \<and> store_abs (db_init\<lparr>db_mem := [(''name'', ''Alice'')]\<rparr>) =
        foldl (\<lambda>m k. case g_key_file_get_string \<lparr>kf_groups = [(''udb'', [(''name'', ''Alice'')])], kf_current = Some ''udb''\<rparr>
                                 ''udb'' k of None \<Rightarrow> m | Some v \<Rightarrow> m(cstr k \<mapsto> cstr v)) Map.empty [''name'']"
proof -
  let ?conf = "\<lparr>UDB_MAX_KEY_LENGTH = 255, UDB_DB_SECTION = ''udb''\<rparr>"
  let ?d = "REGULAR (''[udb]'' @ [LF] @ ''name=Alice'' @ [LF])"
  let ?kf = "\<lparr>kf_groups = [(''udb'', [(''name'', ''Alice'')])], kf_current = Some ''udb''\<rparr>"
  let ?s = "server_init (core_init\<lparr>core_db := db_init\<lparr>db_mem := [(''name'', ''Alice'')]\<rparr>\<rparr>) ?d"
  have kf: "g_key_file_load_from_file [] ?d = Inr ?kf"
    by (simp add: g_key_file_load_from_file_def
      g_key_file_load_from_data_def g_key_file_new_def g_key_file_parse_line_def line_is_comment_def
      line_is_group_def line_is_key_value_pair_def g_key_file_parse_group_def
      g_key_file_parse_key_value_pair_def g_key_file_is_group_name_def g_ascii_iscntrl_def
      g_key_file_is_key_name_def g_ascii_isspace_def g_ascii_strcasecmp_eq_def ascii_tolower_def
      strip_cr_def eq_char_of char_of_eq Let_def key_get_locale_def kf_add_pair_def)
  have keys: "g_key_file_get_keys ?kf (UDB_DB_SECTION ?conf) = Some [''name'']"
    by (simp add: g_key_file_get_keys_def)
  have "udb_main ?conf (Some ''db.ini'') [] ?d = RUN ?s"
    using kf keys
    by (simp add: udb_main_def db_load_from_file_def core_init_def db_init_def
      g_key_file_get_string_def g_key_file_get_value_def
      g_utf8_validate_def utf8_next_def g_hash_table_remove_all_def cstr_def)
  then have start: "udb_start ?conf ''/tmp/udb.sock'' [''-f'', ''db.ini''] True (\<lambda>_. None) [] ?d =
      Inr (''/tmp/udb.sock'', ?s)"
    by (simp add: udb_start_def cli_defaults_def)
  have parse: "g_option_parse cmd_entries [''-f'', ''db.ini''] (cli_defaults ''/tmp/udb.sock'') =
      Inr \<lparr>socket_path = ''/tmp/udb.sock'', db_file_path = Some ''db.ini''\<rparr>"
    by (simp add: cli_defaults_def)
  show ?thesis
    using started_store_typed [OF start parse _ kf keys]
    by (simp add: server_init_def core_init_def)
qed

end
