(* ===== verification/Socket.thy ===== *)
theory Socket
  imports Startup
begin

text \<open>
  The socket path on the file system. \<^verbatim>\<open>main\<close> calls \<^verbatim>\<open>unlink (socket_path)\<close>,
  ignoring its result, and then binds a Unix stream socket to the path with
  \<^verbatim>\<open>g_socket_listener_add_address\<close> (lines 516--535).
  \<^item> The file system is a map from paths to the kind of file there (\<open>fs\<close>): a regular
    file, a directory, or a socket bound by the server instance with the given number.
  \<^item> \<^verbatim>\<open>unlink\<close> removes any file that is not a directory (\<^verbatim>\<open>EISDIR\<close> otherwise).
  \<^item> \<^verbatim>\<open>bind\<close> fails with \<^verbatim>\<open>EADDRINUSE\<close> when the path exists, which GIO reports as
    \<^verbatim>\<open>G_IO_ERROR_ADDRESS_IN_USE\<close> (33). Otherwise it creates the socket file.
  \<^item> Other failures of the bind (a missing parent directory, permissions) come from the
    environment, as the parameter \<open>bind_err\<close> of \<open>udb_start\<close>.
  \<open>socket_setup\<close> gives the outcome that \<open>udb_start\<close> takes as \<open>bind_err\<close>, and the
  file system after it.
\<close>

datatype fkind = F_REGULAR | F_DIRECTORY | F_SOCKET nat

type_synonym fs = "string \<rightharpoonup> fkind"

abbreviation G_IO_ERROR_ADDRESS_IN_USE :: nat where "G_IO_ERROR_ADDRESS_IN_USE \<equiv> 33"

definition unlink :: "string \<Rightarrow> fs \<Rightarrow> fs" where
  "unlink p fs = (case fs p of Some F_DIRECTORY \<Rightarrow> fs | _ \<Rightarrow> fs(p := None))"

definition socket_bind :: "nat \<Rightarrow> string \<Rightarrow> fs \<Rightarrow> gerror + fs" where
  "socket_bind inst p fs =
     (case fs p of
        Some _ \<Rightarrow> Inl \<lparr>err_domain = G_IO_ERROR, err_code = G_IO_ERROR_ADDRESS_IN_USE\<rparr>
      | None \<Rightarrow> Inr (fs(p \<mapsto> F_SOCKET inst)))"

text \<open>\<^verbatim>\<open>unlink (socket_path)\<close> and then the bind of \<^verbatim>\<open>g_socket_listener_add_address\<close>,
  for the server instance \<open>inst\<close>: the error code, if the bind fails, and the file
  system after them.\<close>

definition socket_setup :: "nat \<Rightarrow> string \<Rightarrow> fs \<Rightarrow> nat option \<times> fs" where
  "socket_setup inst p fs =
     (let fs1 = unlink p fs in
      case socket_bind inst p fs1 of
        Inl e \<Rightarrow> (Some (err_code e), fs1)
      | Inr fs2 \<Rightarrow> (None, fs2))"

lemma socket_setup_free:
  "fs p \<noteq> Some F_DIRECTORY \<Longrightarrow> socket_setup inst p fs = (None, fs(p \<mapsto> F_SOCKET inst))"
  by (auto simp: socket_setup_def unlink_def socket_bind_def split: option.split fkind.split)

lemma udb_start_bound:
  "g_option_parse cmd_entries argv (cli_defaults dflt) = Inr opts \<Longrightarrow> bind_err (socket_path opts) = None \<Longrightarrow>
   udb_start conf dflt argv True bind_err langs disk =
     (case udb_main conf (db_file_path opts) langs disk of
        EXIT n \<Rightarrow> Inl (EXIT_STATUS n) | RUN s \<Rightarrow> Inr (socket_path opts, s))"
  by (simp add: udb_start_def)

text \<open>C37: any file at the socket path that is not a directory is replaced. A stale socket,
  a regular file, or the socket of another instance is removed by \<^verbatim>\<open>unlink\<close>. The
  bind then succeeds, and the process starts as it would on a free path. The path then
  holds this instance's socket.\<close>

theorem start_replaces_socket_file:
  assumes parse: "g_option_parse cmd_entries argv (cli_defaults dflt) = Inr opts"
    and notdir: "fs (socket_path opts) \<noteq> Some F_DIRECTORY"
  shows "udb_start conf dflt argv True (\<lambda>p. fst (socket_setup inst p fs)) langs disk =
           udb_start conf dflt argv True (\<lambda>_. None) langs disk
         \<and> snd (socket_setup inst (socket_path opts) fs) = fs(socket_path opts \<mapsto> F_SOCKET inst)"
  using udb_start_bound [OF parse, of "\<lambda>p. fst (socket_setup inst p fs)"]
    udb_start_bound [OF parse, of "\<lambda>_. None"] socket_setup_free [of fs "socket_path opts" inst, OF notdir]
  by simp

theorem start_replaces_socket_file_witness:
  "udb_start \<lparr>UDB_MAX_KEY_LENGTH = 255, UDB_DB_SECTION = ''udb''\<rparr> ''/tmp/udb.sock'' [] True
      (\<lambda>p. fst (socket_setup 2 p [''/tmp/udb.sock'' \<mapsto> F_REGULAR])) [] NO_FILE =
    udb_start \<lparr>UDB_MAX_KEY_LENGTH = 255, UDB_DB_SECTION = ''udb''\<rparr> ''/tmp/udb.sock'' [] True (\<lambda>_. None) [] NO_FILE
   \<and> snd (socket_setup 2 ''/tmp/udb.sock'' [''/tmp/udb.sock'' \<mapsto> F_REGULAR]) =
       [''/tmp/udb.sock'' \<mapsto> F_REGULAR](''/tmp/udb.sock'' \<mapsto> F_SOCKET 2)"
proof -
  have "g_option_parse cmd_entries [] (cli_defaults ''/tmp/udb.sock'') = Inr (cli_defaults ''/tmp/udb.sock'')"
    by simp
  moreover have "[''/tmp/udb.sock'' \<mapsto> F_REGULAR] (socket_path (cli_defaults ''/tmp/udb.sock'')) \<noteq> Some F_DIRECTORY"
    by (simp add: cli_defaults_def)
  ultimately show ?thesis
    using start_replaces_socket_file [of "[]" "''/tmp/udb.sock''" "cli_defaults ''/tmp/udb.sock''"
        "[''/tmp/udb.sock'' \<mapsto> F_REGULAR]"]
    by (simp add: cli_defaults_def)
qed


text \<open>C38: a directory at the socket path ends the process with exit status 33.
  \<^verbatim>\<open>unlink\<close> fails on it and leaves it in place, which \<^verbatim>\<open>main\<close> ignores. The bind
  then fails with \<^verbatim>\<open>G_IO_ERROR_ADDRESS_IN_USE\<close>, and \<^verbatim>\<open>main\<close> returns that code.
  The file system is unchanged.\<close>

theorem socket_path_directory_exits:
  assumes parse: "g_option_parse cmd_entries argv (cli_defaults dflt) = Inr opts"
    and dir: "fs (socket_path opts) = Some F_DIRECTORY"
  shows "udb_start conf dflt argv True (\<lambda>p. fst (socket_setup inst p fs)) langs disk = Inl (EXIT_STATUS 33)
    \<and> snd (socket_setup inst (socket_path opts) fs) = fs"
proof -
  have "socket_setup inst (socket_path opts) fs = (Some 33, fs)"
    using dir by (simp add: socket_setup_def unlink_def socket_bind_def)
  then show ?thesis using parse by (simp add: udb_start_def)
qed

theorem socket_path_directory_exits_witness:
  "udb_start \<lparr>UDB_MAX_KEY_LENGTH = 255, UDB_DB_SECTION = ''udb''\<rparr> ''/tmp/udb.sock'' [] True
      (\<lambda>p. fst (socket_setup 1 p [''/tmp/udb.sock'' \<mapsto> F_DIRECTORY])) [] NO_FILE = Inl (EXIT_STATUS 33)
   \<and> snd (socket_setup 1 ''/tmp/udb.sock'' [''/tmp/udb.sock'' \<mapsto> F_DIRECTORY]) = [''/tmp/udb.sock'' \<mapsto> F_DIRECTORY]"
  using socket_path_directory_exits [of "[]" "''/tmp/udb.sock''" "cli_defaults ''/tmp/udb.sock''"
      "[''/tmp/udb.sock'' \<mapsto> F_DIRECTORY]"]
  by (simp add: cli_defaults_def)

end
