(* ===== verification/Quoted.thy ===== *)
theory Quoted
  imports Lines
begin

text \<open>
  Double-quoted operands. \<^verbatim>\<open>udb_scanner_init\<close> switches on
  \<^verbatim>\<open>scan_string_dq\<close>, so a key or a value may be written between double quotes; the
  scanner hands it to the handlers as \<^verbatim>\<open>G_TOKEN_STRING\<close> with the escapes of the
  double-quoted string resolved. \<^verbatim>\<open>scanner_key\<close> and \<^verbatim>\<open>set_value\<close> accept that
  token like an identifier. The lemmas lex a quoted body without quotes, backslashes or
  NULs, and the escape \<^verbatim>\<open>\n\<close>, and follow such lines through
  \<^verbatim>\<open>process_command_line\<close>.
\<close>

abbreviation DQ :: char where "DQ \<equiv> CHR 0x22"

text \<open>The bytes that stand for themselves inside a double-quoted string.\<close>

definition dq_plain :: "bytes \<Rightarrow> bool" where
  "dq_plain s \<longleftrightarrow> list_all (\<lambda>c. c \<noteq> NUL \<and> c \<noteq> DQ \<and> c \<noteq> BSL) s"

subsection \<open>Lexing quoted strings\<close>

lemma dq_plain_nul_free: "dq_plain s \<Longrightarrow> nul_free s"
  by (auto simp: dq_plain_def nul_free_def list_all_iff)

lemma dq_body_plain:
  "dq_plain a \<Longrightarrow> scan_string_dq_body r = ((s, cl), r') \<Longrightarrow>
   scan_string_dq_body (a @ r) = ((a @ s, cl), r')"
  by (induction a) (auto simp: dq_plain_def)

lemma dq_body_close: "scan_string_dq_body (DQ # r) = (([], True), r)"
  by simp

lemma dq_body_newline:
  "scan_string_dq_body r = ((s, cl), r') \<Longrightarrow>
   scan_string_dq_body (BSL # CHR ''n'' # r) = ((LF # s, cl), r')"
  by (simp add: dq_escape_def)

lemma get_token_i_string:
  "scan_string_dq_body t = ((s, True), r) \<Longrightarrow>
   g_scanner_get_token_i udb_scanner_init (DQ # t) = (G_TOKEN_STRING s, r)"
  by (subst get_token_i_unfold)
    (simp add: g_scanner_get_token_ll_def ident_first_def G_CSET_a_2_z_def G_CSET_A_2_Z_def
      token_skipped_def numbers_to_int_def)

lemma next_token_string:
  assumes "scan_text (core_scanner c) = ws @ DQ # t"
    and "set ws \<subseteq> set (cset_skip_characters udb_scanner_init)"
    and "scan_string_dq_body t = ((s, True), r)"
  shows "next_token c = (G_TOKEN_STRING s, scanned c (G_TOKEN_STRING s) r)"
  using assms
  by (simp add: next_token_def g_scanner_get_next_token_def get_token_i_blanks get_token_i_string
      scanned_def)

lemma scanner_key_string [simp]: "scanner_key (G_TOKEN_STRING s) = Some s"
  by (simp add: scanner_key_def)

subsection \<open>Quoted operands through the handlers\<close>

lemma set_value_string: "nul_free s \<Longrightarrow> set_value (G_TOKEN_STRING s) = Inr s"
  by (simp add: set_value_def)

lemma udb_handle_set_string_key:
  assumes inv: "db_invar (core_db c)"
    and htx: "scan_text (core_scanner c) = '' '' @ DQ # s @ DQ # '' '' @ v @ NUL # m"
    and s: "dq_plain s" and v: "udb_identifier v" and len: "length s \<le> UDB_MAX_KEY_LENGTH conf"
  shows "\<exists>c'. udb_handle_set conf c = Some (''OK'' @ CRLF, c') \<and> db_invar (core_db c')
          \<and> scanner_mutex c' = scanner_mutex c \<and> store_abs (core_db c') = (store_abs (core_db c))(s \<mapsto> v)"
proof -
  let ?r = "'' '' @ v @ NUL # m"
  let ?c1 = "scanned c (G_TOKEN_STRING s) ?r"
  have body: "scan_string_dq_body (s @ DQ # ?r) = ((s, True), ?r)"
    using dq_body_plain [OF s dq_body_close] by simp
  have t1: "next_token c = (G_TOKEN_STRING s, ?c1)"
    using next_token_string [OF _ _ body, of c "'' ''"] htx by simp
  obtain v' r where t2: "next_token ?c1 = (G_TOKEN_IDENTIFIER v', scanned ?c1 (G_TOKEN_IDENTIFIER v') r)"
    and v': "cstr v' = v"
    using next_token_ident_eol [OF _ _ _ v, of ?c1 "'' ''" m] by auto
  have sv: "set_value (G_TOKEN_IDENTIFIER v') = Inr v" using v' by (simp add: set_value_def)
  show ?thesis
    using udb_handle_set_key [OF inv t1 scanner_key_string _ _ t2 sv] dq_plain_nul_free [OF s] len
      udb_identifier_nul_free [OF v] by simp
qed

lemma process_set_string_line:
  assumes inv: "core_invar c" and s: "dq_plain s" and v: "udb_identifier v"
    and len: "length s \<le> UDB_MAX_KEY_LENGTH conf" and line: "length s + length v < 4294967280"
  shows "\<exists>c'. process_command_line conf (''SET'' @ '' '' @ DQ # s @ DQ # '' '' @ v @ NUL # m) c =
             Some (''OK'' @ CRLF, c')
           \<and> core_invar c' \<and> store_abs (core_db c') = (store_abs (core_db c))(s \<mapsto> v)"
proof -
  obtain c2 m' where c2: "scan_text (core_scanner c2) = ('' '' @ DQ # s @ DQ # '' '' @ v) @ NUL # m'"
    "core_db c2 = core_db c"
    and eq: "process_command_line conf (''SET'' @ ('' '' @ DQ # s @ DQ # '' '' @ v) @ NUL # m) c =
      do { (response, c') \<leftarrow> udb_call UDB_HANDLE_SET conf c2; Some (response, c'\<lparr>scanner_mutex := False\<rparr>) }"
    using process_command_line_dispatch [OF inv _ _ _, of "''SET''" "'' '' @ DQ # s @ DQ # '' '' @ v"
        UDB_HANDLE_SET m conf] line by (auto simp: find_command_udb ident_stop_blank)
  obtain c3 where c3: "udb_handle_set conf c2 = Some (''OK'' @ CRLF, c3)" "db_invar (core_db c3)"
    "store_abs (core_db c3) = (store_abs (core_db c))(s \<mapsto> v)"
    using udb_handle_set_string_key [of c2 s v m' conf] inv c2 s v len by (auto simp: core_invar_def)
  show ?thesis
    using eq c3 by (simp add: core_invar_def)
qed

lemma process_get_string_line:
  assumes inv: "core_invar c" and s: "dq_plain s" and line: "length s < 4294967280"
  shows "\<exists>c'. process_command_line conf (''GET'' @ '' '' @ DQ # s @ [DQ] @ NUL # m) c =
             Some ((case store_abs (core_db c) s of None \<Rightarrow> ''NULL'' | Some v \<Rightarrow> v) @ CRLF, c')
           \<and> core_invar c' \<and> core_db c' = core_db c"
proof -
  obtain c2 m' where c2: "scan_text (core_scanner c2) = ('' '' @ DQ # s @ [DQ]) @ NUL # m'"
    "core_db c2 = core_db c"
    and eq: "process_command_line conf (''GET'' @ ('' '' @ DQ # s @ [DQ]) @ NUL # m) c =
      do { (response, c') \<leftarrow> udb_call UDB_HANDLE_GET conf c2; Some (response, c'\<lparr>scanner_mutex := False\<rparr>) }"
    using process_command_line_dispatch [OF inv _ _ _, of "''GET''" "'' '' @ DQ # s @ [DQ]"
        UDB_HANDLE_GET m conf] line by (auto simp: find_command_udb ident_stop_blank)
  have body: "scan_string_dq_body (s @ DQ # NUL # m') = ((s, True), NUL # m')"
    using dq_body_plain [OF s dq_body_close] by simp
  have t1: "next_token c2 = (G_TOKEN_STRING s, scanned c2 (G_TOKEN_STRING s) (NUL # m'))"
    using next_token_string [OF _ _ body, of c2 "'' ''"] c2(1) by simp
  obtain c3 where c3: "udb_handle_get c2 =
      Some ((case store_abs (core_db c) s of None \<Rightarrow> ''NULL'' | Some v \<Rightarrow> v) @ CRLF, c3)"
    "core_db c3 = core_db c"
    using udb_handle_get_key [OF _ t1 scanner_key_string, of s] inv c2(2) dq_plain_nul_free [OF s]
    by (auto simp: core_invar_def)
  show ?thesis
    using eq c3 inv by (simp add: core_invar_def)
qed

lemma process_set_escaped_line:
  assumes inv: "core_invar c" and k: "udb_identifier k" and a: "dq_plain a" and b: "dq_plain b"
    and len: "length k \<le> UDB_MAX_KEY_LENGTH conf"
    and line: "length k + length a + length b < 4294967280"
  shows "\<exists>c'. process_command_line conf
               (''SET'' @ '' '' @ k @ '' '' @ DQ # a @ BSL # CHR ''n'' # b @ [DQ] @ NUL # m) c =
             Some (''OK'' @ CRLF, c')
           \<and> core_invar c' \<and> store_abs (core_db c') = (store_abs (core_db c))(k \<mapsto> a @ LF # b)"
proof -
  let ?rest = "'' '' @ k @ '' '' @ DQ # a @ BSL # CHR ''n'' # b @ [DQ]"
  obtain c2 m' where c2: "scan_text (core_scanner c2) = ?rest @ NUL # m'" "core_db c2 = core_db c"
    "scan_token (core_scanner c2) = G_TOKEN_IDENTIFIER ''SET''"
    and eq: "process_command_line conf (''SET'' @ ?rest @ NUL # m) c =
      do { (response, c') \<leftarrow> udb_call UDB_HANDLE_SET conf c2; Some (response, c'\<lparr>scanner_mutex := False\<rparr>) }"
    using process_command_line_dispatch [OF inv _ _ _, of "''SET''" ?rest UDB_HANDLE_SET m conf] line
    by (auto simp: find_command_udb ident_stop_blank)
  let ?r = "'' '' @ DQ # a @ BSL # CHR ''n'' # b @ DQ # NUL # m'"
  let ?c1 = "scanned c2 (G_TOKEN_IDENTIFIER k) ?r"
  have t1: "next_token c2 = (G_TOKEN_IDENTIFIER k, ?c1)"
    using next_token_ident [OF _ _ _ k, of c2 "'' ''" ?r] c2(1,3) by (simp add: ident_stop_blank)
  have body: "scan_string_dq_body (a @ BSL # CHR ''n'' # b @ DQ # NUL # m') = ((a @ LF # b, True), NUL # m')"
    using dq_body_plain [OF a dq_body_newline [OF dq_body_plain [OF b dq_body_close]]] by simp
  have t2: "next_token ?c1 = (G_TOKEN_STRING (a @ LF # b), scanned ?c1 (G_TOKEN_STRING (a @ LF # b)) (NUL # m'))"
    using next_token_string [OF _ _ body, of ?c1 "'' ''"] by simp
  have nv: "nul_free (a @ LF # b)" using dq_plain_nul_free [OF a] dq_plain_nul_free [OF b] by simp
  obtain c3 where c3: "udb_handle_set conf c2 = Some (''OK'' @ CRLF, c3)" "db_invar (core_db c3)"
    "store_abs (core_db c3) = (store_abs (core_db c))(k \<mapsto> a @ LF # b)"
    using udb_handle_set_key [OF _ t1 _ _ len t2 set_value_string [OF nv] nv] inv c2(2)
      udb_identifier_nul_free [OF k] by (auto simp: core_invar_def scanner_key_def)
  show ?thesis
    using eq c3 by (simp add: core_invar_def)
qed

subsection \<open>Properties of quoted operands\<close>

text \<open>C28: a quoted key need not be an identifier and still round-trips through the
  store. For any bytes \<open>s\<close> without a double quote, backslash or NUL (so spaces,
  \<^verbatim>\<open>=\<close>, brackets and non-ASCII bytes are allowed, and \<open>s\<close> may be empty) within the
  key limit, and any identifier \<open>v\<close>: the line \<^verbatim>\<open>SET "s" v\<close> is answered
  \<^verbatim>\<open>OK\<close> and maps \<open>s\<close> to \<open>v\<close>; the following line \<^verbatim>\<open>GET "s"\<close> answers
  \<open>v\<close> and changes nothing.\<close>

theorem quoted_key_set_get:
  assumes inv: "core_invar c" and s: "dq_plain s" and v: "udb_identifier v"
    and len: "length s \<le> UDB_MAX_KEY_LENGTH conf" and line: "length s + length v < 4294967280"
  shows "\<exists>c1 c2. process_command_line conf (''SET'' @ '' '' @ DQ # s @ DQ # '' '' @ v @ NUL # m1) c =
             Some (''OK'' @ CRLF, c1)
           \<and> core_invar c1 \<and> store_abs (core_db c1) = (store_abs (core_db c))(s \<mapsto> v)
           \<and> process_command_line conf (''GET'' @ '' '' @ DQ # s @ [DQ] @ NUL # m2) c1 = Some (v @ CRLF, c2)
           \<and> core_invar c2 \<and> core_db c2 = core_db c1"
proof -
  obtain c1 where c1: "process_command_line conf (''SET'' @ '' '' @ DQ # s @ DQ # '' '' @ v @ NUL # m1) c =
      Some (''OK'' @ CRLF, c1)" "core_invar c1" "store_abs (core_db c1) = (store_abs (core_db c))(s \<mapsto> v)"
    using process_set_string_line [OF inv s v len line] by blast
  show ?thesis
    using process_get_string_line [OF c1(2) s, of conf m2] c1 line by auto
qed

theorem quoted_key_set_get_witness:
  "\<exists>c1 c2. process_command_line \<lparr>UDB_MAX_KEY_LENGTH = 255, UDB_DB_SECTION = ''udb''\<rparr>
               (''SET'' @ '' '' @ DQ # ''a b=c'' @ DQ # '' '' @ ''x'' @ NUL # []) core_init = Some (''OK'' @ CRLF, c1)
     \<and> core_invar c1 \<and> store_abs (core_db c1) = (store_abs (core_db core_init))(''a b=c'' \<mapsto> ''x'')
     \<and> process_command_line \<lparr>UDB_MAX_KEY_LENGTH = 255, UDB_DB_SECTION = ''udb''\<rparr>
               (''GET'' @ '' '' @ DQ # ''a b=c'' @ [DQ] @ NUL # []) c1 = Some (''x'' @ CRLF, c2)
     \<and> core_invar c2 \<and> core_db c2 = core_db c1"
  by (rule quoted_key_set_get)
    (simp_all add: dq_plain_def udb_identifier_def ident_first_def G_CSET_a_2_z_def)

text \<open>C39: a stored value can hold a line feed, and \<^verbatim>\<open>GET\<close> then answers with two lines.
  The escape \<^verbatim>\<open>\n\<close> of a double-quoted string is a line feed. For any identifier
  \<open>k\<close> and bytes \<open>a\<close>, \<open>b\<close> without quote, backslash or NUL, \<^verbatim>\<open>SET k "a\nb"\<close>
  stores \<open>a\<close>, LF, \<open>b\<close>. A later \<^verbatim>\<open>GET k\<close> answers \<open>a\<close> LF \<open>b\<close> CR LF,
  which a client reading lines sees as the line \<open>a\<close> and then the line \<open>b\<close>, where the
  spec promises exactly one line per reply.\<close>

theorem escaped_newline_reply:
  assumes inv: "core_invar c" and k: "udb_identifier k" and a: "dq_plain a" and b: "dq_plain b"
    and len: "length k \<le> UDB_MAX_KEY_LENGTH conf"
    and line: "length k + length a + length b < 4294967280"
  shows "\<exists>c1 c2. process_command_line conf
               (''SET'' @ '' '' @ k @ '' '' @ DQ # a @ BSL # CHR ''n'' # b @ [DQ] @ NUL # m1) c =
             Some (''OK'' @ CRLF, c1)
           \<and> store_abs (core_db c1) = (store_abs (core_db c))(k \<mapsto> a @ LF # b)
           \<and> process_command_line conf (''GET '' @ k @ NUL # m2) c1 = Some (a @ LF # b @ CRLF, c2)
           \<and> core_invar c2"
proof -
  obtain c1 where c1: "process_command_line conf
      (''SET'' @ '' '' @ k @ '' '' @ DQ # a @ BSL # CHR ''n'' # b @ [DQ] @ NUL # m1) c = Some (''OK'' @ CRLF, c1)"
    "core_invar c1" "store_abs (core_db c1) = (store_abs (core_db c))(k \<mapsto> a @ LF # b)"
    using process_set_escaped_line [OF inv k a b len line] by blast
  show ?thesis
    using process_get_line [OF c1(2) k, of conf m2] c1 line by auto
qed

theorem escaped_newline_reply_witness:
  "\<exists>c1 c2. process_command_line \<lparr>UDB_MAX_KEY_LENGTH = 255, UDB_DB_SECTION = ''udb''\<rparr>
               (''SET'' @ '' '' @ ''note'' @ '' '' @ DQ # ''one'' @ BSL # CHR ''n'' # ''two'' @ [DQ] @ NUL # [])
               core_init = Some (''OK'' @ CRLF, c1)
     \<and> store_abs (core_db c1) = (store_abs (core_db core_init))(''note'' \<mapsto> ''one'' @ LF # ''two'')
     \<and> process_command_line \<lparr>UDB_MAX_KEY_LENGTH = 255, UDB_DB_SECTION = ''udb''\<rparr> (''GET '' @ ''note'' @ NUL # []) c1
         = Some (''one'' @ LF # ''two'' @ CRLF, c2)
     \<and> core_invar c2"
  by (rule escaped_newline_reply)
    (simp_all add: dq_plain_def udb_identifier_def ident_first_def ident_nth_def G_CSET_a_2_z_def
      G_CSET_A_2_Z_def G_CSET_DIGITS_def)

end
