(* ===== verification/Spec2Isabelle.thy ===== *)
theory Spec2Isabelle
  imports Store_Spec Lines Numbers Snapshot Connection Server Startup Socket Quoted
begin

text \<open>
  A verification model of udb (\<^verbatim>\<open>src/udb.c\<close>), an in-memory key-value server
  on a Unix socket. Clients send text lines \<^verbatim>\<open>GET k\<close>, \<^verbatim>\<open>SET k v\<close>,
  \<^verbatim>\<open>DEL k\<close>. The server keeps the data in a GLib hash table and snapshots it
  to a key file.

  \<^bold>\<open>The parts of the program and their theories.\<close>
  \<^item> \<open>Prelude\<close>: C strings as byte lists (\<open>cstr\<close> is what \<^verbatim>\<open>strlen\<close>,
    \<^verbatim>\<open>g_strdup\<close> and \<^verbatim>\<open>%s\<close> read), decimal printing for \<^verbatim>\<open>%d\<close>/\<^verbatim>\<open>%ld\<close>,
    the reply shape \<open>crlf_line\<close>, and the shared list and map lemmas.
  \<^item> \<open>Store\<close>: the global \<^verbatim>\<open>db_mem\<close>/\<^verbatim>\<open>db_mutex\<close>, \<^verbatim>\<open>db_init\<close>,
    \<^verbatim>\<open>db_insert\<close>, \<^verbatim>\<open>db_lookup\<close>, \<^verbatim>\<open>db_remove\<close>. The hash table is an
    association list with distinct keys. The mutex is a flag; locking it while it is held
    hangs the single-threaded server, so that outcome is \<open>None\<close>. \<open>store_abs\<close>
    maps the table to \<open>string \<rightharpoonup> string\<close>, and the lemmas show that each
    operation refines the corresponding map operation.
  \<^item> \<open>Store_Spec\<close>: the store's contract as an abstract machine. The operations
    form a datatype \<open>store_op\<close>, and \<open>map_step\<close> runs one on a map.
    \<open>db_run\<close> runs a sequence of them through the db layer.
  \<^item> \<open>Scanner\<close> and \<open>Lexer\<close>: the part of GLib's \<^verbatim>\<open>GScanner\<close> that the server
    drives, written from GLib's documented behaviour (it is not code of this repository).
    \<^item> Characters and skipping: character classes, skip characters, identifiers.
    \<^item> Literals: strings with escapes, and numbers in all radixes. A number saturates
      at \<open>2^64 - 1\<close> as \<^verbatim>\<open>g_ascii_strtoull\<close> does. A float is kept as an
      exact decimal.
    \<^item> Loop: the token loop \<^verbatim>\<open>g_scanner_get_token_i\<close>, shown to terminate by a
      measure on the remaining text. \<^verbatim>\<open>g_scanner_get_next_token\<close> reads on after
      \<^verbatim>\<open>G_TOKEN_EOF\<close> (its EOF test sees the token already reset), and a backslash
      followed by NUL inside a double-quoted string does not end it.
    \<^item> Configuration: \<open>udb_scanner_init\<close> is the configuration set up by
      \<^verbatim>\<open>udb_scanner_init\<close> in \<^verbatim>\<open>src/udb.c\<close>.
  \<^item> \<open>Printf\<close>: \<^verbatim>\<open>%g\<close> on the scanner's decimal: six significant digits, with
    ties rounded to even on the exact decimal. C rounds the binary double, so the two can
    differ on a decimal tie.
  \<^item> \<open>Commands\<close>: the handlers \<^verbatim>\<open>udb_handle_get/set/del/unknown\<close>, the table
    \<^verbatim>\<open>udb_commands\<close>, and \<^verbatim>\<open>process_command_line\<close>.
    \<^item> State: the record \<open>core\<close> holds the store, the one shared scanner and
      \<^verbatim>\<open>scanner_mutex\<close>.
    \<^item> Parameters: \<open>udb_config\<close> holds the two constants of the absent
      \<^verbatim>\<open>config.h\<close> that the handlers read.
    \<^item> Invariant: \<open>core_invar\<close> says the store is well formed and both mutexes are
      free between two callbacks.
  \<^item> \<open>Lines\<close>: the lexing of whole lines, and the replies to concrete command
    shapes.
    \<^item> Memory: a line is the memory from the line buffer on, i.e. its bytes, the NUL
      after them, and whatever follows. \<^verbatim>\<open>process_command_line\<close> hands the
      scanner the length \<^verbatim>\<open>-1\<close>, i.e. \<open>2^32 - 1\<close>, so the scanner may read on
      past the NUL.
    \<^item> Bound: the line-length hypotheses (\<open>< 4294967290\<close>) keep the line inside
      that window.

  \<^item> \<open>Numbers\<close>: \<^verbatim>\<open>SET k n\<close> with a decimal integer, from the number
    lexer through \<^verbatim>\<open>g_ascii_strtoull\<close> to the \<^verbatim>\<open>%ld\<close> text stored.
  \<^item> \<open>KeyFile\<close>: the part of GLib's \<^verbatim>\<open>GKeyFile\<close> and \<^verbatim>\<open>g_file_set_contents\<close>
    that the snapshot uses, written from GLib's documented behaviour.
    \<^item> Writing: key-name and group-name checks, value escaping, and the text layout of
      \<^verbatim>\<open>g_key_file_to_data\<close>.
    \<^item> Reading: the line parser (comments, groups, pairs, the \<^verbatim>\<open>Encoding\<close> and
      locale rules), the UTF-8 check and unescaping of \<^verbatim>\<open>g_key_file_get_string\<close>.
    \<^item> Disk: the snapshot file is a \<open>disk_file\<close> value (absent, unreadable with an
      error code, not a regular file, or its bytes). The environment decides whether a
      write fails (\<open>wfail\<close>).
    \<^item> The format: \<open>snapshot_key\<close>/\<open>snapshot_value\<close> say which pairs the format
      carries.
  \<^item> \<open>Snapshot\<close>: \<^verbatim>\<open>db_save_to_file\<close> and \<^verbatim>\<open>db_load_from_file\<close>, with the
    per-key loop \<open>load_keys\<close>.
  \<^item> \<open>Connection\<close>: \<^verbatim>\<open>on_incoming\<close>, \<^verbatim>\<open>on_line_read\<close> and
    \<^verbatim>\<open>on_write_done\<close> on a record \<open>conn\<close> per connection.
    \<^item> Writes: GLib's output stream allows one pending operation, so a second
      \<^verbatim>\<open>write_async\<close> fails with \<^verbatim>\<open>G_IO_ERROR_PENDING\<close>, and its bytes
      are kept in \<open>conn_dropped\<close>.
    \<^item> Sessions: \<open>replies\<close> is the reference answer to a list of lines, and
      \<open>serve_lines\<close> a paced session that refines it.
  \<^item> \<open>Server\<close>: \<^verbatim>\<open>main\<close> from \<^verbatim>\<open>db_init\<close> to the main loop
    (\<open>udb_main\<close>), \<^verbatim>\<open>on_db_save_timeout\<close>, \<^verbatim>\<open>sigint_handler\<close> and
    \<^verbatim>\<open>on_check_sigint\<close>.
    \<^item> Main loop: the GLib main loop is one callback at a time.
      \<open>server_step\<close> dispatches an \<open>event\<close>; \<open>event_enabled\<close> says which
      callbacks are ready.
    \<^item> Reachability: \<open>server_reach\<close> is the inductive set of states reachable
      from a successful startup.
  \<^item> \<open>Startup\<close>: the command line and the rest of \<^verbatim>\<open>main\<close>.
    \<^item> Options: \<^verbatim>\<open>cmd_entries\<close> and GLib's \<^verbatim>\<open>g_option_context_parse\<close>
      (\<open>g_option_parse\<close>).
    \<^item> Start: \<open>udb_start\<close> runs from the parse through the socket service and the
      bind to \<open>udb_main\<close>. The outcome of each socket step is a parameter.
    \<^item> Exit: \<open>main_exit\<close> is the return after the loop.
  \<^item> \<open>Socket\<close>: the socket path on the file system. The file system is a map from
    paths to file kinds, and \<open>socket_setup\<close> is \<^verbatim>\<open>unlink\<close> followed by the bind.
  \<^item> \<open>Quoted\<close>: double-quoted operands. The scanner's \<^verbatim>\<open>G_TOKEN_STRING\<close>
    (quotes removed, escapes resolved) through \<^verbatim>\<open>scanner_key\<close>, \<^verbatim>\<open>set_value\<close>
    and whole \<^verbatim>\<open>SET\<close>/\<^verbatim>\<open>GET\<close> lines.

  \<^bold>\<open>What is proved here.\<close> Each theorem marked \<open>C<n>\<close> is a claim about
  the program.
  \<^item> Protocol, C1--C9 (this theory): the protocol scenarios of the spec (SET then GET,
    DEL then GET, DEL of an absent key, unknown command, SET without key, oversized key).
    Every line gets exactly one reply ending in CRLF while the shared state stays well
    formed and never deadlocks. Plus the scanner's over-read past a one-character value.
  \<^item> Snapshot, C10--C14 (\<open>Snapshot\<close>): save then load restores every pair the format
    carries; an empty store saves a file that loads back empty; invalid keys are dropped
    wherever they sit; a stored \<^verbatim>\<open>Encoding\<close> key with any value but
    \<^verbatim>\<open>UTF-8\<close> poisons the file, under any section name and among any other pairs;
    and a group-less file is rejected.
  \<^item> Connections, C15--C17 (\<open>Connection\<close>): replies on a paced connection in the order
    of the lines; a reply lost while a write is pending; trailing CR ignored.
  \<^item> Lifecycle, C18--C23 (\<open>Server\<close>):
    \<^item> reachable states are well formed and never block;
    \<^item> startup without a file runs with an empty store;
    \<^item> a shutdown save followed by a restart restores the store;
    \<^item> a failed periodic save is only logged;
    \<^item> any snapshot whose first group holds an \<^verbatim>\<open>Encoding\<close> line with a value
      other than \<^verbatim>\<open>UTF-8\<close> ends the process with status 0;
    \<^item> spec scenario 6 starts empty.
  \<^item> Interleaving, C24 (this theory): SETs on two connections serialise and the last
    wins.
  \<^item> Shutdown, C25 (\<open>Server\<close>): from every reachable running state, SIGINT leads to
    a stopped loop with no callback left.
  \<^item> Integers, C26 (\<open>Numbers\<close>): \<^verbatim>\<open>SET k n\<close> stores \<open>n\<close> saturated
    at \<open>2^64 - 1\<close> and printed as a signed 64-bit number.
  \<^item> Store contract, C27 (\<open>Store_Spec\<close>): any sequence of db calls refines the map
    operations.
  \<^item> Quoted keys, C28 (\<open>Quoted\<close>): a double-quoted key of any bytes but quote,
    backslash and NUL (spaces, \<^verbatim>\<open>=\<close>, brackets) is set and read back.
  \<^item> Blank lines, C40 (\<open>Lines\<close>): an empty or blank line is answered
    \<^verbatim>\<open>ERR Expected Command Identifier (got token=0)\<close> and changes nothing.
  \<^item> Short writes, C35 (this theory): a write that completes short leaves the rest of
    the reply unsent for good.
  \<^item> Process, C29--C34 (\<open>Startup\<close>):
    \<^item> the three spellings of \<^verbatim>\<open>--db-file\<close> agree;
    \<^item> an unknown option exits with status 0;
    \<^item> a missing option value exits with status 1;
    \<^item> a socket path must be UTF-8, a file name need not be;
    \<^item> a clean shutdown exits with status 0;
    \<^item> the store the process starts with is exactly the snapshot section's string
      values, as a well-typed table.
  \<^item> Integers again, C36 (\<open>Numbers\<close>): an integer literal below \<open>2^63\<close>
    survives \<^verbatim>\<open>SET\<close> and \<^verbatim>\<open>GET\<close> unchanged.
  \<^item> Socket path, C37--C38 (\<open>Socket\<close>):
    \<^item> any file there but a directory is replaced, including the socket of a running
      instance;
    \<^item> a directory there ends the process with status 33.
  \<^item> Line feeds in values, C39 (\<open>Quoted\<close>): \<^verbatim>\<open>SET k "a\nb"\<close> stores a line
    feed, and \<^verbatim>\<open>GET k\<close> then answers across two lines.

  \<^bold>\<open>Bounds.\<close> Integer tokens are \<open>64 word\<close> values: \<^verbatim>\<open>gulong\<close> on
  the LP64 Unix systems that udb's Unix socket needs. The scanner's text window is
  \<open>2^32 - 1\<close> bytes, because \<^verbatim>\<open>g_scanner_input_text\<close> takes a
  \<^verbatim>\<open>guint\<close> length. The line-length
  hypotheses keep every line inside that window. No fuel is used: every loop is
  structural recursion or a \<open>fun\<close> with a measure.

  \<^bold>\<open>Not modelled.\<close>
  \<^item> The kernel side of the socket: the file system is a map over whole paths, so
    parent directories and permissions are not modelled. Their failures are the
    parameter \<open>bind_err\<close> of \<open>udb_start\<close>. \<^verbatim>\<open>g_socket_service_start\<close> and
    accepting a connection are the event \<open>EV_INCOMING\<close>.
  \<^item> The text of the log, the help and \<^verbatim>\<open>g_print\<close>: only the logged errors and
    the exit statuses are kept.
  \<^item> Signal delivery: \<^verbatim>\<open>signal (SIGINT, ...)\<close> is the event \<open>EV_SIGINT\<close>,
    which may arrive between any two callbacks.
  \<^item> Memory safety of the write buffer: it is freed right after
    \<^verbatim>\<open>write_async\<close>. The model keeps the reply's bytes, so this use-after-free is
    reported as a finding and not modelled.
  \<^item> Timing of the save timer: it may fire between any two callbacks.
\<close>

text \<open>C1: after \<^verbatim>\<open>SET k v\<close> is answered \<^verbatim>\<open>OK\<close>, \<^verbatim>\<open>GET k\<close> answers \<open>v\<close>
  followed by CRLF. The store then maps \<open>k\<close> to \<open>v\<close> and is otherwise unchanged.
  This holds for identifier keys and values and a key within \<^verbatim>\<open>UDB_MAX_KEY_LENGTH\<close>.\<close>

theorem set_then_get:
  assumes "core_invar c" and "udb_identifier k" and "udb_identifier v"
    and "length k \<le> UDB_MAX_KEY_LENGTH conf" and "length k + length v < 4294967290"
  shows "\<exists>c1 c2. process_command_line conf (''SET '' @ k @ '' '' @ v @ NUL # m1) c = Some (''OK'' @ CRLF, c1)
           \<and> process_command_line conf (''GET '' @ k @ NUL # m2) c1 = Some (v @ CRLF, c2)
           \<and> core_invar c2 \<and> store_abs (core_db c2) = (store_abs (core_db c))(k \<mapsto> v)"
proof -
  obtain c1 where c1: "process_command_line conf (''SET '' @ k @ '' '' @ v @ NUL # m1) c = Some (''OK'' @ CRLF, c1)"
    "core_invar c1" "store_abs (core_db c1) = (store_abs (core_db c))(k \<mapsto> v)"
    using process_set_line [OF assms] by blast
  obtain c2 where c2: "process_command_line conf (''GET '' @ k @ NUL # m2) c1 =
      Some ((case store_abs (core_db c1) k of None \<Rightarrow> ''NULL'' | Some v \<Rightarrow> v) @ CRLF, c2)"
    "core_invar c2" "core_db c2 = core_db c1"
    using process_get_line [OF c1(2) assms(2)] assms(5) by fastforce
  show ?thesis
    using c1 c2 by auto
qed

theorem set_then_get_witness:
  "\<exists>c1 c2. process_command_line \<lparr>UDB_MAX_KEY_LENGTH = 255, UDB_DB_SECTION = ''udb''\<rparr>
             (''SET name Alice'' @ [NUL]) core_init = Some (''OK'' @ CRLF, c1)
         \<and> process_command_line \<lparr>UDB_MAX_KEY_LENGTH = 255, UDB_DB_SECTION = ''udb''\<rparr>
             (''GET name'' @ [NUL]) c1 = Some (''Alice'' @ CRLF, c2)
         \<and> core_invar c2 \<and> store_abs (core_db c2) = [''name'' \<mapsto> ''Alice'']"
  using set_then_get [of core_init "''name''" "''Alice''" "\<lparr>UDB_MAX_KEY_LENGTH = 255, UDB_DB_SECTION = ''udb''\<rparr>" "[]" "[]"]
  by (simp add: udb_identifier_def ident_first_def ident_nth_def G_CSET_a_2_z_def G_CSET_A_2_Z_def
      G_CSET_DIGITS_def)

text \<open>C2: after \<^verbatim>\<open>DEL k\<close> is answered \<^verbatim>\<open>OK\<close>, \<^verbatim>\<open>GET k\<close> answers
  \<^verbatim>\<open>NULL\<close> followed by CRLF. The store loses \<open>k\<close> and nothing else.\<close>

theorem del_then_get:
  assumes "core_invar c" and "udb_identifier k" and "length k < 4294967291"
  shows "\<exists>c1 c2. process_command_line conf (''DEL '' @ k @ NUL # m1) c = Some (''OK'' @ CRLF, c1)
           \<and> process_command_line conf (''GET '' @ k @ NUL # m2) c1 = Some (''NULL'' @ CRLF, c2)
           \<and> core_invar c2 \<and> store_abs (core_db c2) = (store_abs (core_db c))(k := None)"
proof -
  obtain c1 where c1: "process_command_line conf (''DEL '' @ k @ NUL # m1) c = Some (''OK'' @ CRLF, c1)"
    "core_invar c1" "store_abs (core_db c1) = (store_abs (core_db c))(k := None)"
    using process_del_line [OF assms] by blast
  obtain c2 where c2: "process_command_line conf (''GET '' @ k @ NUL # m2) c1 =
      Some ((case store_abs (core_db c1) k of None \<Rightarrow> ''NULL'' | Some v \<Rightarrow> v) @ CRLF, c2)"
    "core_invar c2" "core_db c2 = core_db c1"
    using process_get_line [OF c1(2) assms(2,3)] by blast
  show ?thesis
    using c1 c2 by auto
qed

theorem del_then_get_witness:
  "\<exists>c1 c2. process_command_line \<lparr>UDB_MAX_KEY_LENGTH = 255, UDB_DB_SECTION = ''udb''\<rparr>
             (''DEL name'' @ [NUL]) core_init = Some (''OK'' @ CRLF, c1)
         \<and> process_command_line \<lparr>UDB_MAX_KEY_LENGTH = 255, UDB_DB_SECTION = ''udb''\<rparr>
             (''GET name'' @ [NUL]) c1 = Some (''NULL'' @ CRLF, c2)
         \<and> core_invar c2 \<and> store_abs (core_db c2) = Map.empty"
  using del_then_get [of core_init "''name''" "\<lparr>UDB_MAX_KEY_LENGTH = 255, UDB_DB_SECTION = ''udb''\<rparr>" "[]" "[]"]
  by (simp add: udb_identifier_def ident_first_def ident_nth_def G_CSET_a_2_z_def G_CSET_A_2_Z_def
      G_CSET_DIGITS_def)

text \<open>C3: \<^verbatim>\<open>DEL\<close> is idempotent. A second \<^verbatim>\<open>DEL k\<close> is still answered
  \<^verbatim>\<open>OK\<close> and leaves the store as the first one left it.\<close>

theorem del_idempotent:
  assumes "core_invar c" and "udb_identifier k" and "length k < 4294967291"
  shows "\<exists>c1 c2. process_command_line conf (''DEL '' @ k @ NUL # m1) c = Some (''OK'' @ CRLF, c1)
           \<and> process_command_line conf (''DEL '' @ k @ NUL # m2) c1 = Some (''OK'' @ CRLF, c2)
           \<and> core_invar c2 \<and> store_abs (core_db c2) = store_abs (core_db c1)"
proof -
  obtain c1 where c1: "process_command_line conf (''DEL '' @ k @ NUL # m1) c = Some (''OK'' @ CRLF, c1)"
    "core_invar c1" "store_abs (core_db c1) = (store_abs (core_db c))(k := None)"
    using process_del_line [OF assms] by blast
  obtain c2 where c2: "process_command_line conf (''DEL '' @ k @ NUL # m2) c1 = Some (''OK'' @ CRLF, c2)"
    "core_invar c2" "store_abs (core_db c2) = (store_abs (core_db c1))(k := None)"
    using process_del_line [OF c1(2) assms(2,3)] by blast
  show ?thesis
    using c1 c2 by auto
qed

theorem del_idempotent_witness:
  "\<exists>c1 c2. process_command_line \<lparr>UDB_MAX_KEY_LENGTH = 255, UDB_DB_SECTION = ''udb''\<rparr>
             (''DEL k'' @ [NUL]) core_init = Some (''OK'' @ CRLF, c1)
         \<and> process_command_line \<lparr>UDB_MAX_KEY_LENGTH = 255, UDB_DB_SECTION = ''udb''\<rparr>
             (''DEL k'' @ [NUL]) c1 = Some (''OK'' @ CRLF, c2)
         \<and> core_invar c2 \<and> store_abs (core_db c2) = store_abs (core_db c1)"
  using del_idempotent [of core_init "''k''" "\<lparr>UDB_MAX_KEY_LENGTH = 255, UDB_DB_SECTION = ''udb''\<rparr>" "[]" "[]"]
  by (simp add: udb_identifier_def ident_first_def ident_nth_def G_CSET_a_2_z_def G_CSET_A_2_Z_def
      G_CSET_DIGITS_def)

text \<open>C4: every line gets exactly one reply and the server never deadlocks. From any
  well-formed state and for any bytes in the line buffer and after it,
  \<^verbatim>\<open>process_command_line\<close> returns. The two mutexes are never locked twice,
  which would be \<open>None\<close>. The reply ends in CRLF and has no NUL before its end (it may hold an
  earlier line feed, see C39), so the \<^verbatim>\<open>strlen\<close> of the reply covers it all. The state is again well formed,
  with both mutexes released.\<close>

theorem every_line_answered:
  assumes "core_invar c"
  shows "\<exists>r c'. process_command_line conf mem c = Some (r, c') \<and> crlf_line r \<and> core_invar c'"
  using process_command_line_ok [OF assms] .

theorem every_line_answered_witness:
  "\<exists>r c'. process_command_line \<lparr>UDB_MAX_KEY_LENGTH = 255, UDB_DB_SECTION = ''udb''\<rparr>
            (''SET x 42'' @ [NUL]) core_init = Some (r, c') \<and> crlf_line r \<and> core_invar c'"
  using every_line_answered [of core_init] by simp

text \<open>C5: an oversized key is rejected. \<^verbatim>\<open>SET k v\<close> with \<open>k\<close> longer than
  \<^verbatim>\<open>UDB_MAX_KEY_LENGTH\<close> is answered \<^verbatim>\<open>ERR Key To Long\<close> and does not change the
  store.\<close>

theorem long_key_rejected:
  assumes "core_invar c" and "udb_identifier k" and "UDB_MAX_KEY_LENGTH conf < length k"
    and "length k + length v < 4294967290"
  shows "\<exists>c'. process_command_line conf (''SET '' @ k @ '' '' @ v @ NUL # m) c =
             Some (''ERR Key To Long'' @ CRLF, c') \<and> core_invar c' \<and> core_db c' = core_db c"
  using process_set_long_line [OF assms] .

theorem long_key_rejected_witness:
  "\<exists>c'. process_command_line \<lparr>UDB_MAX_KEY_LENGTH = 3, UDB_DB_SECTION = ''udb''\<rparr>
          (''SET abcd x'' @ [NUL]) core_init =
        Some (''ERR Key To Long'' @ CRLF, c') \<and> core_invar c' \<and> core_db c' = db_init"
  using long_key_rejected [of core_init "''abcd''" "\<lparr>UDB_MAX_KEY_LENGTH = 3, UDB_DB_SECTION = ''udb''\<rparr>" "''x''" "[]"]
  by (simp add: udb_identifier_def ident_first_def ident_nth_def G_CSET_a_2_z_def G_CSET_A_2_Z_def
      G_CSET_DIGITS_def)

text \<open>C6: a command word that matches no table entry is answered
  \<^verbatim>\<open>ERR Unknown command: <word>\<close>, and the store is not touched.\<close>

theorem unknown_command_reply:
  assumes "core_invar c" and "udb_identifier w" and "find_command udb_commands w = None"
    and "length (w @ rest) < 4294967295" and "ident_stop (rest @ NUL # m)"
  shows "\<exists>c'. process_command_line conf (w @ rest @ NUL # m) c =
             Some (''ERR Unknown command: '' @ w @ CRLF, c') \<and> core_invar c' \<and> core_db c' = core_db c"
  using process_unknown_line [OF assms(1,4,2,3,5)] .

theorem unknown_command_reply_witness:
  "\<exists>c'. process_command_line \<lparr>UDB_MAX_KEY_LENGTH = 255, UDB_DB_SECTION = ''udb''\<rparr>
          (''FOO bar'' @ [NUL]) core_init =
        Some (''ERR Unknown command: FOO'' @ CRLF, c') \<and> core_invar c' \<and> core_db c' = db_init"
  using unknown_command_reply [of core_init "''FOO''" "'' bar''" "[]"]
  by (simp add: udb_identifier_def ident_first_def ident_nth_def G_CSET_a_2_z_def G_CSET_A_2_Z_def
      G_CSET_DIGITS_def udb_commands_def g_ascii_strcasecmp_eq_def ascii_tolower_def eq_char_of
      ident_stop_def)

text \<open>C7: \<^verbatim>\<open>SET\<close> with nothing after it is answered
  \<^verbatim>\<open>ERR Missing KEY (token=0)\<close>, 0 being \<^verbatim>\<open>G_TOKEN_EOF\<close>, and the store is not
  touched.\<close>

theorem set_without_key:
  assumes "core_invar c"
  shows "\<exists>c'. process_command_line conf (''SET'' @ NUL # m) c =
             Some (''ERR Missing KEY (token=0)'' @ CRLF, c') \<and> core_invar c' \<and> core_db c' = core_db c"
  using process_set_nokey_line [OF assms] .

theorem set_without_key_witness:
  "\<exists>c'. process_command_line \<lparr>UDB_MAX_KEY_LENGTH = 255, UDB_DB_SECTION = ''udb''\<rparr>
          (''SET'' @ [NUL]) core_init =
        Some (''ERR Missing KEY (token=0)'' @ CRLF, c') \<and> core_invar c' \<and> core_db c' = db_init"
  using set_without_key [of core_init] by simp

text \<open>C8: command names are matched without regard to ASCII case, against exactly
  \<^verbatim>\<open>GET\<close>, \<^verbatim>\<open>SET\<close> and \<^verbatim>\<open>DEL\<close>. The search stops at the \<^verbatim>\<open>NULL\<close>
  entry, so the \<^verbatim>\<open>udb_handle_unknown\<close> handler is never selected.\<close>

theorem find_command_case_insensitive:
  "find_command udb_commands w =
     (if map ascii_tolower w = ''get'' then Some UDB_HANDLE_GET
      else if map ascii_tolower w = ''set'' then Some UDB_HANDLE_SET
      else if map ascii_tolower w = ''del'' then Some UDB_HANDLE_DEL
      else None)"
  by (simp add: udb_commands_def g_ascii_strcasecmp_eq_def ascii_tolower_def eq_char_of char_of_eq)


text \<open>C9: a one-character key at the end of a \<^verbatim>\<open>SET\<close> line makes the scanner read
  past the line. The identifier branch of \<^verbatim>\<open>g_scanner_get_token_ll\<close> tests
  \<^verbatim>\<open>strchr (cset_identifier_nth, peek)\<close>, which is true for the terminating NUL.
  The text length is \<^verbatim>\<open>-1\<close>, so the scanner takes that NUL into the key and goes on
  reading the memory after the line. The line \<^verbatim>\<open>SET a\<close>, followed in memory by
  \<open>w\<close>, a blank and an identifier \<open>v\<close>, is answered \<^verbatim>\<open>OK\<close> and stores
  \<open>a \<mapsto> v\<close>. A line without a value is not answered
  \<^verbatim>\<open>ERR Missing Value Argument\<close> here; the reply depends on stale buffer contents.\<close>

theorem set_reads_past_line_end:
  assumes "core_invar c" and "ident_first a" and "list_all ident_nth w"
    and "udb_identifier v" and "1 \<le> UDB_MAX_KEY_LENGTH conf"
    and "length w + length v < 4294967288"
  shows "\<exists>c'. process_command_line conf (''SET '' @ [a] @ NUL # w @ '' '' @ v @ NUL # m) c =
             Some (''OK'' @ CRLF, c') \<and> core_invar c' \<and> store_abs (core_db c') = (store_abs (core_db c))([a] \<mapsto> v)"
  using process_set_overread [OF assms] by simp

theorem set_reads_past_line_end_witness:
  "\<exists>c'. process_command_line \<lparr>UDB_MAX_KEY_LENGTH = 255, UDB_DB_SECTION = ''udb''\<rparr>
          (''SET a'' @ NUL # ''x yz'' @ [NUL]) core_init =
        Some (''OK'' @ CRLF, c') \<and> core_invar c' \<and> store_abs (core_db c') = [''a'' \<mapsto> ''yz'']"
  using set_reads_past_line_end [of core_init "CHR ''a''" "''x''" "''yz''" "\<lparr>UDB_MAX_KEY_LENGTH = 255, UDB_DB_SECTION = ''udb''\<rparr>" "[]"]
  by (simp add: udb_identifier_def ident_first_def ident_nth_def G_CSET_a_2_z_def G_CSET_A_2_Z_def
      G_CSET_DIGITS_def)

subsection \<open>Interleaved connections\<close>

lemma udb_identifier_last_not_cr: "udb_identifier w \<Longrightarrow> last w \<noteq> CR"
proof
  assume w: "udb_identifier w" and cr: "last w = CR"
  have "ident_nth (last w)"
  proof (cases w)
    case (Cons a r)
    with w show ?thesis
      by (cases r rule: rev_cases) (auto simp: udb_identifier_def list_all_iff ident_first_nth)
  qed (use w in \<open>simp add: udb_identifier_def\<close>)
  with cr show False by (simp add: ident_nth_def G_CSET_a_2_z_def G_CSET_A_2_Z_def G_CSET_DIGITS_def)
qed

text \<open>One \<^verbatim>\<open>SET\<close> line read on connection \<open>i\<close>: the store is updated, the
  connection goes on reading, and no other connection changes.\<close>

lemma set_line_step:
  assumes inv: "core_invar (srv_core s)" and i: "i < length (srv_conns s)"
    and k: "udb_identifier k" and v: "udb_identifier v"
    and len: "length k \<le> UDB_MAX_KEY_LENGTH conf" and line: "length k + length v < 4294967290"
  shows "\<exists>s'. server_step conf path (EV_READ i (READ_LINE (''SET '' @ k @ '' '' @ v) m)) s = Some s'
           \<and> store_abs (core_db (srv_core s')) = (store_abs (core_db (srv_core s)))(k \<mapsto> v)
           \<and> srv_running s' = srv_running s \<and> length (srv_conns s') = length (srv_conns s)
           \<and> conn_reading (srv_conns s' ! i) \<and> (\<forall>j. j \<noteq> i \<longrightarrow> srv_conns s' ! j = srv_conns s ! j)"
proof -
  have nf: "nul_free (''SET '' @ k @ '' '' @ v)"
    using udb_identifier_nul_free [OF k] udb_identifier_nul_free [OF v] by (simp add: nul_free_def)
  have lst: "last (''SET '' @ k @ '' '' @ v) \<noteq> CR"
    using udb_identifier_last_not_cr [OF v] v by (simp add: udb_identifier_def)
  obtain c' where c': "process_command_line conf (''SET '' @ k @ '' '' @ v @ NUL # m) (srv_core s) =
      Some (''OK'' @ CRLF, c')" "store_abs (core_db c') = (store_abs (core_db (srv_core s)))(k \<mapsto> v)"
    using process_set_line [OF inv k v len line] by blast
  moreover have "strip_cr_line (''SET '' @ k @ '' '' @ v) m = ''SET '' @ k @ '' '' @ v @ NUL # m"
    using strip_cr_line_plain [OF nf] lst by simp
  ultimately show ?thesis
    using i by (simp add: server_step_def on_line_read_def)
qed

text \<open>C24: writes from different connections serialise, and the last one wins. In any
  reachable state, a \<^verbatim>\<open>SET\<close> of key \<open>k\<close> read on connection \<open>i\<close> and then
  one read on connection \<open>j\<close> both go through, and \<open>i\<close> may equal \<open>j\<close>. The
  resulting state is reachable. The key then holds the second value.\<close>

theorem interleaved_sets_last_wins:
  assumes reach: "server_reach conf path langs disk0 s"
    and en1: "event_enabled path (EV_READ i (READ_LINE (''SET '' @ k @ '' '' @ v1) m1)) s"
    and en2: "event_enabled path (EV_READ j (READ_LINE (''SET '' @ k @ '' '' @ v2) m2)) s"
    and k: "udb_identifier k" and v1: "udb_identifier v1" and v2: "udb_identifier v2"
    and len: "length k \<le> UDB_MAX_KEY_LENGTH conf"
    and l1: "length k + length v1 < 4294967290" and l2: "length k + length v2 < 4294967290"
  shows "\<exists>s1 s2. server_step conf path (EV_READ i (READ_LINE (''SET '' @ k @ '' '' @ v1) m1)) s = Some s1
           \<and> server_step conf path (EV_READ j (READ_LINE (''SET '' @ k @ '' '' @ v2) m2)) s1 = Some s2
           \<and> server_reach conf path langs disk0 s2
           \<and> store_abs (core_db (srv_core s2)) = (store_abs (core_db (srv_core s)))(k \<mapsto> v2)"
proof -
  have i: "i < length (srv_conns s)" using en1 by (simp add: event_enabled_def)
  obtain s1 where s1: "server_step conf path (EV_READ i (READ_LINE (''SET '' @ k @ '' '' @ v1) m1)) s = Some s1"
    "store_abs (core_db (srv_core s1)) = (store_abs (core_db (srv_core s)))(k \<mapsto> v1)"
    "srv_running s1 = srv_running s" "length (srv_conns s1) = length (srv_conns s)"
    "conn_reading (srv_conns s1 ! i)" "\<forall>j. j \<noteq> i \<longrightarrow> srv_conns s1 ! j = srv_conns s ! j"
    using set_line_step [OF server_reach_invar [OF reach] i k v1 len l1] by blast
  have r1: "server_reach conf path langs disk0 s1" using server_reach.step [OF reach en1 s1(1)] .
  have en2': "event_enabled path (EV_READ j (READ_LINE (''SET '' @ k @ '' '' @ v2) m2)) s1"
    using en2 s1(3-6) by (cases "j = i") (auto simp: event_enabled_def)
  then have j: "j < length (srv_conns s1)" by (simp add: event_enabled_def)
  obtain s2 where s2: "server_step conf path (EV_READ j (READ_LINE (''SET '' @ k @ '' '' @ v2) m2)) s1 = Some s2"
    "store_abs (core_db (srv_core s2)) = (store_abs (core_db (srv_core s1)))(k \<mapsto> v2)"
    using set_line_step [OF server_reach_invar [OF r1] j k v2 len l2] by blast
  show ?thesis
    using s1(1,2) s2 server_reach.step [OF r1 en2' s2(1)] by auto
qed

theorem interleaved_sets_last_wins_witness:
  "\<exists>s1 s2. server_step \<lparr>UDB_MAX_KEY_LENGTH = 255, UDB_DB_SECTION = ''udb''\<rparr> None
              (EV_READ 0 (READ_LINE ''SET name Alice'' [])) (server_init core_init NO_FILE\<lparr>srv_conns := [on_incoming, on_incoming]\<rparr>) = Some s1
     \<and> server_step \<lparr>UDB_MAX_KEY_LENGTH = 255, UDB_DB_SECTION = ''udb''\<rparr> None
              (EV_READ 1 (READ_LINE ''SET name Bob'' [])) s1 = Some s2
     \<and> server_reach \<lparr>UDB_MAX_KEY_LENGTH = 255, UDB_DB_SECTION = ''udb''\<rparr> None [] NO_FILE s2
     \<and> store_abs (core_db (srv_core s2)) = [''name'' \<mapsto> ''Bob'']"
proof -
  let ?conf = "\<lparr>UDB_MAX_KEY_LENGTH = 255, UDB_DB_SECTION = ''udb''\<rparr>"
  let ?s0 = "server_init core_init NO_FILE"
  have r0: "server_reach ?conf None [] NO_FILE ?s0"
    by (rule server_reach.start) (simp add: udb_main_def)
  have r1: "server_reach ?conf None [] NO_FILE (?s0\<lparr>srv_conns := [on_incoming]\<rparr>)"
    by (rule server_reach.step [OF r0, of EV_INCOMING]) (simp_all add: event_enabled_def server_step_def server_init_def)
  have r2: "server_reach ?conf None [] NO_FILE (?s0\<lparr>srv_conns := [on_incoming, on_incoming]\<rparr>)"
    by (rule server_reach.step [OF r1, of EV_INCOMING]) (simp_all add: event_enabled_def server_step_def server_init_def)
  have id: "udb_identifier ''name''" "udb_identifier ''Alice''" "udb_identifier ''Bob''"
    by (simp_all add: udb_identifier_def ident_first_def ident_nth_def G_CSET_a_2_z_def G_CSET_A_2_Z_def
        G_CSET_DIGITS_def)
  show ?thesis
    using interleaved_sets_last_wins [OF r2, of 0 "''name''" "''Alice''" "[]" 1 "''Bob''" "[]"] id
    by (simp add: event_enabled_def on_incoming_def server_init_def core_init_def db_init_def store_abs_def)
qed

subsection \<open>Short writes\<close>

text \<open>C35: a short write truncates the reply for good. In a reachable state, a line is
  read on a connection with no write pending. Its reply \<open>r\<close> is written, and the write
  completes with fewer bytes \<open>n\<close> than \<open>r\<close> has. Then only the first \<open>n\<close>
  bytes of \<open>r\<close> reach the socket. The connection has no write pending and goes on
  reading, so the rest of \<open>r\<close> is never sent. The spec asks for each reply to be sent
  before the next command is read.\<close>

theorem short_write_truncates_reply:
  assumes reach: "server_reach conf path langs disk0 s"
    and en: "event_enabled path (EV_READ i (READ_LINE l m)) s"
    and idle: "conn_writing (srv_conns s ! i) = None"
    and p: "process_command_line conf (strip_cr_line l m) (srv_core s) = Some (r, c')"
    and short: "n < length r"
  shows "\<exists>s1 s2. server_step conf path (EV_READ i (READ_LINE l m)) s = Some s1
           \<and> server_step conf path (EV_WRITE_DONE i (Some n)) s1 = Some s2
           \<and> server_reach conf path langs disk0 s2 \<and> srv_core s2 = c'
           \<and> conn_sent (srv_conns s2 ! i) = conn_sent (srv_conns s ! i) @ take n r
           \<and> conn_writing (srv_conns s2 ! i) = None \<and> conn_reading (srv_conns s2 ! i)"
proof -
  have i: "i < length (srv_conns s)" and run: "srv_running s"
    using en by (simp_all add: event_enabled_def)
  have r: "crlf_line r"
    using process_command_line_ok [OF server_reach_invar [OF reach], of conf "strip_cr_line l m"] p by auto
  let ?cn1 = "(srv_conns s ! i)\<lparr>conn_writing := Some r, conn_reading := True\<rparr>"
  let ?s1 = "s\<lparr>srv_core := c', srv_conns := (srv_conns s)[i := ?cn1]\<rparr>"
  have s1: "server_step conf path (EV_READ i (READ_LINE l m)) s = Some ?s1"
    using p idle r by (simp add: server_step_def on_line_read_def cstr_crlf_line)
  have r1: "server_reach conf path langs disk0 ?s1" using server_reach.step [OF reach en s1] .
  have en2: "event_enabled path (EV_WRITE_DONE i (Some n)) ?s1"
    using i run by (simp add: event_enabled_def)
  let ?s2 = "?s1\<lparr>srv_conns := (srv_conns ?s1)[i := on_write_done (Some n) (srv_conns ?s1 ! i)]\<rparr>"
  have s2: "server_step conf path (EV_WRITE_DONE i (Some n)) ?s1 = Some ?s2"
    by (simp add: server_step_def)
  show ?thesis
    using s1 s2 server_reach.step [OF r1 en2 s2] i by (simp add: on_write_done_def)
qed

theorem short_write_truncates_reply_witness:
  "\<exists>c'. process_command_line \<lparr>UDB_MAX_KEY_LENGTH = 255, UDB_DB_SECTION = ''udb''\<rparr> (strip_cr_line ''GET a'' [])
          core_init = Some (''NULL'' @ CRLF, c')
     \<and> (\<exists>s1 s2. server_step \<lparr>UDB_MAX_KEY_LENGTH = 255, UDB_DB_SECTION = ''udb''\<rparr> None
                 (EV_READ 0 (READ_LINE ''GET a'' [])) (server_init core_init NO_FILE\<lparr>srv_conns := [on_incoming]\<rparr>) = Some s1
           \<and> server_step \<lparr>UDB_MAX_KEY_LENGTH = 255, UDB_DB_SECTION = ''udb''\<rparr> None (EV_WRITE_DONE 0 (Some 3)) s1 = Some s2
           \<and> server_reach \<lparr>UDB_MAX_KEY_LENGTH = 255, UDB_DB_SECTION = ''udb''\<rparr> None [] NO_FILE s2 \<and> srv_core s2 = c'
           \<and> conn_sent (srv_conns s2 ! 0) = [] @ take 3 (''NULL'' @ CRLF)
           \<and> conn_writing (srv_conns s2 ! 0) = None \<and> conn_reading (srv_conns s2 ! 0))"
proof -
  let ?conf = "\<lparr>UDB_MAX_KEY_LENGTH = 255, UDB_DB_SECTION = ''udb''\<rparr>"
  let ?s0 = "server_init core_init NO_FILE"
  have r0: "server_reach ?conf None [] NO_FILE ?s0"
    by (rule server_reach.start) (simp add: udb_main_def)
  have r1: "server_reach ?conf None [] NO_FILE (?s0\<lparr>srv_conns := [on_incoming]\<rparr>)"
    by (rule server_reach.step [OF r0, of EV_INCOMING]) (simp_all add: event_enabled_def server_step_def server_init_def)
  have a: "udb_identifier ''a''" by (simp add: udb_identifier_def ident_first_def G_CSET_a_2_z_def)
  obtain c' where p: "process_command_line ?conf (''GET '' @ ''a'' @ NUL # []) core_init = Some (''NULL'' @ CRLF, c')"
    using process_get_line [OF core_invar_init a, of ?conf "[]"] by auto
  have sc: "strip_cr_line ''GET a'' [] = ''GET '' @ ''a'' @ NUL # []"
    by (simp add: strip_cr_line_def)
  have en: "event_enabled None (EV_READ 0 (READ_LINE ''GET a'' [])) (?s0\<lparr>srv_conns := [on_incoming]\<rparr>)"
    by (simp add: event_enabled_def server_init_def on_incoming_def)
  have p': "process_command_line ?conf (strip_cr_line ''GET a'' []) (srv_core (?s0\<lparr>srv_conns := [on_incoming]\<rparr>))
      = Some (''NULL'' @ CRLF, c')"
    using p sc by (simp add: server_init_def)
  have idle: "conn_writing (srv_conns (?s0\<lparr>srv_conns := [on_incoming]\<rparr>) ! 0) = None"
    by (simp add: on_incoming_def)
  show ?thesis
    using p' short_write_truncates_reply [OF r1 en idle p', of 3]
    by (simp add: on_incoming_def server_init_def)
qed

end
